theory Spec2Isabelle
  imports Complex_Main "HOL-Library.Word"
begin

section \<open>JavaScript strings\<close>

text \<open>
  A JavaScript string is a sequence of UTF-16 code units. Every dictionary word of the
  program lies in the Basic Multilingual Plane, so each of its characters is one code unit.
  String constants of the source are written as their code units; ASCII constants are
  written with \<open>ascii\<close>.
\<close>

type_synonym jsstring = "16 word list"

definition ascii :: "string \<Rightarrow> jsstring" where
  "ascii s = map (\<lambda>c. of_char c) s"

text \<open>\<open>String.prototype.startsWith\<close> and \<open>String.prototype.includes\<close>: the search
  string occurs at the front, respectively at some position, of the receiver.\<close>

fun startsWith :: "jsstring \<Rightarrow> jsstring \<Rightarrow> bool" where
  "startsWith s [] = True"
| "startsWith [] (c # w) = False"
| "startsWith (d # s) (c # w) = (d = c \<and> startsWith s w)"

fun js_includes :: "jsstring \<Rightarrow> jsstring \<Rightarrow> bool" where
  "js_includes [] w = (w = [])"
| "js_includes (c # s) w = (startsWith (c # s) w \<or> js_includes s w)"

text \<open>A request field that is absent (\<open>undefined\<close>) is \<open>None\<close>. The test \<open>!x\<close> on such a
  field holds when the field is absent or is the empty string.\<close>

definition falsy :: "jsstring option \<Rightarrow> bool" where
  "falsy x = (case x of None \<Rightarrow> True | Some s \<Rightarrow> s = [])"

text \<open>\<open>x || d\<close> on an optional string.\<close>

definition or_default :: "jsstring option \<Rightarrow> jsstring \<Rightarrow> jsstring" where
  "or_default x d = (case x of None \<Rightarrow> d | Some s \<Rightarrow> if s = [] then d else s)"

section \<open>HTTP responses\<close>

text \<open>
  A response carries the status code, the \<open>success\<close> flag of the JSON body and, when
  there is one, the \<open>data\<close> member. \<open>res.json\<close> without \<open>res.status\<close> answers 200.
  The \<open>message\<close> texts of the bodies are not part of the model.
\<close>

record 'a response =
  status :: nat
  success :: bool
  data :: "'a option"

definition fail :: "nat \<Rightarrow> 'a response" where
  "fail code = \<lparr>status = code, success = False, data = None\<rparr>"

definition ok :: "'a \<Rightarrow> 'a response" where
  "ok d = \<lparr>status = 200, success = True, data = Some d\<rparr>"

section \<open>The database (postgres.js)\<close>

text \<open>
  The tables of \<open>initDatabase\<close>, each a list of rows in insertion order. Timestamps are
  integers; \<open>NOW()\<close> is the clock reading \<open>now\<close> handed to the operation. The JSONB columns
  hold the value that \<open>JSON.stringify\<close> wrote.
\<close>

record user_row =
  u_id :: jsstring
  u_username :: jsstring
  u_password :: jsstring
  u_avatar :: jsstring
  u_bio :: jsstring
  u_created_at :: int
  u_updated_at :: int

record pv_entry =
  dimension :: jsstring
  score :: int

record soul_profile_row =
  sp_id :: jsstring
  sp_user_id :: jsstring
  sp_interests :: "jsstring list"
  sp_values :: "jsstring list"
  sp_communication_style :: jsstring
  sp_emotion_tendency :: jsstring
  sp_personality_vector :: "pv_entry list"
  sp_match_score :: int
  sp_ai_summary :: jsstring
  sp_created_at :: int
  sp_updated_at :: int

record moment_row =
  m_id :: jsstring
  m_user_id :: jsstring
  m_content :: jsstring
  m_content_type :: jsstring
  m_sentiment :: jsstring
  m_keywords :: "jsstring list"
  m_created_at :: int

record interaction_row =
  i_id :: jsstring
  i_user_id :: jsstring
  i_target_id :: jsstring
  i_interaction_type :: jsstring
  i_content :: jsstring
  i_created_at :: int

text \<open>
  SQL leaves open in which order a sorted \<open>SELECT\<close> returns rows whose sort keys are equal.
  The choice of the executor belongs to the state of the database system: \<open>db_moment_tie\<close>
  and \<open>db_interaction_tie\<close> rank the rows, and rows of equal \<open>created_at\<close> are returned in
  the order of their ranks. The ranks are arbitrary, and no operation of the program reads
  or sets them.
\<close>

record database =
  db_users :: "user_row list"
  db_soul_profiles :: "soul_profile_row list"
  db_moments :: "moment_row list"
  db_interactions :: "interaction_row list"
  db_moment_tie :: "moment_row \<Rightarrow> int"
  db_interaction_tie :: "interaction_row \<Rightarrow> int"

text \<open>
  \<open>pool.query\<close> rejects, and the operation throws, when the statement breaks a constraint of
  the schema or when PostgreSQL does not accept a bound value. PostgreSQL accepts no text
  that holds the code unit U+0000, neither as a text parameter nor, written \<open>\u0000\<close> by
  \<open>JSON.stringify\<close>, in a string of a JSONB value. An \<open>INTEGER\<close> column holds the integers
  of 32 bits. The values are checked when they are bound, before the statement runs.
\<close>

datatype db_error = UniqueViolation | ForeignKeyViolation | InvalidInput

definition pg_text :: "jsstring \<Rightarrow> bool" where
  "pg_text s \<longleftrightarrow> 0 \<notin> set s"

definition pg_jsonb :: "jsstring list \<Rightarrow> bool" where
  "pg_jsonb strings \<longleftrightarrow> list_all pg_text strings"

definition pg_integer :: "int \<Rightarrow> bool" where
  "pg_integer n \<longleftrightarrow> - 2147483648 \<le> n \<and> n \<le> 2147483647"

text \<open>The rows of a result, none when the operation has thrown.\<close>

definition rows :: "db_error + 'a list \<Rightarrow> 'a list" where
  "rows r = (case r of Inl e \<Rightarrow> [] | Inr xs \<Rightarrow> xs)"

subsection \<open>userOperations\<close>

definition userOperations_findById :: "database \<Rightarrow> jsstring \<Rightarrow> db_error + user_row option" where
  "userOperations_findById db ident =
     (if \<not> pg_text ident then Inl InvalidInput
      else Inr (find (\<lambda>u. u_id u = ident) (db_users db)))"

definition userOperations_findByUsername ::
  "database \<Rightarrow> jsstring \<Rightarrow> db_error + user_row option" where
  "userOperations_findByUsername db username =
     (if \<not> pg_text username then Inl InvalidInput
      else Inr (find (\<lambda>u. u_username u = username) (db_users db)))"


subsection \<open>momentOperations\<close>

text \<open>\<open>INSERT INTO moments\<close>: \<open>id\<close> is the primary key and \<open>user_id\<close> references
  \<open>users(id)\<close>.\<close>

definition momentOperations_create ::
  "int \<Rightarrow> jsstring \<Rightarrow> jsstring \<Rightarrow> jsstring \<Rightarrow> jsstring option \<Rightarrow> jsstring option
     \<Rightarrow> jsstring list \<Rightarrow> database \<Rightarrow> db_error + database" where
  "momentOperations_create now ident user_id content content_type sentiment keywords db =
     (if \<not> (pg_text ident \<and> pg_text user_id \<and> pg_text content
             \<and> pg_text (or_default content_type (ascii ''text''))
             \<and> pg_text (or_default sentiment []) \<and> pg_jsonb keywords)
      then Inl InvalidInput
      else if ident \<in> set (map m_id (db_moments db)) then Inl UniqueViolation
      else if user_id \<notin> set (map u_id (db_users db)) then Inl ForeignKeyViolation
      else Inr (db\<lparr>db_moments := db_moments db @
             [\<lparr>m_id = ident, m_user_id = user_id, m_content = content,
               m_content_type = or_default content_type (ascii ''text''),
               m_sentiment = or_default sentiment [],
               m_keywords = keywords, m_created_at = now\<rparr>]\<rparr>))"

text \<open>\<open>SELECT * FROM moments WHERE user_id = $1 ORDER BY created_at DESC LIMIT $2\<close>. The rows
  of the user are sorted by \<open>created_at\<close>, the newest first, those of equal \<open>created_at\<close> by
  their rank.\<close>

definition momentOperations_findByUserId_limit ::
  "database \<Rightarrow> jsstring \<Rightarrow> nat \<Rightarrow> db_error + moment_row list" where
  "momentOperations_findByUserId_limit db userId limit =
     (if \<not> pg_text userId then Inl InvalidInput
      else Inr (take limit
                  (sort_key (\<lambda>m. - m_created_at m)
                     (sort_key (db_moment_tie db)
                        (filter (\<lambda>m. m_user_id m = userId) (db_moments db))))))"

text \<open>The rows that the call without a limit returns, none when the call fails: the limit
  defaults to 20.\<close>

definition momentOperations_findByUserId :: "database \<Rightarrow> jsstring \<Rightarrow> moment_row list" where
  "momentOperations_findByUserId db userId = rows (momentOperations_findByUserId_limit db userId 20)"

subsection \<open>interactionOperations\<close>

text \<open>\<open>SELECT * FROM interactions WHERE user_id = $1 ORDER BY created_at DESC LIMIT $2\<close>, the
  limit defaulting to 50.\<close>

definition interactionOperations_findByUserId ::
  "database \<Rightarrow> jsstring \<Rightarrow> db_error + interaction_row list" where
  "interactionOperations_findByUserId db userId =
     (if \<not> pg_text userId then Inl InvalidInput
      else Inr (take 50
                  (sort_key (\<lambda>i. - i_created_at i)
                     (sort_key (db_interaction_tie db)
                        (filter (\<lambda>i. i_user_id i = userId) (db_interactions db))))))"


subsection \<open>soulProfileOperations\<close>

text \<open>The object \<open>profileData\<close> that the analysis hands to \<open>create\<close> and \<open>update\<close>. The match
  score is \<open>None\<close> when it is \<open>NaN\<close>.\<close>

record profile_data =
  pd_interests :: "jsstring list"
  pd_values :: "jsstring list"
  pd_communication_style :: jsstring
  pd_emotion_tendency :: jsstring
  pd_personality_vector :: "pv_entry list"
  pd_match_score :: "int option"
  pd_ai_summary :: jsstring

definition soulProfileOperations_findByUserId ::
  "database \<Rightarrow> jsstring \<Rightarrow> db_error + soul_profile_row option" where
  "soulProfileOperations_findByUserId db userId =
     (if \<not> pg_text userId then Inl InvalidInput
      else Inr (find (\<lambda>p. sp_user_id p = userId) (db_soul_profiles db)))"

text \<open>The bound values of \<open>profileData\<close>: three texts, the strings of the three JSONB values,
  and the match score, which must be an integer of 32 bits (\<open>NaN\<close> is none).\<close>

definition pg_profile :: "profile_data \<Rightarrow> int option \<Rightarrow> bool" where
  "pg_profile profile matchScore \<longleftrightarrow>
     pg_jsonb (pd_interests profile) \<and> pg_jsonb (pd_values profile)
     \<and> pg_text (pd_communication_style profile) \<and> pg_text (pd_emotion_tendency profile)
     \<and> pg_jsonb (map dimension (pd_personality_vector profile))
     \<and> (case matchScore of None \<Rightarrow> False | Some s \<Rightarrow> pg_integer s)
     \<and> pg_text (pd_ai_summary profile)"

text \<open>\<open>INSERT INTO soul_profiles\<close>: \<open>id\<close> is the primary key, \<open>user_id\<close> is \<open>UNIQUE\<close> and
  references \<open>users(id)\<close>. \<open>profile.match_score || 0\<close> binds 0 for \<open>NaN\<close>.\<close>

definition soulProfileOperations_create ::
  "int \<Rightarrow> jsstring \<Rightarrow> jsstring \<Rightarrow> profile_data \<Rightarrow> database \<Rightarrow> db_error + database" where
  "soulProfileOperations_create now ident user_id profile db =
     (let matchScore = (case pd_match_score profile of None \<Rightarrow> 0 | Some s \<Rightarrow> s) in
      if \<not> (pg_text ident \<and> pg_text user_id \<and> pg_profile profile (Some matchScore))
      then Inl InvalidInput
      else if ident \<in> set (map sp_id (db_soul_profiles db))
              \<or> user_id \<in> set (map sp_user_id (db_soul_profiles db))
      then Inl UniqueViolation
      else if user_id \<notin> set (map u_id (db_users db)) then Inl ForeignKeyViolation
      else Inr (db\<lparr>db_soul_profiles := db_soul_profiles db @
             [\<lparr>sp_id = ident, sp_user_id = user_id,
               sp_interests = pd_interests profile, sp_values = pd_values profile,
               sp_communication_style = pd_communication_style profile,
               sp_emotion_tendency = pd_emotion_tendency profile,
               sp_personality_vector = pd_personality_vector profile,
               sp_match_score = matchScore,
               sp_ai_summary = pd_ai_summary profile,
               sp_created_at = now, sp_updated_at = now\<rparr>]\<rparr>))"

text \<open>\<open>UPDATE soul_profiles SET ... WHERE user_id = $8\<close> with the seven members of
  \<open>profileData\<close> and \<open>updated_at = NOW()\<close>.\<close>

definition soulProfileOperations_update ::
  "int \<Rightarrow> jsstring \<Rightarrow> profile_data \<Rightarrow> database \<Rightarrow> db_error + database" where
  "soulProfileOperations_update now userId updates db =
     (if \<not> (pg_profile updates (pd_match_score updates) \<and> pg_text userId)
      then Inl InvalidInput
      else
        Inr (db\<lparr>db_soul_profiles :=
               map (\<lambda>p. if sp_user_id p = userId
                         then p\<lparr>sp_interests := pd_interests updates,
                                sp_values := pd_values updates,
                                sp_communication_style := pd_communication_style updates,
                                sp_emotion_tendency := pd_emotion_tendency updates,
                                sp_personality_vector := pd_personality_vector updates,
                                sp_match_score := the (pd_match_score updates),
                                sp_ai_summary := pd_ai_summary updates,
                                sp_updated_at := now\<rparr>
                         else p)
                 (db_soul_profiles db)\<rparr>))"

section \<open>The application server: users and moments\<close>

text \<open>
  The environment of a request: \<open>uuidv4 k\<close> is the value of the \<open>k\<close>-th call of \<open>uuidv4()\<close>
  made while the request is served, \<open>now\<close> is the database clock. The bcrypt library is
  taken as given: \<open>hashSync password rounds\<close> is the hash it produces in this request and
  \<open>compareSync password hash\<close> is its verdict.
\<close>

subsection \<open>Sentiment and keywords\<close>

text \<open>The dictionaries hold Chinese words, written here by their code units in the order
  of the source. The eight positive words are those for happy, joyful, beautiful, blissful,
  to like, love, great and good; the seven negative words those for sad, heartbroken,
  lonely, lost, regret, pain and tired.\<close>

definition positiveWords :: "jsstring list" where
  "positiveWords = [[0x5F00, 0x5FC3], [0x5FEB, 0x4E50], [0x7F8E, 0x597D], [0x5E78, 0x798F],
     [0x559C, 0x6B22], [0x7231], [0x68D2], [0x597D]]"

definition negativeWords :: "jsstring list" where
  "negativeWords = [[0x96BE, 0x8FC7], [0x4F24, 0x5FC3], [0x5B64, 0x72EC], [0x5931, 0x843D],
     [0x9057, 0x61BE], [0x75DB], [0x7D2F]]"

text \<open>The two \<open>forEach\<close> loops of \<open>analyzeSentiment\<close> run over the dictionaries with the
  running \<open>score\<close>.\<close>

definition analyzeSentiment :: "jsstring \<Rightarrow> jsstring" where
  "analyzeSentiment text =
     (let score = foldl (\<lambda>score word. if js_includes text word then score + 1 else score)
                    (0::int) positiveWords;
          score = foldl (\<lambda>score word. if js_includes text word then score - 1 else score)
                    score negativeWords
      in if score > 0 then ascii ''positive''
         else if score < 0 then ascii ''negative''
         else ascii ''neutral'')"

text \<open>The ten interest words: music, film, book, travel, food, sport, technology, art,
  philosophy and photography.\<close>

definition interestWords :: "jsstring list" where
  "interestWords = [[0x97F3, 0x4E50], [0x7535, 0x5F71], [0x4E66], [0x65C5, 0x884C],
     [0x7F8E, 0x98DF], [0x8FD0, 0x52A8], [0x79D1, 0x6280], [0x827A, 0x672F],
     [0x54F2, 0x5B66], [0x6444, 0x5F71]]"

definition extractKeywords :: "jsstring \<Rightarrow> jsstring list" where
  "extractKeywords text =
     take 5 (foldl (\<lambda>keywords word. if js_includes text word then keywords @ [word] else keywords)
               [] interestWords)"

subsection \<open>POST /api/users/register\<close>





subsection \<open>POST /api/users/login\<close>

record login_req =
  log_username :: "jsstring option"
  log_password :: "jsstring option"

record login_data =
  ld_userId :: jsstring
  ld_username :: jsstring
  ld_avatar :: jsstring
  ld_bio :: jsstring

text \<open>The route only reads the database.\<close>

definition login_route ::
  "(jsstring \<Rightarrow> jsstring \<Rightarrow> bool) \<Rightarrow> login_req \<Rightarrow> database \<Rightarrow> login_data response" where
  "login_route compareSync req db =
     (if falsy (log_username req) \<or> falsy (log_password req) then fail 400
      else
        let username = the (log_username req); password = the (log_password req) in
        case userOperations_findByUsername db username of
          Inl e \<Rightarrow> fail 500
        | Inr None \<Rightarrow> fail 404
        | Inr (Some user) \<Rightarrow>
            if \<not> compareSync password (u_password user) then fail 401
            else ok \<lparr>ld_userId = u_id user, ld_username = u_username user,
                      ld_avatar = u_avatar user, ld_bio = u_bio user\<rparr>)"

subsection \<open>POST /api/moments/create\<close>

record create_moment_req =
  cm_userId :: "jsstring option"
  cm_content :: "jsstring option"
  cm_contentType :: "jsstring option"

text \<open>The names of the keyword functions, for the record of which of them a request ran.\<close>

datatype keyword_fn =
  AnalyzeSentiment | ExtractKeywords | ExtractInterests | AnalyzeValues | GeneratePersonalityVector

record create_moment_result =
  cm_response :: "jsstring response"
  cm_db :: database
  cm_ran :: "keyword_fn list"

text \<open>The handler checks its two parameters, computes sentiment and keywords of the content
  and inserts the row. It makes no call to the AI endpoint, which is no parameter of it;
  \<open>cm_ran\<close> lists the keyword functions it ran.\<close>

definition create_moment_route ::
  "(nat \<Rightarrow> jsstring) \<Rightarrow> int \<Rightarrow> create_moment_req \<Rightarrow> database \<Rightarrow> create_moment_result" where
  "create_moment_route uuidv4 now req db =
     (if falsy (cm_userId req) \<or> falsy (cm_content req)
      then \<lparr>cm_response = fail 400, cm_db = db, cm_ran = []\<rparr>
      else
        let userId = the (cm_userId req); content = the (cm_content req);
            momentId = uuidv4 0;
            sentiment = analyzeSentiment content;
            keywords = extractKeywords content
        in case momentOperations_create now momentId userId content
                  (Some (or_default (cm_contentType req) (ascii ''text'')))
                  (Some sentiment) keywords db of
             Inl e \<Rightarrow> \<lparr>cm_response = fail 500, cm_db = db,
                        cm_ran = [AnalyzeSentiment, ExtractKeywords]\<rparr>
           | Inr db' \<Rightarrow> \<lparr>cm_response = ok momentId, cm_db = db',
                          cm_ran = [AnalyzeSentiment, ExtractKeywords]\<rparr>)"

section \<open>The social assistant (routes/assistant.js)\<close>

subsection \<open>Numbers in template strings\<close>

text \<open>The decimal digits of a length, as \<open>${messageCount}\<close> interpolates it.\<close>

function decimal :: "nat \<Rightarrow> jsstring" where
  "decimal n = (if n < 10 then [of_nat (48 + n)] else decimal (n div 10) @ [of_nat (48 + n mod 10)])"
  by pat_completeness auto
termination
  by (relation "measure id") auto

declare decimal.simps [simp del]

text \<open>\<open>Array.prototype.join\<close> on an array of strings.\<close>

fun join :: "jsstring \<Rightarrow> jsstring list \<Rightarrow> jsstring" where
  "join sep [] = []"
| "join sep [x] = x"
| "join sep (x # y # ys) = x @ sep @ join sep (y # ys)"

subsection \<open>JSON values\<close>

text \<open>The order of the members of an object carries no meaning.\<close>

datatype json =
  JNull | JBool bool | JNum rat | JStr jsstring | JArr "json list" | JObj "(jsstring \<times> json) list"

fun get_field :: "json \<Rightarrow> jsstring \<Rightarrow> json option" where
  "get_field (JObj kvs) k = map_of kvs k"
| "get_field _ k = None"

text \<open>Assignment of a property: an existing member is overwritten, a new one is added.\<close>

fun put_prop :: "jsstring \<Rightarrow> json \<Rightarrow> (jsstring \<times> json) list \<Rightarrow> (jsstring \<times> json) list" where
  "put_prop k v [] = [(k, v)]"
| "put_prop k v ((k', v') # kvs) = (if k' = k then (k, v) # kvs else (k', v') # put_prop k v kvs)"

text \<open>The own enumerable properties that \<open>...item\<close> copies: the members of an object, the
  indexed elements of an array, the indexed code units of a string, nothing otherwise.\<close>

definition own_props :: "json \<Rightarrow> (jsstring \<times> json) list" where
  "own_props item =
     (case item of
        JObj kvs \<Rightarrow> kvs
      | JArr xs \<Rightarrow> map (\<lambda>(i, x). (decimal i, x)) (enumerate 0 xs)
      | JStr s \<Rightarrow> map (\<lambda>(i, c). (decimal i, JStr [c])) (enumerate 0 s)
      | _ \<Rightarrow> [])"

definition spread :: "(jsstring \<times> json) list \<Rightarrow> json \<Rightarrow> (jsstring \<times> json) list" where
  "spread obj item = foldl (\<lambda>obj (k, v). put_prop k v obj) obj (own_props item)"

subsection \<open>Extraction of JSON from the reply\<close>

text \<open>
  The patterns \<open>/\[[\s\S]*\]/\<close> and \<open>/\{[\s\S]*\}/\<close> are an opening character, the greedy
  star of the class that holds every code unit, and a closing character. After the opening
  character the star first takes one more code unit and lets the rest of the pattern go on;
  when that fails it gives the code unit back, and the closing character must stand there.
\<close>

fun star_then :: "16 word \<Rightarrow> jsstring \<Rightarrow> jsstring option" where
  "star_then close [] = None"
| "star_then close (c # s) =
     (case star_then close s of
        Some m \<Rightarrow> Some (c # m)
      | None \<Rightarrow> if c = close then Some [c] else None)"

definition match_at :: "16 word \<Rightarrow> 16 word \<Rightarrow> jsstring \<Rightarrow> jsstring option" where
  "match_at opn close s =
     (case s of
        [] \<Rightarrow> None
      | c # rest \<Rightarrow> if c = opn then map_option (\<lambda>m. c # m) (star_then close rest) else None)"

text \<open>\<open>String.prototype.match\<close> tries the start positions from left to right; the result is
  the matched text \<open>jsonMatch[0]\<close>, or \<open>None\<close> for \<open>null\<close>.\<close>

fun regex_match :: "16 word \<Rightarrow> 16 word \<Rightarrow> jsstring \<Rightarrow> jsstring option" where
  "regex_match opn close [] = None"
| "regex_match opn close (c # s) =
     (case match_at opn close (c # s) of
        Some m \<Rightarrow> Some m
      | None \<Rightarrow> regex_match opn close s)"

definition match_array :: "jsstring \<Rightarrow> jsstring option" where
  "match_array aiResponse = regex_match 0x5B 0x5D aiResponse"

definition match_object :: "jsstring \<Rightarrow> jsstring option" where
  "match_object aiResponse = regex_match 0x7B 0x7D aiResponse"

subsection \<open>The AI endpoint\<close>

text \<open>
  The chat-completion endpoint is a parameter \<open>ai\<close>: \<open>ai prompt\<close> is the content of the reply
  to the user prompt, \<open>None\<close> when the HTTP call fails. \<open>JSON.parse\<close> is a parameter as well,
  \<open>None\<close> when it throws. In this module \<open>callAIModel\<close> throws when the call fails.
\<close>

datatype js_error = Error | SyntaxError | TypeError

definition callAIModel :: "(jsstring \<Rightarrow> jsstring option) \<Rightarrow> jsstring \<Rightarrow> js_error + jsstring" where
  "callAIModel ai prompt = (case ai prompt of None \<Rightarrow> Inl Error | Some content \<Rightarrow> Inr content)"

subsection \<open>POST /api/assistant/generate\<close>

record generate_req =
  gen_content :: "jsstring option"
  gen_type :: "jsstring option"

record generate_data =
  gd_original :: jsstring
  gd_type :: jsstring
  gd_suggestions :: "json list"

text \<open>\<open>gen_fallback\<close> records that the \<open>catch\<close> block ran, which logs that the default
  templates are used.\<close>

record generate_result =
  gen_response :: "generate_data response"
  gen_fallback :: bool

text \<open>The first \<open>switch\<close>: the prompt for the three types, \<open>None\<close> in the \<open>default\<close> case.\<close>

definition generate_prompt :: "jsstring \<Rightarrow> jsstring \<Rightarrow> jsstring option" where
  "generate_prompt type content =
     (if type = ascii ''moment'' then Some (
        [0x8BF7, 0x6839, 0x636E, 0x7528, 0x6237, 0x7684, 0x60F3, 0x6CD5, 0xFF1A, 0x0022] @ content @
        [0x0022, 0xFF0C, 0x751F, 0x6210, 0x0033, 0x6761, 0x4E0D, 0x540C, 0x98CE, 0x683C, 0x7684,
         0x77AC, 0x95F4, 0x6587, 0x6848, 0xFF1A, 0x000A, 0x0031, 0x002E, 0x0020, 0x6587, 0x827A,
         0x98CE, 0x683C, 0xFF08, 0x4F18, 0x96C5, 0x3001, 0x8BD7, 0x610F, 0xFF09, 0x000A, 0x0032,
         0x002E, 0x0020, 0x641E, 0x7B11, 0x98CE, 0x683C, 0xFF08, 0x8F7B, 0x677E, 0x3001, 0x5E7D,
         0x9ED8, 0xFF09, 0x000A, 0x0033, 0x002E, 0x0020, 0x6DF1, 0x6C89, 0x98CE, 0x683C, 0xFF08,
         0x54F2, 0x7406, 0x3001, 0x601D, 0x8003, 0xFF09, 0x000A, 0x000A, 0x8BF7, 0x4EE5, 0x004A,
         0x0053, 0x004F, 0x004E, 0x6570, 0x7EC4, 0x683C, 0x5F0F, 0x8FD4, 0x56DE, 0xFF0C, 0x6BCF,
         0x6761, 0x5305, 0x542B, 0x0073, 0x0074, 0x0079, 0x006C, 0x0065, 0xFF08, 0x98CE, 0x683C,
         0xFF09, 0x3001, 0x0074, 0x0065, 0x0078, 0x0074, 0xFF08, 0x6587, 0x6848, 0xFF09, 0x3001,
         0x0065, 0x006D, 0x006F, 0x006A, 0x0069, 0xFF08, 0x8868, 0x60C5, 0x7B26, 0x53F7, 0xFF09,
         0x5B57, 0x6BB5, 0x3002])
      else if type = ascii ''icebreaker'' then Some (
        [0x7528, 0x6237, 0x60F3, 0x8981, 0x4E0E, 0x4E00, 0x4E2A, 0x5BF9, 0x65B9, 0x8FDB, 0x884C,
         0x7834, 0x51B0, 0x4EA4, 0x6D41, 0xFF0C, 0x5BF9, 0x65B9, 0x7684, 0x7279, 0x70B9, 0x662F,
         0xFF1A, 0x0022] @ content @
        [0x0022, 0x3002, 0x000A, 0x8BF7, 0x751F, 0x6210, 0x0033, 0x6761, 0x4E2A, 0x6027, 0x5316,
         0x7684, 0x7834, 0x51B0, 0x5F00, 0x573A, 0x767D, 0xFF0C, 0x8981, 0x6C42, 0xFF1A, 0x000A,
         0x0031, 0x002E, 0x0020, 0x5174, 0x8DA3, 0x5171, 0x9E23, 0x578B, 0xFF08, 0x57FA, 0x4E8E,
         0x5171, 0x540C, 0x5174, 0x8DA3, 0x8BDD, 0x9898, 0xFF09, 0x000A, 0x0032, 0x002E, 0x0020,
         0x771F, 0x8BDA, 0x63D0, 0x95EE, 0x578B, 0xFF08, 0x5C55, 0x73B0, 0x771F, 0x5B9E, 0x597D,
         0x5947, 0xFF09, 0x000A, 0x0033, 0x002E, 0x0020, 0x8F7B, 0x677E, 0x5E7D, 0x9ED8, 0x578B,
         0xFF08, 0x6D3B, 0x6CFC, 0x53CB, 0x597D, 0xFF09, 0x000A, 0x000A, 0x8BF7, 0x4EE5, 0x004A,
         0x0053, 0x004F, 0x004E, 0x6570, 0x7EC4, 0x683C, 0x5F0F, 0x8FD4, 0x56DE, 0xFF0C, 0x6BCF,
         0x6761, 0x5305, 0x542B, 0x0061, 0x0070, 0x0070, 0x0072, 0x006F, 0x0061, 0x0063, 0x0068,
         0xFF08, 0x65B9, 0x5F0F, 0xFF09, 0x3001, 0x0074, 0x0065, 0x0078, 0x0074, 0xFF08, 0x8BDD,
         0x672F, 0xFF09, 0x3001, 0x0074, 0x006F, 0x006E, 0x0065, 0xFF08, 0x8BED, 0x6C14, 0xFF09,
         0x5B57, 0x6BB5, 0x3002])
      else if type = ascii ''bio'' then Some (
        [0x7528, 0x6237, 0x60F3, 0x8981, 0x521B, 0x4F5C, 0x4E2A, 0x4EBA, 0x7B80, 0x4ECB, 0xFF0C,
         0x4ED6, 0x7684, 0x7279, 0x70B9, 0x662F, 0xFF1A, 0x0022] @ content @
        [0x0022, 0x3002, 0x000A, 0x8BF7, 0x751F, 0x6210, 0x0033, 0x6761, 0x4E0D, 0x540C, 0x98CE,
         0x683C, 0x7684, 0x4E2A, 0x4EBA, 0x7B80, 0x4ECB, 0xFF1A, 0x000A, 0x0031, 0x002E, 0x0020,
         0x7B80, 0x7EA6, 0x98CE, 0x683C, 0xFF08, 0x77ED, 0x5C0F, 0x7CBE, 0x608D, 0xFF09, 0x000A,
         0x0032, 0x002E, 0x0020, 0x8BD7, 0x610F, 0x98CE, 0x683C, 0xFF08, 0x6587, 0x827A, 0x6D6A,
         0x6F2B, 0xFF09, 0x000A, 0x0033, 0x002E, 0x0020, 0x771F, 0x5B9E, 0x98CE, 0x683C, 0xFF08,
         0x771F, 0x8BDA, 0x81EA, 0x7136, 0xFF09, 0x000A, 0x000A, 0x8BF7, 0x4EE5, 0x004A, 0x0053,
         0x004F, 0x004E, 0x6570, 0x7EC4, 0x683C, 0x5F0F, 0x8FD4, 0x56DE, 0xFF0C, 0x6BCF, 0x6761,
         0x5305, 0x542B, 0x0073, 0x0074, 0x0079, 0x006C, 0x0065, 0xFF08, 0x98CE, 0x683C, 0xFF09,
         0x3001, 0x0074, 0x0065, 0x0078, 0x0074, 0xFF08, 0x7B80, 0x4ECB, 0xFF09, 0x3001, 0x006C,
         0x0065, 0x006E, 0x0067, 0x0074, 0x0068, 0xFF08, 0x957F, 0x5EA6, 0xFF1A, 0x77ED, 0x002F,
         0x4E2D, 0x002F, 0x957F, 0xFF09, 0x5B57, 0x6BB5, 0x3002])
      else None)"

text \<open>The second \<open>switch\<close>, in the \<open>catch\<close> block: three objects per type, each with the
  identifier of its own \<open>uuidv4()\<close> call. No type other than the three reaches it, and it
  has no \<open>default\<close> case.\<close>

definition default_templates :: "jsstring \<Rightarrow> jsstring \<Rightarrow> (nat \<Rightarrow> jsstring) \<Rightarrow> json list" where
  "default_templates type content uuidv4 =
     (if type = ascii ''moment'' then
        [JObj [(ascii ''id'', JStr (uuidv4 0)),
              (ascii ''style'', JStr [0x6587, 0x827A]),
              (ascii ''text'', JStr (content @ [0xFF0C, 0x5982, 0x8BD7, 0x822C, 0x7684, 0x77AC,
                                                0x95F4, 0xFF0C, 0x5B9A, 0x683C, 0x5728, 0x65F6,
                                                0x5149, 0x7684, 0x8936, 0x76B1, 0x91CC, 0x3002])),
              (ascii ''emoji'', JStr [0xD83C, 0xDF38])],
         JObj [(ascii ''id'', JStr (uuidv4 1)),
              (ascii ''style'', JStr [0x641E, 0x7B11]),
              (ascii ''text'', JStr (content @ [0xFF01, 0x4EBA, 0x751F, 0x82E6, 0x77ED, 0xFF0C,
                                                0x6211, 0x9009, 0x62E9, 0x5FEB, 0x4E50, 0xFF08,
                                                0x548C, 0x7F8E, 0x98DF, 0xFF09, 0xD83D, 0xDE0E])),
              (ascii ''emoji'', JStr [0xD83D, 0xDE02])],
         JObj [(ascii ''id'', JStr (uuidv4 2)),
              (ascii ''style'', JStr [0x6DF1, 0x6C89]),
              (ascii ''text'', JStr ([0x5173, 0x4E8E] @ content @ [0x7684, 0x601D, 0x8003, 0xFF1A,
                                                                   0x6211, 0x4EEC, 0x90FD, 0x662F,
                                                                   0x65F6, 0x95F4, 0x6D2A, 0x6D41,
                                                                   0x4E2D, 0x7684, 0x8FC7, 0x5BA2,
                                                                   0xFF0C, 0x552F, 0x6709, 0x6B64,
                                                                   0x523B, 0x503C, 0x5F97, 0x73CD,
                                                                   0x60DC, 0x3002])),
              (ascii ''emoji'', JStr [0xD83C, 0xDF19])]]
      else if type = ascii ''icebreaker'' then
        [JObj [(ascii ''id'', JStr (uuidv4 0)),
              (ascii ''approach'', JStr [0x5174, 0x8DA3, 0x5171, 0x9E23]),
              (ascii ''text'', JStr ([0x55E8, 0xFF01, 0x770B, 0x5230, 0x4F60, 0x5206, 0x4EAB,
                                      0x7684, 0x5185, 0x5BB9, 0xFF0C, 0x611F, 0x89C9, 0x6211,
                                      0x4EEC, 0x5BF9, 0x0022] @ content @ [0x0022, 0x6709, 0x76F8,
                                                                           0x4F3C, 0x7684, 0x770B,
                                                                           0x6CD5, 0x3002, 0x53EF,
                                                                           0x4EE5, 0x804A, 0x804A,
                                                                           0x5417, 0xFF1F])),
              (ascii ''tone'', JStr [0x53CB, 0x597D])],
         JObj [(ascii ''id'', JStr (uuidv4 1)),
              (ascii ''approach'', JStr [0x771F, 0x8BDA, 0x63D0, 0x95EE]),
              (ascii ''text'', JStr ([0x4F60, 0x597D, 0xFF01, 0x88AB, 0x4F60, 0x5173, 0x4E8E,
                                      0x0022] @ content @ [0x0022, 0x7684, 0x89C1, 0x89E3, 0x5438,
                                                           0x5F15, 0x4E86, 0xFF0C, 0x80FD, 0x5206,
                                                           0x4EAB, 0x66F4, 0x591A, 0x60F3, 0x6CD5,
                                                           0x5417, 0xFF1F, 0x6211, 0x5BF9, 0x8FD9,
                                                           0x4E2A, 0x8BDD, 0x9898, 0x4E5F, 0x5F88,
                                                           0x611F, 0x5174, 0x8DA3, 0x3002])),
              (ascii ''tone'', JStr [0x771F, 0x8BDA])],
         JObj [(ascii ''id'', JStr (uuidv4 2)),
              (ascii ''approach'', JStr [0x8F7B, 0x677E, 0x5E7D, 0x9ED8]),
              (ascii ''text'', JStr ([0x54C8, 0x55BD, 0xFF01, 0x770B, 0x5230, 0x0022] @ content @ [0x0022,
                                                                                                   0x8FD9,
                                                                                                   0x4E2A,
                                                                                                   0x8BDD,
                                                                                                   0x9898,
                                                                                                   0xFF0C,
                                                                                                   0x5FCD,
                                                                                                   0x4E0D,
                                                                                                   0x4F4F,
                                                                                                   0x60F3,
                                                                                                   0x8BF4,
                                                                                                   0xFF1A,
                                                                                                   0x7EC8,
                                                                                                   0x4E8E,
                                                                                                   0x9047,
                                                                                                   0x5230,
                                                                                                   0x77E5,
                                                                                                   0x97F3,
                                                                                                   0x4E86,
                                                                                                   0xFF01,
                                                                                                   0x804A,
                                                                                                   0x804A,
                                                                                                   0xFF1F,
                                                                                                   0xD83C,
                                                                                                   0xDF89])),
              (ascii ''tone'', JStr [0x8F7B, 0x677E])]]
      else if type = ascii ''bio'' then
        [JObj [(ascii ''id'', JStr (uuidv4 0)),
              (ascii ''style'', JStr [0x7B80, 0x7EA6]),
              (ascii ''text'', JStr (content @ [0x0020, 0x007C, 0x0020, 0x63A2, 0x7D22, 0x751F,
                                                0x6D3B, 0x7684, 0x65E0, 0x9650, 0x53EF, 0x80FD])),
              (ascii ''length'', JStr [0x77ED])],
         JObj [(ascii ''id'', JStr (uuidv4 1)),
              (ascii ''style'', JStr [0x8BD7, 0x610F]),
              (ascii ''text'', JStr (content @ [0xFF0C, 0x50CF, 0x98CE, 0x4E00, 0x6837, 0x81EA,
                                                0x7531, 0xFF0C, 0x50CF, 0x661F, 0x8FB0, 0x4E00,
                                                0x6837, 0x95EA, 0x8000, 0x3002, 0x5728, 0x6D69,
                                                0x701A, 0x5B87, 0x5B99, 0x4E2D, 0x5BFB, 0x627E,
                                                0x7075, 0x9B42, 0x5171, 0x9E23, 0x3002])),
              (ascii ''length'', JStr [0x4E2D])],
         JObj [(ascii ''id'', JStr (uuidv4 2)),
              (ascii ''style'', JStr [0x771F, 0x5B9E]),
              (ascii ''text'', JStr ([0x4E00, 0x4E2A, 0x70ED, 0x7231] @ content @ [0x7684, 0x666E,
                                                                                   0x901A, 0x4EBA,
                                                                                   0xFF0C, 0x76F8,
                                                                                   0x4FE1, 0x6BCF,
                                                                                   0x4E2A, 0x76F8,
                                                                                   0x9047, 0x90FD,
                                                                                   0x6709, 0x5B83,
                                                                                   0x7684, 0x610F,
                                                                                   0x4E49, 0x3002,
                                                                                   0x671F, 0x5F85,
                                                                                   0x4E0E, 0x4F60,
                                                                                   0x5206, 0x4EAB,
                                                                                   0x751F, 0x6D3B,
                                                                                   0x4E2D, 0x7684,
                                                                                   0x5C0F, 0x786E,
                                                                                   0x5E78,
                                                                                   0x3002])),
              (ascii ''length'', JStr [0x957F])]]
      else [])"

text \<open>The \<open>try\<close> block. Every exit by exception happens before the first call of
  \<open>uuidv4\<close>, so the \<open>catch\<close> block draws the identifiers from the first call on.\<close>

definition generate_try ::
  "(jsstring \<Rightarrow> jsstring option) \<Rightarrow> (jsstring \<Rightarrow> json option) \<Rightarrow> (nat \<Rightarrow> jsstring) \<Rightarrow> jsstring
     \<Rightarrow> js_error + json list" where
  "generate_try ai JSON_parse uuidv4 aiPrompt =
     (case callAIModel ai aiPrompt of
        Inl e \<Rightarrow> Inl e
      | Inr aiResponse \<Rightarrow>
          (case match_array aiResponse of
             None \<Rightarrow> Inl Error
           | Some jsonMatch \<Rightarrow>
               (case JSON_parse jsonMatch of
                  None \<Rightarrow> Inl SyntaxError
                | Some (JArr parsedData) \<Rightarrow>
                    Inr (map (\<lambda>(i, item). JObj (spread [(ascii ''id'', JStr (uuidv4 i))] item))
                           (enumerate 0 parsedData))
                | Some _ \<Rightarrow> Inl TypeError)))"

definition generate_route ::
  "(jsstring \<Rightarrow> jsstring option) \<Rightarrow> (jsstring \<Rightarrow> json option) \<Rightarrow> (nat \<Rightarrow> jsstring) \<Rightarrow> generate_req
     \<Rightarrow> generate_result" where
  "generate_route ai JSON_parse uuidv4 req =
     (if falsy (gen_content req) \<or> falsy (gen_type req)
      then \<lparr>gen_response = fail 400, gen_fallback = False\<rparr>
      else
        let content = the (gen_content req); type = the (gen_type req) in
        case generate_prompt type content of
          None \<Rightarrow> \<lparr>gen_response = fail 400, gen_fallback = False\<rparr>
        | Some aiPrompt \<Rightarrow>
            (case generate_try ai JSON_parse uuidv4 aiPrompt of
               Inr generatedContent \<Rightarrow>
                 \<lparr>gen_response = ok \<lparr>gd_original = content, gd_type = type,
                                      gd_suggestions = generatedContent\<rparr>,
                  gen_fallback = False\<rparr>
             | Inl aiError \<Rightarrow>
                 \<lparr>gen_response = ok \<lparr>gd_original = content, gd_type = type,
                                      gd_suggestions = default_templates type content uuidv4\<rparr>,
                  gen_fallback = True\<rparr>))"

subsection \<open>POST /api/assistant/suggest\<close>

text \<open>
  The body of a request has been parsed by the JSON or the URL-encoded body parser, so the
  \<open>conversation\<close> member is a JSON value, or absent (\<open>undefined\<close>, here \<open>None\<close>). The handler
  reads \<open>content\<close> from whatever the elements of the array are, and the reply of the model is
  whatever \<open>JSON.parse\<close> returns; \<open>JSON_parse\<close> is \<open>None\<close> when \<open>JSON.parse\<close> throws. The
  decimal notation that JavaScript gives a number is the parameter \<open>Number_toString\<close>.
\<close>

record suggest_req =
  sug_conversation :: "json option"

record suggest_data =
  sd_conversationLength :: nat
  sd_suggestions :: "json list"

text \<open>The values that count as false in a condition and in \<open>||\<close>: \<open>undefined\<close>, \<open>null\<close>, \<open>false\<close>,
  zero and the empty string.\<close>

definition js_truthy :: "json option \<Rightarrow> bool" where
  "js_truthy v =
     (case v of
        None \<Rightarrow> False
      | Some JNull \<Rightarrow> False
      | Some (JBool b) \<Rightarrow> b
      | Some (JNum n) \<Rightarrow> n \<noteq> 0
      | Some (JStr s) \<Rightarrow> s \<noteq> []
      | Some (JArr xs) \<Rightarrow> True
      | Some (JObj kvs) \<Rightarrow> True)"

text \<open>
  The handler reads the members \<open>content\<close>, \<open>topics\<close>, \<open>tips\<close>, \<open>category\<close> and \<open>question\<close>. No
  prototype defines one of these names, so on an object the value is that of its own member,
  and on a number, a boolean, a string or an array it is \<open>undefined\<close>: this is \<open>get_field\<close>.
  Reading a member of \<open>null\<close> throws a TypeError.
\<close>

definition read_member :: "json \<Rightarrow> jsstring \<Rightarrow> js_error + json option" where
  "read_member v k = (if v = JNull then Inl TypeError else Inr (get_field v k))"

text \<open>The first exception of a sequence of evaluations, or all their results.\<close>

fun sequence :: "(js_error + 'a) list \<Rightarrow> js_error + 'a list" where
  "sequence [] = Inr []"
| "sequence (Inl e # rs) = Inl e"
| "sequence (Inr x # rs) = (case sequence rs of Inl e \<Rightarrow> Inl e | Inr xs \<Rightarrow> Inr (x # xs))"

text \<open>
  The conversion of a value to a string, as a template and \<open>join\<close> do it. An array is joined
  with commas, \<open>null\<close> elements printing as the empty string. An object is converted by its
  \<open>toString\<close> method: an object read from JSON inherits the one that returns
  \<open>[object Object]\<close>, unless it has a member \<open>toString\<close> of its own, which is no function, and
  then the conversion throws a TypeError.
\<close>

fun ToString :: "(rat \<Rightarrow> jsstring) \<Rightarrow> json \<Rightarrow> js_error + jsstring" where
  "ToString Number_toString JNull = Inr (ascii ''null'')"
| "ToString Number_toString (JBool b) = Inr (if b then ascii ''true'' else ascii ''false'')"
| "ToString Number_toString (JNum n) = Inr (Number_toString n)"
| "ToString Number_toString (JStr s) = Inr s"
| "ToString Number_toString (JArr xs) =
     (case sequence (map (\<lambda>x. if x = JNull then Inr [] else ToString Number_toString x) xs) of
        Inl e \<Rightarrow> Inl e
      | Inr strings \<Rightarrow> Inr (join [0x002C] strings))"
| "ToString Number_toString (JObj kvs) =
     (if ascii ''toString'' \<in> set (map fst kvs) then Inl TypeError
      else Inr (ascii ''[object Object]''))"

text \<open>A value in a template, \<open>undefined\<close> printing as its name; an element of the array that
  \<open>join\<close> prints, \<open>undefined\<close> and \<open>null\<close> printing as the empty string.\<close>

definition template :: "(rat \<Rightarrow> jsstring) \<Rightarrow> json option \<Rightarrow> js_error + jsstring" where
  "template Number_toString v =
     (case v of None \<Rightarrow> Inr (ascii ''undefined'') | Some x \<Rightarrow> ToString Number_toString x)"

definition join_element :: "(rat \<Rightarrow> jsstring) \<Rightarrow> json option \<Rightarrow> js_error + jsstring" where
  "join_element Number_toString v =
     (case v of None \<Rightarrow> Inr [] | Some x \<Rightarrow> if x = JNull then Inr [] else ToString Number_toString x)"

text \<open>A member of the JSON body: it is left out when its value is \<open>undefined\<close> or a
  function, here \<open>None\<close>.\<close>

definition opt_member :: "jsstring \<Rightarrow> json option \<Rightarrow> (jsstring \<times> json) list" where
  "opt_member k x = (case x of None \<Rightarrow> [] | Some v \<Rightarrow> [(k, v)])"

text \<open>
  \<open>getTopicIcon\<close> returns \<open>iconMap[category] || '\<dots>'\<close>. The category is converted to a
  property name. \<open>iconMap\<close> is an object literal, so besides its own seven members the lookup
  finds the members of \<open>Object.prototype\<close>: eleven functions, and \<open>__proto__\<close>, whose value is
  the prototype object itself. All of these are true in \<open>||\<close>. The result is given as it
  stands in the JSON body: a function is left out, and the prototype object, which has no
  enumerable member, is written as the empty object.
\<close>

definition iconMap :: "(jsstring \<times> jsstring) list" where
  "iconMap =
     [([0x6DF1, 0x5EA6, 0x4EA4, 0x6D41], [0xD83D, 0xDCAB]),
      ([0x5174, 0x8DA3, 0x63A2, 0x7D22], [0xD83C, 0xDFA8]),
      ([0x4EF7, 0x503C, 0x89C2], [0xD83C, 0xDF1F]),
      ([0x751F, 0x6D3B, 0x65B9, 0x5F0F], [0x2600, 0xFE0F]),
      ([0x672A, 0x6765, 0x61A7, 0x61AC], [0xD83D, 0xDE80]),
      ([0x60C5, 0x611F, 0x4EA4, 0x6D41], [0xD83D, 0xDC96]),
      ([0x5DE5, 0x4F5C, 0x5B66, 0x4E60], [0xD83D, 0xDCDA])]"

definition Object_prototype_functions :: "jsstring list" where
  "Object_prototype_functions =
     [ascii ''constructor'', ascii ''__defineGetter__'', ascii ''__defineSetter__'',
      ascii ''hasOwnProperty'', ascii ''__lookupGetter__'', ascii ''__lookupSetter__'',
      ascii ''isPrototypeOf'', ascii ''propertyIsEnumerable'', ascii ''toString'',
      ascii ''valueOf'', ascii ''toLocaleString'']"

definition getTopicIcon :: "(rat \<Rightarrow> jsstring) \<Rightarrow> json option \<Rightarrow> js_error + json option" where
  "getTopicIcon Number_toString category =
     (case template Number_toString category of
        Inl e \<Rightarrow> Inl e
      | Inr name \<Rightarrow>
          (case map_of iconMap name of
             Some icon \<Rightarrow> Inr (Some (JStr (if icon = [] then [0xD83D, 0xDCAD] else icon)))
           | None \<Rightarrow>
               if name \<in> set Object_prototype_functions then Inr None
               else if name = ascii ''__proto__'' then Inr (Some (JObj []))
               else Inr (Some (JStr [0xD83D, 0xDCAD]))))"

definition suggest_prompt :: "nat \<Rightarrow> jsstring \<Rightarrow> jsstring" where
  "suggest_prompt messageCount conversationText =
     [0x4F5C, 0x4E3A, 0x793E, 0x4EA4, 0x52A9, 0x624B, 0xFF0C, 0x8BF7, 0x5206, 0x6790, 0x4EE5,
      0x4E0B, 0x5BF9, 0x8BDD, 0x5386, 0x53F2, 0xFF08, 0x5171] @ decimal messageCount @
     [0x6761, 0x6D88, 0x606F, 0xFF09, 0xFF0C, 0x63D0, 0x4F9B, 0x667A, 0x80FD, 0x7684, 0x5BF9,
      0x8BDD, 0x5F15, 0x5BFC, 0x5EFA, 0x8BAE, 0xFF1A, 0x000A, 0x000A, 0x5BF9, 0x8BDD, 0x5386,
      0x53F2, 0xFF1A, 0x000A] @ conversationText @
     [0x000A, 0x000A, 0x8BF7, 0x63D0, 0x4F9B, 0xFF1A, 0x000A, 0x0031, 0x002E, 0x0020, 0x5F53,
      0x524D, 0x5BF9, 0x8BDD, 0x9636, 0x6BB5, 0x5206, 0x6790, 0xFF08, 0x521D, 0x8BC6, 0x002F,
      0x6DF1, 0x5316, 0x002F, 0x6DF1, 0x5EA6, 0x4EA4, 0x6D41, 0xFF09, 0x000A, 0x0032, 0x002E,
      0x0020, 0x0033, 0x002D, 0x0035, 0x4E2A, 0x8BDD, 0x9898, 0x5EFA, 0x8BAE, 0xFF08, 0x5305,
      0x542B, 0x7C7B, 0x522B, 0x548C, 0x5177, 0x4F53, 0x95EE, 0x9898, 0xFF09, 0x000A, 0x0033,
      0x002E, 0x0020, 0x5BF9, 0x8BDD, 0x6280, 0x5DE7, 0x63D0, 0x793A, 0x000A, 0x000A, 0x4EE5,
      0x004A, 0x0053, 0x004F, 0x004E, 0x683C, 0x5F0F, 0x8FD4, 0x56DE, 0xFF0C, 0x5305, 0x542B,
      0x0073, 0x0074, 0x0061, 0x0067, 0x0065, 0xFF08, 0x9636, 0x6BB5, 0xFF09, 0x3001, 0x0074,
      0x006F, 0x0070, 0x0069, 0x0063, 0x0073, 0xFF08, 0x8BDD, 0x9898, 0x6570, 0x7EC4, 0xFF0C,
      0x6BCF, 0x4E2A, 0x5305, 0x542B, 0x0063, 0x0061, 0x0074, 0x0065, 0x0067, 0x006F, 0x0072,
      0x0079, 0x548C, 0x0071, 0x0075, 0x0065, 0x0073, 0x0074, 0x0069, 0x006F, 0x006E, 0xFF09,
      0x3001, 0x0074, 0x0069, 0x0070, 0x0073, 0xFF08, 0x6280, 0x5DE7, 0x6570, 0x7EC4, 0xFF09,
      0x5B57, 0x6BB5, 0x3002]"

text \<open>
  Every object literal of a suggestion calls \<open>uuidv4()\<close> first and evaluates its other members
  after that, and nothing else in the handler calls \<open>uuidv4\<close>. The handler is followed with
  the suggestions pushed so far and the number of \<open>uuidv4()\<close> calls made so far; a suggestion
  built after \<open>calls\<close> calls holds \<open>uuidv4 calls\<close>, the result of the next one.
\<close>

text \<open>The suggestion of a topic of the reply, or the exception that the evaluation of its
  members throws.\<close>

definition topic_suggestion :: "(rat \<Rightarrow> jsstring) \<Rightarrow> json \<Rightarrow> jsstring \<Rightarrow> js_error + json" where
  "topic_suggestion Number_toString topic ident =
     (case read_member topic (ascii ''category'') of
        Inl e \<Rightarrow> Inl e
      | Inr category \<Rightarrow>
          (case template Number_toString category of
             Inl e \<Rightarrow> Inl e
           | Inr name \<Rightarrow>
               (case getTopicIcon Number_toString category of
                  Inl e \<Rightarrow> Inl e
                | Inr icon \<Rightarrow>
                    Inr (JObj ([(ascii ''id'', JStr ident),
                                (ascii ''type'', JStr (ascii ''topic'')),
                                (ascii ''priority'', JStr (ascii ''high'')),
                                (ascii ''content'', JStr (name @ [0x8BDD, 0x9898]))]
                               @ opt_member (ascii ''question'') (get_field topic (ascii ''question''))
                               @ opt_member (ascii ''icon'') icon)))))"

text \<open>\<open>aiData.topics.forEach\<close>: the loop ends at the first exception; the \<open>uuidv4()\<close> call of
  the topic that throws has been made.\<close>

fun push_topics ::
  "(rat \<Rightarrow> jsstring) \<Rightarrow> (nat \<Rightarrow> jsstring) \<Rightarrow> json list \<Rightarrow> json list \<times> nat
     \<Rightarrow> js_error option \<times> json list \<times> nat" where
  "push_topics Number_toString uuidv4 [] (suggestions, calls) = (None, suggestions, calls)"
| "push_topics Number_toString uuidv4 (topic # topics) (suggestions, calls) =
     (case topic_suggestion Number_toString topic (uuidv4 calls) of
        Inl e \<Rightarrow> (Some e, suggestions, calls + 1)
      | Inr suggestion \<Rightarrow>
          push_topics Number_toString uuidv4 topics (suggestions @ [suggestion], calls + 1))"

definition tip_suggestion :: "json list \<Rightarrow> jsstring \<Rightarrow> json" where
  "tip_suggestion tips ident =
     JObj [(ascii ''id'', JStr ident),
           (ascii ''type'', JStr (ascii ''tip'')),
           (ascii ''priority'', JStr (ascii ''medium'')),
           (ascii ''content'', JStr [0x5BF9, 0x8BDD, 0x6280, 0x5DE7]),
           (ascii ''tips'', JArr tips)]"

text \<open>The \<open>try\<close> block: the exception that ends it, if one does, the suggestions pushed and
  the number of \<open>uuidv4()\<close> calls made. \<open>x && Array.isArray(x)\<close> holds of the arrays.\<close>

definition suggest_try ::
  "(jsstring \<Rightarrow> jsstring option) \<Rightarrow> (jsstring \<Rightarrow> json option) \<Rightarrow> (rat \<Rightarrow> jsstring)
     \<Rightarrow> (nat \<Rightarrow> jsstring) \<Rightarrow> jsstring \<Rightarrow> js_error option \<times> json list \<times> nat" where
  "suggest_try ai JSON_parse Number_toString uuidv4 aiPrompt =
     (case callAIModel ai aiPrompt of
        Inl e \<Rightarrow> (Some e, [], 0)
      | Inr aiResponse \<Rightarrow>
          (case match_object aiResponse of
             None \<Rightarrow> (Some Error, [], 0)
           | Some jsonMatch \<Rightarrow>
               (case JSON_parse jsonMatch of
                  None \<Rightarrow> (Some SyntaxError, [], 0)
                | Some aiData \<Rightarrow>
                    (case read_member aiData (ascii ''topics'') of
                       Inl e \<Rightarrow> (Some e, [], 0)
                     | Inr topics \<Rightarrow>
                         (case (case topics of
                                  Some (JArr topics) \<Rightarrow>
                                    push_topics Number_toString uuidv4 topics ([], 0)
                                | _ \<Rightarrow> (None, [], 0)) of
                            (Some e, suggestions, calls) \<Rightarrow> (Some e, suggestions, calls)
                          | (None, suggestions, calls) \<Rightarrow>
                              (case get_field aiData (ascii ''tips'') of
                                 Some (JArr tips) \<Rightarrow>
                                   (None, suggestions @ [tip_suggestion tips (uuidv4 calls)],
                                    calls + 1)
                               | _ \<Rightarrow> (None, suggestions, calls)))))))"

text \<open>The default topics of the \<open>catch\<close> block: category, question and icon.\<close>

definition default_topics :: "(jsstring \<times> jsstring \<times> jsstring) list" where
  "default_topics =
     [([0x6DF1, 0x5EA6, 0x4EA4, 0x6D41],
       [0x5982, 0x679C, 0x53EF, 0x4EE5, 0x62E5, 0x6709, 0x4E00, 0x9879, 0x8D85, 0x80FD, 0x529B,
        0xFF0C, 0x4F60, 0x4F1A, 0x9009, 0x62E9, 0x4EC0, 0x4E48, 0xFF1F, 0x4E3A, 0x4EC0, 0x4E48,
        0xFF1F],
       [0xD83D, 0xDCAB]),
      ([0x5174, 0x8DA3, 0x63A2, 0x7D22],
       [0x6700, 0x8FD1, 0x6709, 0x6CA1, 0x6709, 0x53D1, 0x73B0, 0x4EC0, 0x4E48, 0x6709, 0x8DA3,
        0x7684, 0x4E8B, 0x7269, 0x6216, 0x65B0, 0x7231, 0x597D, 0xFF1F],
       [0xD83C, 0xDFA8]),
      ([0x4EF7, 0x503C, 0x89C2],
       [0x4F60, 0x89C9, 0x5F97, 0x4EBA, 0x751F, 0x4E2D, 0x6700, 0x91CD, 0x8981, 0x7684, 0x4E09,
        0x4EF6, 0x4E8B, 0x662F, 0x4EC0, 0x4E48, 0xFF1F],
       [0xD83C, 0xDF1F]),
      ([0x751F, 0x6D3B, 0x65B9, 0x5F0F],
       [0x7406, 0x60F3, 0x4E2D, 0x7684, 0x5468, 0x672B, 0x662F, 0x600E, 0x6837, 0x5EA6, 0x8FC7,
        0x7684, 0xFF1F],
       [0x2600, 0xFE0F]),
      ([0x672A, 0x6765, 0x61A7, 0x61AC],
       [0x4E94, 0x5E74, 0x540E, 0x7684, 0x81EA, 0x5DF1, 0xFF0C, 0x4F60, 0x5E0C, 0x671B, 0x6210,
        0x4E3A, 0x4EC0, 0x4E48, 0x6837, 0x7684, 0x4EBA, 0xFF1F],
       [0xD83D, 0xDE80])]"

text \<open>
  \<open>lastMessage.includes(w)\<close> for a string \<open>w\<close>: on a string the substring test, on an array
  the test whether the string \<open>w\<close> is an element. Nothing else has a function \<open>includes\<close>: a
  member of that name of an object read from JSON is no function, so the call throws a
  TypeError.
\<close>

definition lastMessage_includes :: "json \<Rightarrow> jsstring \<Rightarrow> js_error + bool" where
  "lastMessage_includes lastMessage w =
     (case lastMessage of
        JStr s \<Rightarrow> Inr (js_includes s w)
      | JArr xs \<Rightarrow> Inr (JStr w \<in> set xs)
      | _ \<Rightarrow> Inl TypeError)"

text \<open>The \<open>catch\<close> block pushes one suggestion, chosen by the length of the conversation.
  \<open>rnd\<close> is the index \<open>Math.floor(Math.random() * topics.length)\<close>, which lies below 5. Only
  the first branch can throw, when it asks whether the last message mentions travel.\<close>

definition experience_suggestion :: "bool \<Rightarrow> jsstring \<Rightarrow> json" where
  "experience_suggestion travel ident =
     JObj [(ascii ''id'', JStr ident),
           (ascii ''type'', JStr (ascii ''topic'')),
           (ascii ''priority'', JStr (ascii ''high'')),
           (ascii ''content'', JStr [0x5C1D, 0x8BD5, 0x5206, 0x4EAB, 0x4E00, 0x4E2A, 0x6709,
                                     0x8DA3, 0x7684, 0x4E2A, 0x4EBA, 0x7ECF, 0x5386, 0xFF0C,
                                     0x8BA9, 0x5BF9, 0x8BDD, 0x66F4, 0x751F, 0x52A8]),
           (ascii ''example'', JStr ([0x8BF4, 0x5230, 0x8FD9, 0x4E2A, 0xFF0C, 0x6211, 0x60F3,
                                      0x8D77, 0x4E86, 0x4E00, 0x6B21] @
              (if travel then [0x96BE, 0x5FD8, 0x7684, 0x5192, 0x9669]
               else [0x6709, 0x8DA3, 0x7684, 0x7ECF, 0x5386]) @ [0x002E, 0x002E, 0x002E]))]"

definition deepening_suggestion :: "jsstring \<times> jsstring \<times> jsstring \<Rightarrow> jsstring \<Rightarrow> json" where
  "deepening_suggestion randomTopic ident =
     (case randomTopic of (rcategory, rquestion, ricon) \<Rightarrow>
     JObj [(ascii ''id'', JStr ident),
           (ascii ''type'', JStr (ascii ''deepening'')),
           (ascii ''priority'', JStr (ascii ''medium'')),
           (ascii ''content'', JStr ([0x6DF1, 0x5316, 0x5BF9, 0x8BDD, 0xFF1A] @ rcategory)),
           (ascii ''question'', JStr rquestion),
           (ascii ''icon'', JStr ricon)])"

definition activity_suggestion :: "jsstring \<Rightarrow> json" where
  "activity_suggestion ident =
     JObj [(ascii ''id'', JStr ident),
           (ascii ''type'', JStr (ascii ''activity'')),
           (ascii ''priority'', JStr (ascii ''high'')),
           (ascii ''content'', JStr [0x5BF9, 0x8BDD, 0x5DF2, 0x7ECF, 0x5F88, 0x6DF1, 0x5165,
                                     0x4E86, 0xFF01, 0x53EF, 0x4EE5, 0x5C1D, 0x8BD5, 0x7EA6,
                                     0x7EBF, 0x4E0B, 0x89C1, 0x9762, 0x6216, 0x5171, 0x540C,
                                     0x53C2, 0x52A0, 0x6D3B, 0x52A8]),
           (ascii ''examples'', JArr
              [JStr [0x8981, 0x4E0D, 0x8981, 0x4E00, 0x8D77, 0x53BB, 0x770B, 0x5C55, 0x89C8,
                     0xFF1F],
               JStr [0x5468, 0x672B, 0x6709, 0x7A7A, 0x7684, 0x8BDD, 0xFF0C, 0x6211, 0x4EEC,
                     0x53EF, 0x4EE5, 0x7EA6, 0x4E2A, 0x5496, 0x5561],
               JStr [0x542C, 0x8BF4, 0x6709, 0x4E2A, 0x6709, 0x8DA3, 0x7684, 0x6D3B, 0x52A8,
                     0xFF0C, 0x8981, 0x4E0D, 0x8981, 0x4E00, 0x8D77, 0x53BB, 0xFF1F]])]"

definition suggest_catch ::
  "(nat \<Rightarrow> jsstring) \<Rightarrow> nat \<Rightarrow> nat \<Rightarrow> json \<Rightarrow> json list \<times> nat \<Rightarrow> js_error + json list \<times> nat" where
  "suggest_catch uuidv4 rnd messageCount lastMessage state =
     (case state of (suggestions, calls) \<Rightarrow>
        if messageCount < 5 then
          (case lastMessage_includes lastMessage [0x65C5, 0x884C] of
             Inl e \<Rightarrow> Inl e
           | Inr travel \<Rightarrow>
               Inr (suggestions @ [experience_suggestion travel (uuidv4 calls)], calls + 1))
        else if messageCount \<ge> 5 \<and> messageCount < 10 then
          Inr (suggestions @ [deepening_suggestion (default_topics ! (rnd mod 5)) (uuidv4 calls)],
               calls + 1)
        else Inr (suggestions @ [activity_suggestion (uuidv4 calls)], calls + 1))"

definition response_suggestion :: "jsstring \<Rightarrow> json" where
  "response_suggestion ident =
     JObj [(ascii ''id'', JStr ident),
           (ascii ''type'', JStr (ascii ''response'')),
           (ascii ''priority'', JStr (ascii ''urgent'')),
           (ascii ''content'', JStr [0x5BF9, 0x65B9, 0x63D0, 0x51FA, 0x4E86, 0x95EE, 0x9898,
                                     0xFF0C, 0x53CA, 0x65F6, 0x56DE, 0x5E94, 0x4F1A, 0x8BA9,
                                     0x5BF9, 0x8BDD, 0x66F4, 0x6D41, 0x7545]),
           (ascii ''tip'', JStr [0x771F, 0x8BDA, 0x5730, 0x5206, 0x4EAB, 0x4F60, 0x7684, 0x60F3,
                                 0x6CD5, 0xFF0C, 0x5E76, 0x53EF, 0x4EE5, 0x53CD, 0x95EE, 0x5BF9,
                                 0x65B9, 0x7684, 0x770B, 0x6CD5])]"

definition interactive_suggestion :: "jsstring \<Rightarrow> json" where
  "interactive_suggestion ident =
     JObj [(ascii ''id'', JStr ident),
           (ascii ''type'', JStr (ascii ''interactive'')),
           (ascii ''priority'', JStr (ascii ''low'')),
           (ascii ''content'', JStr [0x8BA9, 0x5BF9, 0x8BDD, 0x66F4, 0x6709, 0x8DA3]),
           (ascii ''ideas'', JArr
              [JObj [(ascii ''type'', JStr (ascii ''emoji'')),
                     (ascii ''text'', JStr [0x9002, 0x5F53, 0x4F7F, 0x7528, 0x8868, 0x60C5,
                                            0x7B26, 0x53F7, 0x589E, 0x52A0, 0x8DA3, 0x5473,
                                            0x6027, 0x0020, 0xD83D, 0xDE0A])],
               JObj [(ascii ''type'', JStr (ascii ''image'')),
                     (ascii ''text'', JStr [0x5206, 0x4EAB, 0x76F8, 0x5173, 0x7684, 0x56FE,
                                            0x7247, 0x6216, 0x6897, 0x56FE])],
               JObj [(ascii ''type'', JStr (ascii ''voice'')),
                     (ascii ''text'', JStr [0x5C1D, 0x8BD5, 0x53D1, 0x9001, 0x8BED, 0x97F3,
                                            0x6D88, 0x606F, 0xFF0C, 0x589E, 0x52A0, 0x4EB2,
                                            0x5BC6, 0x611F])]])]"

text \<open>\<open>conversation[messageCount - 1]?.content || ''\<close>: the content of the last element, which
  is \<open>undefined\<close> when the array is empty or the element is \<open>null\<close>, and the empty string in
  its place when it counts as false.\<close>

definition lastMessage_of :: "json list \<Rightarrow> json" where
  "lastMessage_of conversation =
     (let content = (case conversation of
                       [] \<Rightarrow> None
                     | _ \<Rightarrow> get_field (last conversation) (ascii ''content''))
      in if js_truthy content then the content else JStr [])"

text \<open>\<open>conversation.map(m => m.content).join('\n')\<close>: reading the content of a \<open>null\<close> element
  throws, and so does the conversion of a content that has no string.\<close>

definition conversationText_of :: "(rat \<Rightarrow> jsstring) \<Rightarrow> json list \<Rightarrow> js_error + jsstring" where
  "conversationText_of Number_toString conversation =
     (case sequence (map (\<lambda>m. read_member m (ascii ''content'')) conversation) of
        Inl e \<Rightarrow> Inl e
      | Inr contents \<Rightarrow>
          (case sequence (map (join_element Number_toString) contents) of
             Inl e \<Rightarrow> Inl e
           | Inr strings \<Rightarrow> Inr (join [0x000A] strings)))"

text \<open>The test of the question marks, \<open>lastMessage.includes(w) || lastMessage.includes('?')\<close>
  with the full-width question mark U+FF1F for \<open>w\<close>.\<close>

definition asks_question :: "json \<Rightarrow> js_error + bool" where
  "asks_question lastMessage =
     (case lastMessage_includes lastMessage [0xFF1F] of
        Inl e \<Rightarrow> Inl e
      | Inr True \<Rightarrow> Inr True
      | Inr False \<Rightarrow> lastMessage_includes lastMessage [0x003F])"

text \<open>The handler. An exception that leaves the inner \<open>try\<close> and \<open>catch\<close> reaches the outer
  \<open>catch\<close>, which answers with status 500.\<close>

definition suggest_route ::
  "(jsstring \<Rightarrow> jsstring option) \<Rightarrow> (jsstring \<Rightarrow> json option) \<Rightarrow> (rat \<Rightarrow> jsstring)
     \<Rightarrow> (nat \<Rightarrow> jsstring) \<Rightarrow> nat \<Rightarrow> suggest_req \<Rightarrow> suggest_data response" where
  "suggest_route ai JSON_parse Number_toString uuidv4 rnd req =
     (case sug_conversation req of
        Some (JArr conversation) \<Rightarrow>
          let messageCount = length conversation;
              lastMessage = lastMessage_of conversation
          in (case conversationText_of Number_toString conversation of
                Inl error \<Rightarrow> fail 500
              | Inr conversationText \<Rightarrow>
                  let aiPrompt = suggest_prompt messageCount conversationText
                  in (case (case suggest_try ai JSON_parse Number_toString uuidv4 aiPrompt of
                              (None, state) \<Rightarrow> Inr state
                            | (Some aiError, state) \<Rightarrow>
                                suggest_catch uuidv4 rnd messageCount lastMessage state) of
                        Inl error \<Rightarrow> fail 500
                      | Inr (suggestions, calls) \<Rightarrow>
                          (case asks_question lastMessage of
                             Inl error \<Rightarrow> fail 500
                           | Inr asks \<Rightarrow>
                               let (suggestions, calls) =
                                     (if asks
                                      then (suggestions @ [response_suggestion (uuidv4 calls)],
                                            calls + 1)
                                      else (suggestions, calls));
                                   suggestions = suggestions @ [interactive_suggestion (uuidv4 calls)]
                               in ok \<lparr>sd_conversationLength = messageCount,
                                      sd_suggestions = suggestions\<rparr>)))
      | _ \<Rightarrow> fail 400)"
section \<open>The soul profile (the second module of routes/assistant.js)\<close>

text \<open>
  The request carries \<open>userId\<close> and \<open>userData\<close>; the interests and values of \<open>userData\<close>
  are arrays of strings when present. The reply of the model is read at the shape the
  prompt asks for: an object whose members, each of which may be absent, are two arrays of
  strings, three strings and an array of objects with \<open>dimension\<close> and an integer \<open>score\<close>.
  \<open>JSON_parse\<close> is \<open>None\<close> when \<open>JSON.parse\<close> throws. \<open>String.prototype.toLowerCase\<close> is the
  parameter \<open>toLowerCase\<close>.
\<close>

record user_data =
  ud_interests :: "jsstring list option"
  ud_values :: "jsstring list option"

record analyze_req =
  an_userId :: "jsstring option"
  an_userData :: "user_data option"

record ai_analysis =
  ai_interests :: "jsstring list option"
  ai_values :: "jsstring list option"
  ai_communicationStyle :: "jsstring option"
  ai_emotionTendency :: "jsstring option"
  ai_personalityVector :: "pv_entry list option"
  ai_summary :: "jsstring option"

subsection \<open>The keyword functions\<close>

text \<open>A \<open>Set\<close> of strings keeps its elements in the order of their first insertion.\<close>

definition set_add :: "jsstring list \<Rightarrow> jsstring \<Rightarrow> jsstring list" where
  "set_add s x = (if x \<in> set s then s else s @ [x])"

definition new_Set :: "jsstring list \<Rightarrow> jsstring list" where
  "new_Set xs = foldl set_add [] xs"

text \<open>The interest dictionary maps the categories philosophy, technology, art, travel,
  reading, sport, food and photography to their keywords, the value dictionary the
  categories freedom, sincerity, exploration, growth, connection and creation.
  \<open>Object.entries\<close> lists them in the order of the source.\<close>

definition interestKeywords :: "(jsstring \<times> jsstring list) list" where
  "interestKeywords =
     [([0x54F2, 0x5B66],
       [[0x5B58, 0x5728], [0x610F, 0x4E49], [0x771F, 0x7406], [0x601D, 0x8003], [0x672C, 0x8D28],
        [0x54F2, 0x5B66]]),
      ([0x79D1, 0x6280],
       [[0x0041, 0x0049], [0x4EBA, 0x5DE5, 0x667A, 0x80FD], [0x6280, 0x672F], [0x7F16, 0x7A0B],
        [0x672A, 0x6765], [0x79D1, 0x6280]]),
      ([0x827A, 0x672F],
       [[0x97F3, 0x4E50], [0x7535, 0x5F71], [0x753B], [0x7F8E], [0x521B, 0x4F5C], [0x827A,
                                                                                   0x672F]]),
      ([0x65C5, 0x884C],
       [[0x65C5, 0x884C], [0x63A2, 0x9669], [0x4E16, 0x754C], [0x98CE, 0x666F], [0x6587,
                                                                                 0x5316]]),
      ([0x9605, 0x8BFB],
       [[0x4E66], [0x9605, 0x8BFB], [0x6587, 0x5B66], [0x6545, 0x4E8B], [0x77E5, 0x8BC6]]),
      ([0x8FD0, 0x52A8],
       [[0x8FD0, 0x52A8], [0x5065, 0x8EAB], [0x8DD1, 0x6B65], [0x745C, 0x4F3D], [0x6D3B,
                                                                                 0x529B]]),
      ([0x7F8E, 0x98DF],
       [[0x7F8E, 0x98DF], [0x6599, 0x7406], [0x9910, 0x5385], [0x70F9, 0x996A], [0x5473,
                                                                                 0x9053]]),
      ([0x6444, 0x5F71],
       [[0x6444, 0x5F71], [0x7167, 0x7247], [0x955C, 0x5934], [0x5149, 0x5F71], [0x8BB0,
                                                                                 0x5F55]])]"

definition extractInterests ::
  "(jsstring \<Rightarrow> jsstring) \<Rightarrow> moment_row list \<Rightarrow> jsstring list \<Rightarrow> jsstring list" where
  "extractInterests toLowerCase moments additionalInterests =
     (let interests = new_Set additionalInterests;
          interests =
            foldl (\<lambda>interests moment.
                     let content = toLowerCase (m_content moment) in
                     foldl (\<lambda>interests (interest, keywords).
                              if list_ex (\<lambda>kw. js_includes content kw) keywords
                              then set_add interests interest else interests)
                       interests interestKeywords)
              interests moments
      in take 8 interests)"

definition valueKeywords :: "(jsstring \<times> jsstring list) list" where
  "valueKeywords =
     [([0x81EA, 0x7531],
       [[0x81EA, 0x7531], [0x72EC, 0x7ACB], [0x9009, 0x62E9], [0x81EA, 0x4E3B]]),
      ([0x771F, 0x8BDA],
       [[0x771F, 0x5B9E], [0x8BDA, 0x5B9E], [0x5766, 0x7387], [0x771F, 0x8BDA]]),
      ([0x63A2, 0x7D22],
       [[0x63A2, 0x7D22], [0x597D, 0x5947], [0x53D1, 0x73B0], [0x5192, 0x9669]]),
      ([0x6210, 0x957F],
       [[0x6210, 0x957F], [0x8FDB, 0x6B65], [0x5B66, 0x4E60], [0x63D0, 0x5347]]),
      ([0x8FDE, 0x63A5],
       [[0x8FDE, 0x63A5], [0x5171, 0x9E23], [0x7406, 0x89E3], [0x966A, 0x4F34]]),
      ([0x521B, 0x9020],
       [[0x521B, 0x9020], [0x521B, 0x65B0], [0x60F3, 0x8C61], [0x827A, 0x672F]])]"

definition analyzeValues ::
  "(jsstring \<Rightarrow> jsstring) \<Rightarrow> moment_row list \<Rightarrow> jsstring list \<Rightarrow> jsstring list" where
  "analyzeValues toLowerCase moments additionalValues =
     (let values = new_Set additionalValues;
          values =
            foldl (\<lambda>values moment.
                     let content = toLowerCase (m_content moment) in
                     foldl (\<lambda>values (v, keywords).
                              if list_ex (\<lambda>kw. js_includes content kw) keywords
                              then set_add values v else values)
                       values valueKeywords)
              values moments
      in take 6 values)"

text \<open>The five dimensions: openness, extraversion, conscientiousness, agreeableness and
  emotional stability.\<close>

definition generatePersonalityVector ::
  "jsstring list \<Rightarrow> jsstring list \<Rightarrow> jsstring \<Rightarrow> jsstring \<Rightarrow> pv_entry list" where
  "generatePersonalityVector interests values style emotion =
     [\<lparr>dimension = [0x5F00, 0x653E, 0x6027],
       score = min (int (length interests) * 12) 100\<rparr>,
      \<lparr>dimension = [0x5916, 0x5411, 0x6027],
       score = (if style = [0x4E92, 0x52A8, 0x578B] then 85 else 60)\<rparr>,
      \<lparr>dimension = [0x8D23, 0x4EFB, 0x5FC3],
       score = (if [0x6210, 0x957F] \<in> set values then 88 else 70)\<rparr>,
      \<lparr>dimension = [0x5B9C, 0x4EBA, 0x6027],
       score = (if emotion = [0x4E50, 0x89C2, 0x79EF, 0x6781] then 90 else 75)\<rparr>,
      \<lparr>dimension = [0x60C5, 0x7EEA, 0x7A33, 0x5B9A, 0x6027],
       score = (if emotion = [0x60C5, 0x7EEA, 0x5E73, 0x8861] then 85 else 70)\<rparr>]"

text \<open>\<open>reduce\<close> adds the scores up from 0; the quotient by the length is rounded by
  \<open>Math.round\<close>, which takes a half upwards. On the empty vector the quotient is \<open>0 / 0\<close> and
  the result is \<open>NaN\<close>, here \<open>None\<close>.\<close>

definition calculateMatchScore :: "pv_entry list \<Rightarrow> int option" where
  "calculateMatchScore vector =
     (let total = foldl (\<lambda>sum v. sum + score v) 0 vector in
      if length vector = 0 then None
      else Some (\<lfloor>(of_int total / of_nat (length vector) :: rat) + 1 / 2\<rfloor>))"

subsection \<open>The AI analysis\<close>

text \<open>In this module \<open>callAIModel\<close> answers \<open>null\<close> when the call fails.\<close>

definition callAIModel_profile :: "(jsstring \<Rightarrow> jsstring option) \<Rightarrow> jsstring \<Rightarrow> jsstring option" where
  "callAIModel_profile ai userPrompt = ai userPrompt"

definition analyze_prompt :: "moment_row list \<Rightarrow> interaction_row list \<Rightarrow> jsstring" where
  "analyze_prompt moments interactions =
     (let momentsText = join [0x000A] (map m_content moments) in
      [0x8BF7, 0x4F5C, 0x4E3A, 0x5FC3, 0x7406, 0x5206, 0x6790, 0x4E13, 0x5BB6, 0xFF0C, 0x5206,
       0x6790, 0x4EE5, 0x4E0B, 0x7528, 0x6237, 0x6570, 0x636E, 0x5E76, 0x751F, 0x6210, 0x7075,
       0x9B42, 0x753B, 0x50CF, 0xFF1A, 0x000A, 0x000A, 0x7528, 0x6237, 0x53D1, 0x5E03, 0x7684,
       0x77AC, 0x95F4, 0x5185, 0x5BB9, 0xFF08, 0x5171] @ decimal (length moments) @
      [0x6761, 0xFF09, 0xFF1A, 0x000A] @
      (if momentsText = [] then [0x6682, 0x65E0, 0x5185, 0x5BB9] else momentsText) @
      [0x000A, 0x000A, 0x7528, 0x6237, 0x4E92, 0x52A8, 0x8BB0, 0x5F55, 0x6570, 0x91CF, 0xFF1A] @ decimal (length interactions) @
      [0x000A, 0x000A, 0x8BF7, 0x4ECE, 0x4EE5, 0x4E0B, 0x7EF4, 0x5EA6, 0x8FDB, 0x884C, 0x6DF1,
       0x5EA6, 0x5206, 0x6790, 0xFF0C, 0x5E76, 0x4EE5, 0x004A, 0x0053, 0x004F, 0x004E, 0x683C,
       0x5F0F, 0x8FD4, 0x56DE, 0xFF1A, 0x000A, 0x007B, 0x000A, 0x0020, 0x0020, 0x0022, 0x0069,
       0x006E, 0x0074, 0x0065, 0x0072, 0x0065, 0x0073, 0x0074, 0x0073, 0x0022, 0x003A, 0x0020,
       0x005B, 0x0022, 0x5174, 0x8DA3, 0x0031, 0x0022, 0x002C, 0x0020, 0x0022, 0x5174, 0x8DA3,
       0x0032, 0x0022, 0x002C, 0x0020, 0x002E, 0x002E, 0x002E, 0x005D, 0x002C, 0x0020, 0x0020,
       0x002F, 0x002F, 0x0020, 0x0033, 0x002D, 0x0038, 0x4E2A, 0x6838, 0x5FC3, 0x5174, 0x8DA3,
       0x000A, 0x0020, 0x0020, 0x0022, 0x0076, 0x0061, 0x006C, 0x0075, 0x0065, 0x0073, 0x0022,
       0x003A, 0x0020, 0x005B, 0x0022, 0x4EF7, 0x503C, 0x89C2, 0x0031, 0x0022, 0x002C, 0x0020,
       0x0022, 0x4EF7, 0x503C, 0x89C2, 0x0032, 0x0022, 0x002C, 0x0020, 0x002E, 0x002E, 0x002E,
       0x005D, 0x002C, 0x0020, 0x0020, 0x002F, 0x002F, 0x0020, 0x0033, 0x002D, 0x0036, 0x4E2A,
       0x6838, 0x5FC3, 0x4EF7, 0x503C, 0x89C2, 0x000A, 0x0020, 0x0020, 0x0022, 0x0063, 0x006F,
       0x006D, 0x006D, 0x0075, 0x006E, 0x0069, 0x0063, 0x0061, 0x0074, 0x0069, 0x006F, 0x006E,
       0x0053, 0x0074, 0x0079, 0x006C, 0x0065, 0x0022, 0x003A, 0x0020, 0x0022, 0x6C9F, 0x901A,
       0x98CE, 0x683C, 0x63CF, 0x8FF0, 0x0022, 0x002C, 0x0020, 0x0020, 0x002F, 0x002F, 0x0020,
       0x5982, 0xFF1A, 0x7406, 0x6027, 0x578B, 0x3001, 0x611F, 0x6027, 0x578B, 0x3001, 0x4E92,
       0x52A8, 0x578B, 0x3001, 0x6DF1, 0x5EA6, 0x578B, 0x000A, 0x0020, 0x0020, 0x0022, 0x0065,
       0x006D, 0x006F, 0x0074, 0x0069, 0x006F, 0x006E, 0x0054, 0x0065, 0x006E, 0x0064, 0x0065,
       0x006E, 0x0063, 0x0079, 0x0022, 0x003A, 0x0020, 0x0022, 0x60C5, 0x611F, 0x503E, 0x5411,
       0x63CF, 0x8FF0, 0x0022, 0x002C, 0x0020, 0x0020, 0x002F, 0x002F, 0x0020, 0x5982, 0xFF1A,
       0x4E50, 0x89C2, 0x79EF, 0x6781, 0x3001, 0x654F, 0x611F, 0x7EC6, 0x817B, 0x3001, 0x60C5,
       0x7EEA, 0x5E73, 0x8861, 0x000A, 0x0020, 0x0020, 0x0022, 0x0070, 0x0065, 0x0072, 0x0073,
       0x006F, 0x006E, 0x0061, 0x006C, 0x0069, 0x0074, 0x0079, 0x0056, 0x0065, 0x0063, 0x0074,
       0x006F, 0x0072, 0x0022, 0x003A, 0x0020, 0x005B, 0x000A, 0x0020, 0x0020, 0x0020, 0x0020,
       0x007B, 0x0022, 0x0064, 0x0069, 0x006D, 0x0065, 0x006E, 0x0073, 0x0069, 0x006F, 0x006E,
       0x0022, 0x003A, 0x0020, 0x0022, 0x5F00, 0x653E, 0x6027, 0x0022, 0x002C, 0x0020, 0x0022,
       0x0073, 0x0063, 0x006F, 0x0072, 0x0065, 0x0022, 0x003A, 0x0020, 0x0038, 0x0035, 0x007D,
       0x002C, 0x000A, 0x0020, 0x0020, 0x0020, 0x0020, 0x007B, 0x0022, 0x0064, 0x0069, 0x006D,
       0x0065, 0x006E, 0x0073, 0x0069, 0x006F, 0x006E, 0x0022, 0x003A, 0x0020, 0x0022, 0x5916,
       0x5411, 0x6027, 0x0022, 0x002C, 0x0020, 0x0022, 0x0073, 0x0063, 0x006F, 0x0072, 0x0065,
       0x0022, 0x003A, 0x0020, 0x0037, 0x0030, 0x007D, 0x002C, 0x000A, 0x0020, 0x0020, 0x0020,
       0x0020, 0x007B, 0x0022, 0x0064, 0x0069, 0x006D, 0x0065, 0x006E, 0x0073, 0x0069, 0x006F,
       0x006E, 0x0022, 0x003A, 0x0020, 0x0022, 0x8D23, 0x4EFB, 0x5FC3, 0x0022, 0x002C, 0x0020,
       0x0022, 0x0073, 0x0063, 0x006F, 0x0072, 0x0065, 0x0022, 0x003A, 0x0020, 0x0038, 0x0038,
       0x007D, 0x002C, 0x000A, 0x0020, 0x0020, 0x0020, 0x0020, 0x007B, 0x0022, 0x0064, 0x0069,
       0x006D, 0x0065, 0x006E, 0x0073, 0x0069, 0x006F, 0x006E, 0x0022, 0x003A, 0x0020, 0x0022,
       0x5B9C, 0x4EBA, 0x6027, 0x0022, 0x002C, 0x0020, 0x0022, 0x0073, 0x0063, 0x006F, 0x0072,
       0x0065, 0x0022, 0x003A, 0x0020, 0x0039, 0x0030, 0x007D, 0x002C, 0x000A, 0x0020, 0x0020,
       0x0020, 0x0020, 0x007B, 0x0022, 0x0064, 0x0069, 0x006D, 0x0065, 0x006E, 0x0073, 0x0069,
       0x006F, 0x006E, 0x0022, 0x003A, 0x0020, 0x0022, 0x60C5, 0x7EEA, 0x7A33, 0x5B9A, 0x6027,
       0x0022, 0x002C, 0x0020, 0x0022, 0x0073, 0x0063, 0x006F, 0x0072, 0x0065, 0x0022, 0x003A,
       0x0020, 0x0037, 0x0035, 0x007D, 0x000A, 0x0020, 0x0020, 0x005D, 0x002C, 0x000A, 0x0020,
       0x0020, 0x0022, 0x0073, 0x0075, 0x006D, 0x006D, 0x0061, 0x0072, 0x0079, 0x0022, 0x003A,
       0x0020, 0x0022, 0x4E00, 0x53E5, 0x8BDD, 0x603B, 0x7ED3, 0x7528, 0x6237, 0x7684, 0x7075,
       0x9B42, 0x7279, 0x8D28, 0x0022, 0x000A, 0x007D])"

text \<open>The six variables that the handler fills from the reply, with their initial values.\<close>

record analysis =
  an_interests :: "jsstring list"
  an_values :: "jsstring list"
  an_communicationStyle :: jsstring
  an_emotionTendency :: jsstring
  an_personalityVector :: "pv_entry list"
  an_aiSummary :: jsstring

definition initial_analysis :: analysis where
  "initial_analysis =
     \<lparr>an_interests = [], an_values = [],
      an_communicationStyle = [0x63A2, 0x7D22, 0x578B],
      an_emotionTendency = [0x60C5, 0x7EEA, 0x5E73, 0x8861],
      an_personalityVector = [], an_aiSummary = []\<rparr>"

definition or_empty :: "'a list option \<Rightarrow> 'a list" where
  "or_empty x = (case x of None \<Rightarrow> [] | Some xs \<Rightarrow> xs)"

text \<open>An empty reply is falsy and is skipped like \<open>null\<close>. A reply without an object, and one
  whose object \<open>JSON.parse\<close> rejects, leave the variables as they are.\<close>

definition read_ai_reply :: "(jsstring \<Rightarrow> ai_analysis option) \<Rightarrow> jsstring option \<Rightarrow> analysis" where
  "read_ai_reply JSON_parse aiResponse =
     (case aiResponse of
        None \<Rightarrow> initial_analysis
      | Some r \<Rightarrow>
          if r = [] then initial_analysis
          else
            (case match_object r of
               None \<Rightarrow> initial_analysis
             | Some jsonMatch \<Rightarrow>
                 (case JSON_parse jsonMatch of
                    None \<Rightarrow> initial_analysis
                  | Some aiAnalysis \<Rightarrow>
                      \<lparr>an_interests = or_empty (ai_interests aiAnalysis),
                       an_values = or_empty (ai_values aiAnalysis),
                       an_communicationStyle =
                         or_default (ai_communicationStyle aiAnalysis) [0x63A2, 0x7D22, 0x578B],
                       an_emotionTendency =
                         or_default (ai_emotionTendency aiAnalysis) [0x60C5, 0x7EEA, 0x5E73,
                                                                     0x8861],
                       an_personalityVector = or_empty (ai_personalityVector aiAnalysis),
                       an_aiSummary = or_default (ai_summary aiAnalysis) []\<rparr>)))"

subsection \<open>POST /api/profile/analyze\<close>

record analyze_data =
  ad_userId :: jsstring
  ad_profile :: profile_data
  ad_momentCount :: nat
  ad_interactionCount :: nat
  ad_aiEnhanced :: bool

record analyze_result =
  an_response :: "analyze_data response"
  an_db :: database
  an_ran :: "keyword_fn list"

text \<open>\<open>userData?.interests || []\<close> and \<open>userData?.values || []\<close>.\<close>

definition additional :: "user_data option \<Rightarrow> (user_data \<Rightarrow> jsstring list option) \<Rightarrow> jsstring list" where
  "additional userData member =
     (case userData of None \<Rightarrow> [] | Some ud \<Rightarrow> or_empty (member ud))"

text \<open>The fallbacks, each behind the test of the length of its variable, and the match
  score; next to the profile data, the keyword functions that ran.\<close>

definition complete_profile ::
  "(jsstring \<Rightarrow> jsstring) \<Rightarrow> moment_row list \<Rightarrow> user_data option \<Rightarrow> analysis
     \<Rightarrow> profile_data \<times> keyword_fn list" where
  "complete_profile toLowerCase moments userData a =
     (let (interests, ran1) =
            (if length (an_interests a) = 0
             then (extractInterests toLowerCase moments (additional userData ud_interests),
                   [ExtractInterests])
             else (an_interests a, []));
          (values, ran2) =
            (if length (an_values a) = 0
             then (analyzeValues toLowerCase moments (additional userData ud_values),
                   [AnalyzeValues])
             else (an_values a, []));
          (personalityVector, ran3) =
            (if length (an_personalityVector a) = 0
             then (generatePersonalityVector interests values
                     (an_communicationStyle a) (an_emotionTendency a),
                   [GeneratePersonalityVector])
             else (an_personalityVector a, []));
          matchScore = calculateMatchScore personalityVector
      in (\<lparr>pd_interests = interests, pd_values = values,
            pd_communication_style = an_communicationStyle a,
            pd_emotion_tendency = an_emotionTendency a,
            pd_personality_vector = personalityVector,
            pd_match_score = matchScore,
            pd_ai_summary = an_aiSummary a\<rparr>,
          ran1 @ ran2 @ ran3))"

definition analyze_route ::
  "(jsstring \<Rightarrow> jsstring option) \<Rightarrow> (jsstring \<Rightarrow> ai_analysis option) \<Rightarrow> (jsstring \<Rightarrow> jsstring)
     \<Rightarrow> (nat \<Rightarrow> jsstring) \<Rightarrow> int \<Rightarrow> analyze_req \<Rightarrow> database \<Rightarrow> analyze_result" where
  "analyze_route ai JSON_parse toLowerCase uuidv4 now req db =
     (if falsy (an_userId req) then \<lparr>an_response = fail 400, an_db = db, an_ran = []\<rparr>
      else
        let userId = the (an_userId req) in
        case userOperations_findById db userId of
          Inl e \<Rightarrow> \<lparr>an_response = fail 500, an_db = db, an_ran = []\<rparr>
        | Inr None \<Rightarrow> \<lparr>an_response = fail 404, an_db = db, an_ran = []\<rparr>
        | Inr (Some user) \<Rightarrow>
            (case momentOperations_findByUserId_limit db userId 20 of
               Inl e \<Rightarrow> \<lparr>an_response = fail 500, an_db = db, an_ran = []\<rparr>
             | Inr moments \<Rightarrow>
                 (case interactionOperations_findByUserId db userId of
                    Inl e \<Rightarrow> \<lparr>an_response = fail 500, an_db = db, an_ran = []\<rparr>
                  | Inr interactions \<Rightarrow>
                      let aiPrompt = analyze_prompt moments interactions;
                          aiResponse = callAIModel_profile ai aiPrompt;
                          (profileData, ran) =
                            complete_profile toLowerCase moments (an_userData req)
                              (read_ai_reply JSON_parse aiResponse)
                      in case (case soulProfileOperations_findByUserId db userId of
                                 Inl e \<Rightarrow> Inl e
                               | Inr (Some existingProfile) \<Rightarrow>
                                   soulProfileOperations_update now userId profileData db
                               | Inr None \<Rightarrow>
                                   soulProfileOperations_create now (uuidv4 0) userId profileData db) of
                           Inl e \<Rightarrow> \<lparr>an_response = fail 500, an_db = db, an_ran = ran\<rparr>
                         | Inr db' \<Rightarrow>
                             \<lparr>an_response = ok \<lparr>ad_userId = userId, ad_profile = profileData,
                                                  ad_momentCount = length moments,
                                                  ad_interactionCount = length interactions,
                                                  ad_aiEnhanced = (aiResponse \<noteq> None)\<rparr>,
                              an_db = db', an_ran = ran\<rparr>)))"

section \<open>Auxiliary notions for the statements\<close>




text \<open>A list of keywords hits the moments when one of the keywords occurs as a substring of
  the lower-cased content of one of the moments; the categories of a dictionary that are
  matched are those whose keywords hit.\<close>

definition keyword_hit :: "(jsstring \<Rightarrow> jsstring) \<Rightarrow> moment_row list \<Rightarrow> jsstring list \<Rightarrow> bool" where
  "keyword_hit toLowerCase moments keywords \<longleftrightarrow>
     (\<exists>m \<in> set moments. \<exists>kw \<in> set keywords. \<exists>pre post. toLowerCase (m_content m) = pre @ kw @ post)"

definition matched_categories ::
  "(jsstring \<times> jsstring list) list \<Rightarrow> (jsstring \<Rightarrow> jsstring) \<Rightarrow> moment_row list \<Rightarrow> jsstring set" where
  "matched_categories dict toLowerCase moments =
     {c. \<exists>keywords. (c, keywords) \<in> set dict \<and> keyword_hit toLowerCase moments keywords}"

text \<open>Intermediate values of the handler of POST /api/profile/analyze, for a request that
  names a user: the reply of the AI call to the prompt built from the moments and
  interactions read, and the six variables once the reply has been read.\<close>

definition ai_reply ::
  "(jsstring \<Rightarrow> jsstring option) \<Rightarrow> analyze_req \<Rightarrow> database \<Rightarrow> jsstring option" where
  "ai_reply ai req db =
     callAIModel_profile ai
       (analyze_prompt (momentOperations_findByUserId db (the (an_userId req)))
          (rows (interactionOperations_findByUserId db (the (an_userId req)))))"

definition analysis_of ::
  "(jsstring \<Rightarrow> jsstring option) \<Rightarrow> (jsstring \<Rightarrow> ai_analysis option) \<Rightarrow> analyze_req \<Rightarrow> database
     \<Rightarrow> analysis" where
  "analysis_of ai JSON_parse req db = read_ai_reply JSON_parse (ai_reply ai req db)"

text \<open>The AI call succeeded with parsable output: it returned a reply, the reply has a match
  of the object pattern, and \<open>JSON.parse\<close> accepts the match.\<close>

definition ai_parsed ::
  "(jsstring \<Rightarrow> jsstring option) \<Rightarrow> (jsstring \<Rightarrow> ai_analysis option) \<Rightarrow> analyze_req \<Rightarrow> database
     \<Rightarrow> bool" where
  "ai_parsed ai JSON_parse req db \<longleftrightarrow>
     (\<exists>r m a. ai_reply ai req db = Some r \<and> match_object r = Some m \<and> JSON_parse m = Some a)"

text \<open>The handler reaches the analysis when the request names a user that
  \<open>userOperations.findById\<close> finds.\<close>

definition reaches_analysis :: "analyze_req \<Rightarrow> database \<Rightarrow> bool" where
  "reaches_analysis req db \<longleftrightarrow>
     \<not> falsy (an_userId req)
     \<and> (\<exists>user. userOperations_findById db (the (an_userId req)) = Inr (Some user))"




text \<open>Example data: the user \<open>ann\<close> with 20 moments about tea, created at the times 1 to 20,
  and a moment about travel created at time 0.\<close>

definition tea_db :: database where
  "tea_db =
     \<lparr>db_users = [\<lparr>u_id = ascii ''u1'', u_username = ascii ''ann'',
                   u_password = 0x24 # ascii ''pw'', u_avatar = [], u_bio = [],
                   u_created_at = 1, u_updated_at = 1\<rparr>],
      db_soul_profiles = [],
      db_moments = map (\<lambda>i. \<lparr>m_id = [of_nat i], m_user_id = ascii ''u1'', m_content = ascii ''tea'',
                                m_content_type = ascii ''text'', m_sentiment = ascii ''neutral'',
                                m_keywords = [], m_created_at = int i + 1\<rparr>) [0..<20],
      db_interactions = [],
      db_moment_tie = (\<lambda>m. 0), db_interaction_tie = (\<lambda>i. 0)\<rparr>"

definition old_moment :: moment_row where
  "old_moment =
     \<lparr>m_id = ascii ''old'', m_user_id = ascii ''u1'', m_content = [0x65C5, 0x884C],
      m_content_type = ascii ''text'', m_sentiment = ascii ''neutral'',
      m_keywords = [], m_created_at = 0\<rparr>"

section \<open>Properties of the string operations\<close>

lemma startsWith_iff: "startsWith s w \<longleftrightarrow> (\<exists>post. s = w @ post)"
  by (induction s w rule: startsWith.induct) auto

lemma js_includes_iff: "js_includes s w \<longleftrightarrow> (\<exists>pre post. s = pre @ w @ post)"
proof (induction s)
  case Nil
  then show ?case by simp
next
  case (Cons c s)
  show ?case
  proof
    assume "js_includes (c # s) w"
    then consider "startsWith (c # s) w" | "js_includes s w" by auto
    then show "\<exists>pre post. c # s = pre @ w @ post"
    proof cases
      case 1
      then obtain post where "c # s = w @ post" unfolding startsWith_iff by blast
      then have "c # s = [] @ w @ post" by simp
      then show ?thesis by blast
    next
      case 2
      then obtain pre post where "s = pre @ w @ post" using Cons.IH by blast
      then have "c # s = (c # pre) @ w @ post" by simp
      then show ?thesis by blast
    qed
  next
    assume "\<exists>pre post. c # s = pre @ w @ post"
    then obtain pre post where eq: "c # s = pre @ w @ post" by blast
    show "js_includes (c # s) w"
    proof (cases pre)
      case Nil
      with eq have "startsWith (c # s) w" unfolding startsWith_iff by auto
      then show ?thesis by simp
    next
      case (Cons d pre')
      with eq have "s = pre' @ w @ post" by simp
      then have "js_includes s w" using Cons.IH by blast
      then show ?thesis by simp
    qed
  qed
qed

lemma falsy_iff: "falsy x \<longleftrightarrow> x = None \<or> x = Some []"
  by (cases x) (auto simp: falsy_def)

lemma not_falsy_the: "\<not> falsy x \<Longrightarrow> x = Some (the x) \<and> the x \<noteq> []"
  by (cases x) (auto simp: falsy_def)

section \<open>Sentiment of a moment\<close>

lemma foldl_count_up:
  "foldl (\<lambda>score word. if P word then score + 1 else score) (s::int) ws = s + int (length (filter P ws))"
  by (induction ws arbitrary: s) auto

lemma foldl_count_down:
  "foldl (\<lambda>score word. if P word then score - 1 else score) (s::int) ws = s - int (length (filter P ws))"
  by (induction ws arbitrary: s) auto

lemma foldl_push:
  "foldl (\<lambda>acc word. if P word then acc @ [word] else acc) acc ws = acc @ filter P ws"
  by (induction ws arbitrary: acc) auto

lemma distinct_positiveWords: "distinct positiveWords"
  by (simp add: positiveWords_def)

lemma distinct_negativeWords: "distinct negativeWords"
  by (simp add: negativeWords_def)

lemma count_dictionary:
  "distinct ws \<Longrightarrow> length (filter (js_includes text) ws) = card {w \<in> set ws. \<exists>pre post. text = pre @ w @ post}"
proof -
  assume d: "distinct ws"
  have "{w \<in> set ws. \<exists>pre post. text = pre @ w @ post} = {w. js_includes text w} \<inter> set ws"
    by (auto simp: js_includes_iff)
  then show ?thesis using distinct_length_filter [OF d, of "js_includes text"] by simp
qed

lemma sentiment_labels_distinct:
  "ascii ''positive'' \<noteq> ascii ''negative''"
  "ascii ''positive'' \<noteq> ascii ''neutral''"
  "ascii ''negative'' \<noteq> ascii ''neutral''"
  by (simp_all add: ascii_def)

lemma analyzeSentiment_score:
  "analyzeSentiment text =
     (let p = card {w \<in> set positiveWords. \<exists>pre post. text = pre @ w @ post};
          n = card {w \<in> set negativeWords. \<exists>pre post. text = pre @ w @ post}
      in if n < p then ascii ''positive'' else if p < n then ascii ''negative'' else ascii ''neutral'')"
  unfolding analyzeSentiment_def Let_def foldl_count_up foldl_count_down
    count_dictionary [OF distinct_positiveWords] count_dictionary [OF distinct_negativeWords]
  by auto

lemma foldl_push_subset:
  "set (foldl (\<lambda>keywords word. if P word then keywords @ [word] else keywords) acc ws)
     \<subseteq> set acc \<union> set ws"
proof (induction ws arbitrary: acc)
  case Nil
  then show ?case by simp
next
  case (Cons w ws)
  show ?case using Cons [of "acc @ [w]"] Cons [of acc] by (auto split: if_splits)
qed

lemma analyzeSentiment_pg_text: "pg_text (analyzeSentiment t)"
  by (simp add: analyzeSentiment_def Let_def pg_text_def ascii_def)

lemma extractKeywords_pg_jsonb: "pg_jsonb (extractKeywords t)"
proof -
  have "set (extractKeywords t) \<subseteq> set interestWords"
    unfolding extractKeywords_def
    using foldl_push_subset [of "\<lambda>word. js_includes t word" "[]" interestWords]
      set_take_subset [of 5] by fastforce
  moreover have "\<forall>w \<in> set interestWords. pg_text w"
    by (simp add: interestWords_def pg_text_def)
  ultimately show ?thesis by (auto simp: pg_jsonb_def list_all_iff)
qed

text \<open>
  Claim C2. \<open>analyzeSentiment\<close> answers \<open>positive\<close> exactly when more words of the positive
  dictionary than of the negative dictionary occur as substrings of the text, \<open>negative\<close>
  exactly when fewer do, and \<open>neutral\<close> exactly when the two counts agree. A moment that
  POST /api/moments/create stores carries \<open>analyzeSentiment\<close> of its content in its
  sentiment column, and a request that does not succeed stores nothing.
\<close>

theorem analyzeSentiment_counts_stored:
  "(analyzeSentiment text = ascii ''positive'' \<longleftrightarrow>
      card {w \<in> set negativeWords. \<exists>pre post. text = pre @ w @ post}
        < card {w \<in> set positiveWords. \<exists>pre post. text = pre @ w @ post})
   \<and> (analyzeSentiment text = ascii ''negative'' \<longleftrightarrow>
      card {w \<in> set positiveWords. \<exists>pre post. text = pre @ w @ post}
        < card {w \<in> set negativeWords. \<exists>pre post. text = pre @ w @ post})
   \<and> (analyzeSentiment text = ascii ''neutral'' \<longleftrightarrow>
      card {w \<in> set positiveWords. \<exists>pre post. text = pre @ w @ post}
        = card {w \<in> set negativeWords. \<exists>pre post. text = pre @ w @ post})
   \<and> (status (cm_response (create_moment_route uuidv4 now req db)) = 200 \<longrightarrow>
        (\<exists>row. db_moments (cm_db (create_moment_route uuidv4 now req db)) = db_moments db @ [row]
           \<and> cm_content req = Some (m_content row)
           \<and> m_sentiment row = analyzeSentiment (m_content row)))
   \<and> (status (cm_response (create_moment_route uuidv4 now req db)) \<noteq> 200 \<longrightarrow>
        cm_db (create_moment_route uuidv4 now req db) = db)"
proof -
  have lab: "analyzeSentiment t \<noteq> []" for t
    by (simp add: analyzeSentiment_def Let_def ascii_def)
  have route: "status (cm_response (create_moment_route uuidv4 now req db)) = 200 \<longrightarrow>
        (\<exists>row. db_moments (cm_db (create_moment_route uuidv4 now req db)) = db_moments db @ [row]
           \<and> cm_content req = Some (m_content row)
           \<and> m_sentiment row = analyzeSentiment (m_content row))"
    using lab
    by (auto simp: create_moment_route_def momentOperations_create_def Let_def fail_def ok_def
        or_default_def dest: not_falsy_the split: sum.splits if_splits)
  have unchanged: "status (cm_response (create_moment_route uuidv4 now req db)) \<noteq> 200 \<longrightarrow>
        cm_db (create_moment_route uuidv4 now req db) = db"
    by (auto simp: create_moment_route_def Let_def fail_def ok_def split: sum.splits)
  show ?thesis
    using route unchanged sentiment_labels_distinct
    by (simp add: analyzeSentiment_score [of "text"] Let_def) 
qed

text \<open>The text U+7F8E U+597D U+75DB holds two positive words and one negative word.\<close>

theorem analyzeSentiment_counts_stored_witness:
  "card {w \<in> set negativeWords. \<exists>pre post. [0x7F8E, 0x597D, 0x75DB] = pre @ w @ post}
     < card {w \<in> set positiveWords. \<exists>pre post. [0x7F8E, 0x597D, 0x75DB] = pre @ w @ post}
   \<and> (\<exists>row. db_moments (cm_db (create_moment_route (\<lambda>k. ascii ''m1'') 5
             \<lparr>cm_userId = Some (ascii ''u1''), cm_content = Some [0x7F8E, 0x597D, 0x75DB],
              cm_contentType = None\<rparr>
             \<lparr>db_users = [\<lparr>u_id = ascii ''u1'', u_username = ascii ''ann'', u_password = ascii ''h'',
                        u_avatar = [], u_bio = [], u_created_at = 1, u_updated_at = 1\<rparr>],
              db_soul_profiles = [], db_moments = [], db_interactions = [],
              db_moment_tie = (\<lambda>m. 0), db_interaction_tie = (\<lambda>i. 0)\<rparr>)) = [row]
          \<and> m_content row = [0x7F8E, 0x597D, 0x75DB]
          \<and> m_sentiment row = ascii ''positive'')"
proof -
  have s: "analyzeSentiment [0x7F8E, 0x597D, 0x75DB] = ascii ''positive''"
    by (simp add: analyzeSentiment_def positiveWords_def negativeWords_def)
  have st: "status (cm_response (create_moment_route (\<lambda>k. ascii ''m1'') 5
             \<lparr>cm_userId = Some (ascii ''u1''), cm_content = Some [0x7F8E, 0x597D, 0x75DB],
              cm_contentType = None\<rparr>
             \<lparr>db_users = [\<lparr>u_id = ascii ''u1'', u_username = ascii ''ann'', u_password = ascii ''h'',
                        u_avatar = [], u_bio = [], u_created_at = 1, u_updated_at = 1\<rparr>],
              db_soul_profiles = [], db_moments = [], db_interactions = [],
              db_moment_tie = (\<lambda>m. 0), db_interaction_tie = (\<lambda>i. 0)\<rparr>)) = 200"
    by (simp add: create_moment_route_def momentOperations_create_def falsy_def Let_def ok_def ascii_def
        or_default_def pg_text_def analyzeSentiment_pg_text [unfolded pg_text_def]
        extractKeywords_pg_jsonb)
  show ?thesis
    using analyzeSentiment_counts_stored [of "[0x7F8E, 0x597D, 0x75DB]" "\<lambda>k. ascii ''m1''" 5
        "\<lparr>cm_userId = Some (ascii ''u1''), cm_content = Some [0x7F8E, 0x597D, 0x75DB],
              cm_contentType = None\<rparr>"
        "\<lparr>db_users = [\<lparr>u_id = ascii ''u1'', u_username = ascii ''ann'', u_password = ascii ''h'',
                        u_avatar = [], u_bio = [], u_created_at = 1, u_updated_at = 1\<rparr>],
              db_soul_profiles = [], db_moments = [], db_interactions = [],
              db_moment_tie = (\<lambda>m. 0), db_interaction_tie = (\<lambda>i. 0)\<rparr>"] s st
    by auto
qed

section \<open>Registration and login\<close>



lemma findByUsername_Some:
  "userOperations_findByUsername db n = Inr (Some u) \<Longrightarrow>
     pg_text n \<and> u \<in> set (db_users db) \<and> u_username u = n"
  by (auto simp: userOperations_findByUsername_def find_Some_iff split: if_splits)












lemma login_data:
  assumes "data (login_route compareSync req db) = Some d"
  shows "\<exists>user. userOperations_findByUsername db (the (log_username req)) = Inr (Some user)
        \<and> user \<in> set (db_users db) \<and> u_username user = the (log_username req)
        \<and> compareSync (the (log_password req)) (u_password user)
        \<and> d = \<lparr>ld_userId = u_id user, ld_username = u_username user,
                 ld_avatar = u_avatar user, ld_bio = u_bio user\<rparr>"
proof -
  from assms obtain user where
    u: "userOperations_findByUsername db (the (log_username req)) = Inr (Some user)"
      "compareSync (the (log_password req)) (u_password user)"
      "d = \<lparr>ld_userId = u_id user, ld_username = u_username user,
             ld_avatar = u_avatar user, ld_bio = u_bio user\<rparr>"
    by (auto simp: login_route_def Let_def fail_def ok_def
        split: option.splits sum.splits if_splits)
  with findByUsername_Some [OF u(1)] show ?thesis by blast
qed



section \<open>The match of the JSON patterns\<close>

lemma star_then_None_iff: "star_then close s = None \<longleftrightarrow> close \<notin> set s"
  by (induction s) (auto split: option.splits)

lemma star_then_Some_iff:
  "star_then close s = Some m \<longleftrightarrow> (\<exists>body post. s = m @ post \<and> m = body @ [close] \<and> close \<notin> set post)"
proof (induction s arbitrary: m)
  case Nil
  then show ?case by simp
next
  case (Cons x s)
  show ?case
  proof (cases "star_then close s")
    case None
    then have notin: "close \<notin> set s" by (simp add: star_then_None_iff)
    show ?thesis
    proof
      assume "star_then close (x # s) = Some m"
      with None have "x = close" "m = [x]" by (auto split: if_splits)
      then have "x # s = m @ s \<and> m = [] @ [close] \<and> close \<notin> set s" using notin by simp
      then show "\<exists>body post. x # s = m @ post \<and> m = body @ [close] \<and> close \<notin> set post" by blast
    next
      assume "\<exists>body post. x # s = m @ post \<and> m = body @ [close] \<and> close \<notin> set post"
      then obtain body post where eq: "x # s = m @ post" "m = body @ [close]" "close \<notin> set post" by blast
      have "body = []"
      proof (cases body)
        case Nil then show ?thesis .
      next
        case (Cons b body')
        with eq have "s = body' @ [close] @ post" by simp
        then have "close \<in> set s" by simp
        with notin show ?thesis by simp
      qed
      with eq have "x = close" "m = [close]" by auto
      with None show "star_then close (x # s) = Some m" by simp
    qed
  next
    case (Some m')
    then obtain body' post' where s: "s = m' @ post'" "m' = body' @ [close]" "close \<notin> set post'"
      using Cons.IH by blast
    show ?thesis
    proof
      assume "star_then close (x # s) = Some m"
      with Some have "m = x # m'" by simp
      with s have "x # s = m @ post' \<and> m = (x # body') @ [close] \<and> close \<notin> set post'" by simp
      then show "\<exists>body post. x # s = m @ post \<and> m = body @ [close] \<and> close \<notin> set post" by blast
    next
      assume "\<exists>body post. x # s = m @ post \<and> m = body @ [close] \<and> close \<notin> set post"
      then obtain body post where eq: "x # s = m @ post" "m = body @ [close]" "close \<notin> set post" by blast
      have "body \<noteq> []"
      proof
        assume "body = []"
        with eq have "s = post" by simp
        with eq(3) s show False by simp
      qed
      then obtain b body2 where b: "body = b # body2" by (cases body) auto
      with eq have "s = (body2 @ [close]) @ post" "b = x" by simp_all
      then have "star_then close s = Some (body2 @ [close])" using eq(3) Cons.IH by blast
      with Some have "m' = body2 @ [close]" by simp
      with b eq \<open>b = x\<close> have "m = x # m'" by simp
      with Some show "star_then close (x # s) = Some m" by simp
    qed
  qed
qed

lemma match_at_None_iff:
  "match_at opn close s = None \<longleftrightarrow> \<not> (\<exists>body post. s = opn # body @ close # post)"
proof (cases s)
  case Nil
  then show ?thesis by (simp add: match_at_def)
next
  case (Cons c rest)
  have "close \<in> set rest \<longleftrightarrow> (\<exists>body post. rest = body @ close # post)"
    by (metis in_set_conv_decomp)
  with Cons show ?thesis
    by (auto simp: match_at_def star_then_None_iff)
qed

lemma match_at_Some_iff:
  "match_at opn close s = Some m \<longleftrightarrow>
     (\<exists>body post. s = m @ post \<and> m = opn # body @ [close] \<and> close \<notin> set post)"
proof (cases s)
  case Nil
  then show ?thesis by (simp add: match_at_def)
next
  case (Cons c rest)
  show ?thesis
  proof
    assume "match_at opn close s = Some m"
    with Cons obtain m' where m': "c = opn" "star_then close rest = Some m'" "m = c # m'"
      by (auto simp: match_at_def split: if_splits)
    then obtain body post where "rest = m' @ post" "m' = body @ [close]" "close \<notin> set post"
      using star_then_Some_iff by blast
    with m' Cons have "s = m @ post \<and> m = opn # body @ [close] \<and> close \<notin> set post" by simp
    then show "\<exists>body post. s = m @ post \<and> m = opn # body @ [close] \<and> close \<notin> set post" by blast
  next
    assume "\<exists>body post. s = m @ post \<and> m = opn # body @ [close] \<and> close \<notin> set post"
    then obtain body post where eq: "s = m @ post" "m = opn # body @ [close]" "close \<notin> set post" by blast
    with Cons have "c = opn" "rest = (body @ [close]) @ post" by simp_all
    then have "star_then close rest = Some (body @ [close])"
      using eq(3) star_then_Some_iff by blast
    with Cons \<open>c = opn\<close> eq show "match_at opn close s = Some m" by (simp add: match_at_def)
  qed
qed

lemma regex_match_Some_iff:
  "regex_match opn close s = Some m \<longleftrightarrow>
     (\<exists>pre body post. s = pre @ m @ post \<and> m = opn # body @ [close]
        \<and> opn \<notin> set pre \<and> close \<notin> set post)"
proof (induction s)
  case Nil
  then show ?case by simp
next
  case (Cons c s)
  show ?case
  proof (cases "match_at opn close (c # s)")
    case (Some m0)
    then obtain body0 post0 where m0: "c # s = m0 @ post0" "m0 = opn # body0 @ [close]" "close \<notin> set post0"
      using match_at_Some_iff by blast
    show ?thesis
    proof
      assume "regex_match opn close (c # s) = Some m"
      with Some have "m = m0" by simp
      with m0 have "c # s = [] @ m @ post0 \<and> m = opn # body0 @ [close] \<and> opn \<notin> set [] \<and> close \<notin> set post0"
        by simp
      then show "\<exists>pre body post. c # s = pre @ m @ post \<and> m = opn # body @ [close]
        \<and> opn \<notin> set pre \<and> close \<notin> set post" by blast
    next
      assume "\<exists>pre body post. c # s = pre @ m @ post \<and> m = opn # body @ [close]
        \<and> opn \<notin> set pre \<and> close \<notin> set post"
      then obtain pre body post where eq: "c # s = pre @ m @ post" "m = opn # body @ [close]"
        "opn \<notin> set pre" "close \<notin> set post" by blast
      from m0 have "c = opn" by simp
      with eq have "pre = []" by (cases pre) auto
      with eq have "c # s = m @ post" by simp
      then have "match_at opn close (c # s) = Some m" using eq match_at_Some_iff by blast
      with Some show "regex_match opn close (c # s) = Some m" by simp
    qed
  next
    case None
    then have nomatch: "\<not> (\<exists>body post. c # s = opn # body @ close # post)"
      by (simp add: match_at_None_iff)
    have r: "regex_match opn close (c # s) = regex_match opn close s" using None by simp
    show ?thesis
    proof
      assume "regex_match opn close (c # s) = Some m"
      then obtain pre body post where "s = pre @ m @ post" "m = opn # body @ [close]"
        "opn \<notin> set pre" "close \<notin> set post" using r Cons.IH by auto
      moreover have "c \<noteq> opn"
      proof
        assume "c = opn"
        with calculation have "c # s = opn # (pre @ opn # body) @ close # post" by simp
        with nomatch show False by blast
      qed
      ultimately have "c # s = (c # pre) @ m @ post \<and> m = opn # body @ [close]
        \<and> opn \<notin> set (c # pre) \<and> close \<notin> set post" by auto
      then show "\<exists>pre body post. c # s = pre @ m @ post \<and> m = opn # body @ [close]
        \<and> opn \<notin> set pre \<and> close \<notin> set post" by blast
    next
      assume "\<exists>pre body post. c # s = pre @ m @ post \<and> m = opn # body @ [close]
        \<and> opn \<notin> set pre \<and> close \<notin> set post"
      then obtain pre body post where eq: "c # s = pre @ m @ post" "m = opn # body @ [close]"
        "opn \<notin> set pre" "close \<notin> set post" by blast
      have "pre \<noteq> []"
      proof
        assume "pre = []"
        with eq have "c # s = opn # body @ close # post" by simp
        with nomatch show False by blast
      qed
      then obtain p pre' where p: "pre = p # pre'" by (cases pre) auto
      with eq have "s = pre' @ m @ post" "opn \<notin> set pre'" by simp_all
      then have "regex_match opn close s = Some m" using eq Cons.IH by blast
      with r show "regex_match opn close (c # s) = Some m" by simp
    qed
  qed
qed

lemma regex_match_None_iff:
  "regex_match opn close s = None \<longleftrightarrow> \<not> (\<exists>pre body post. s = pre @ opn # body @ close # post)"
proof (induction s)
  case Nil
  then show ?case by simp
next
  case (Cons c s)
  show ?case
  proof (cases "match_at opn close (c # s)")
    case (Some m0)
    then obtain body0 post0 where "c # s = m0 @ post0" "m0 = opn # body0 @ [close]"
      using match_at_Some_iff by blast
    then have "c # s = [] @ opn # body0 @ close # post0" by simp
    then have "\<exists>pre body post. c # s = pre @ opn # body @ close # post" by blast
    with Some show ?thesis by simp
  next
    case None
    then have nomatch: "\<not> (\<exists>body post. c # s = opn # body @ close # post)"
      by (simp add: match_at_None_iff)
    have "(\<exists>pre body post. c # s = pre @ opn # body @ close # post)
        \<longleftrightarrow> (\<exists>pre body post. s = pre @ opn # body @ close # post)"
    proof
      assume "\<exists>pre body post. c # s = pre @ opn # body @ close # post"
      then obtain pre body post where eq: "c # s = pre @ opn # body @ close # post" by blast
      with nomatch have "pre \<noteq> []" by auto
      then obtain p pre' where "pre = p # pre'" by (cases pre) auto
      with eq have "s = pre' @ opn # body @ close # post" by simp
      then show "\<exists>pre body post. s = pre @ opn # body @ close # post" by blast
    next
      assume "\<exists>pre body post. s = pre @ opn # body @ close # post"
      then obtain pre body post where "s = pre @ opn # body @ close # post" by blast
      then have "c # s = (c # pre) @ opn # body @ close # post" by simp
      then show "\<exists>pre body post. c # s = pre @ opn # body @ close # post" by blast
    qed
    with None Cons.IH show ?thesis by simp
  qed
qed

section \<open>Generated suggestions and their fallback\<close>

lemma generate_types_distinct:
  "ascii ''moment'' \<noteq> ascii ''icebreaker''" "ascii ''moment'' \<noteq> ascii ''bio''"
  "ascii ''icebreaker'' \<noteq> ascii ''bio''"
  "ascii ''moment'' \<noteq> []" "ascii ''icebreaker'' \<noteq> []" "ascii ''bio'' \<noteq> []"
  by (simp_all add: ascii_def)

lemma generate_prompt_Some:
  "type \<in> {ascii ''moment'', ascii ''icebreaker'', ascii ''bio''} \<Longrightarrow>
     \<exists>p. generate_prompt type content = Some p"
  by (auto simp: generate_prompt_def)

lemma generate_try_Inl_iff:
  "(\<exists>e. generate_try ai JSON_parse uuidv4 p = Inl e) \<longleftrightarrow>
     ai p = None
     \<or> (\<exists>r. ai p = Some r \<and>
           (match_array r = None
            \<or> (\<exists>m. match_array r = Some m \<and>
                  (JSON_parse m = None \<or> (\<exists>v. JSON_parse m = Some v \<and> (\<forall>items. v \<noteq> JArr items))))))"
  by (auto simp: generate_try_def callAIModel_def split: option.splits sum.splits json.splits)

lemma generate_route_fallback:
  assumes "gen_content req = Some content" "content \<noteq> []" "gen_type req = Some type"
    and "generate_prompt type content = Some p"
  shows "generate_route ai JSON_parse uuidv4 req =
     (case generate_try ai JSON_parse uuidv4 p of
        Inr generatedContent \<Rightarrow>
          \<lparr>gen_response = ok \<lparr>gd_original = content, gd_type = type, gd_suggestions = generatedContent\<rparr>,
           gen_fallback = False\<rparr>
      | Inl aiError \<Rightarrow>
          \<lparr>gen_response = ok \<lparr>gd_original = content, gd_type = type,
                               gd_suggestions = default_templates type content uuidv4\<rparr>,
           gen_fallback = True\<rparr>)"
proof -
  have "type \<noteq> []" using assms(4) by (auto simp: generate_prompt_def ascii_def split: if_splits)
  then show ?thesis using assms by (simp add: generate_route_def falsy_def Let_def)
qed


lemma embeds_cons: "\<exists>pre post. xs = pre @ c @ post \<Longrightarrow> \<exists>pre post. x # xs = pre @ c @ (post :: 'a list)"
  by (metis append_Cons)

lemma embeds_here: "\<exists>pre post. c @ ys = pre @ c @ (post :: 'a list)"
  by (metis append_Nil)

lemma key_text_id: "ascii ''text'' \<noteq> ascii ''id''" "ascii ''text'' \<noteq> ascii ''style''"
  "ascii ''text'' \<noteq> ascii ''approach''" "ascii ''id'' \<noteq> ascii ''text''"
  by (simp_all add: ascii_def)

lemma default_templates_length:
  assumes "type \<in> {ascii ''moment'', ascii ''icebreaker'', ascii ''bio''}"
  shows "length (default_templates type content uuidv4) = 3"
  using assms by (auto simp: default_templates_def generate_types_distinct)

lemma default_templates_id:
  assumes "type \<in> {ascii ''moment'', ascii ''icebreaker'', ascii ''bio''}" and "i < 3"
  shows "get_field (default_templates type content uuidv4 ! i) (ascii ''id'') = Some (JStr (uuidv4 i))"
proof -
  have i: "i = 0 \<or> i = 1 \<or> i = 2" using assms(2) by auto
  from assms(1) consider "type = ascii ''moment''" | "type = ascii ''icebreaker''" | "type = ascii ''bio''"
    by auto
  then show ?thesis
  proof cases
    case 1
    with i show ?thesis by (auto simp: default_templates_def)
  next
    case 2
    with i show ?thesis by (auto simp: default_templates_def generate_types_distinct)
  next
    case 3
    with i show ?thesis by (auto simp: default_templates_def generate_types_distinct)
  qed
qed

lemma default_templates_text:
  assumes "type \<in> {ascii ''moment'', ascii ''icebreaker'', ascii ''bio''}" and "i < 3"
  shows "\<exists>pre post. get_field (default_templates type content uuidv4 ! i) (ascii ''text'')
            = Some (JStr (pre @ content @ post))"
proof -
  have i: "i = 0 \<or> i = 1 \<or> i = 2" using assms(2) by auto
  from assms(1) consider "type = ascii ''moment''" | "type = ascii ''icebreaker''" | "type = ascii ''bio''"
    by auto
  then show ?thesis
  proof cases
    case 1
    with i show ?thesis
      by (auto simp: default_templates_def key_text_id intro!: embeds_cons embeds_here)
  next
    case 2
    with i show ?thesis
      by (auto simp: default_templates_def generate_types_distinct key_text_id intro!: embeds_cons embeds_here)
  next
    case 3
    with i show ?thesis
      by (auto simp: default_templates_def generate_types_distinct key_text_id intro!: embeds_cons embeds_here)
  qed
qed

text \<open>
  Claim C3. A POST /api/assistant/generate request with non-empty content and one of the
  types \<open>moment\<close>, \<open>icebreaker\<close>, \<open>bio\<close> is answered with status 200 and \<open>success\<close> true
  also when the AI call throws, when its reply has no match of the array pattern, and when
  the match is not valid JSON. The suggestions are then the three templates of the type:
  each carries the identifier of its own \<open>uuidv4()\<close> call and a text that holds the
  submitted content verbatim.
\<close>

theorem generate_fallback_templates:
  assumes "gen_content req = Some content" and "content \<noteq> []"
    and "gen_type req = Some type"
    and "type \<in> {ascii ''moment'', ascii ''icebreaker'', ascii ''bio''}"
    and "generate_prompt type content = Some aiPrompt"
    and "ai aiPrompt = None
         \<or> (\<exists>r. ai aiPrompt = Some r \<and>
               (match_array r = None \<or> (\<exists>m. match_array r = Some m \<and> JSON_parse m = None)))"
  shows "status (gen_response (generate_route ai JSON_parse uuidv4 req)) = 200
     \<and> success (gen_response (generate_route ai JSON_parse uuidv4 req))
     \<and> (\<exists>d. data (gen_response (generate_route ai JSON_parse uuidv4 req)) = Some d
           \<and> gd_original d = content \<and> gd_type d = type
           \<and> gd_suggestions d = default_templates type content uuidv4
           \<and> length (gd_suggestions d) = 3
           \<and> (\<forall>i<3. get_field (gd_suggestions d ! i) (ascii ''id'') = Some (JStr (uuidv4 i))
                  \<and> (\<exists>pre post. get_field (gd_suggestions d ! i) (ascii ''text'')
                         = Some (JStr (pre @ content @ post)))))"
proof -
  from assms(6) have "\<exists>e. generate_try ai JSON_parse uuidv4 aiPrompt = Inl e"
    unfolding generate_try_Inl_iff by blast
  then obtain e where e: "generate_try ai JSON_parse uuidv4 aiPrompt = Inl e" by blast
  have r: "generate_route ai JSON_parse uuidv4 req =
       \<lparr>gen_response = ok \<lparr>gd_original = content, gd_type = type,
                            gd_suggestions = default_templates type content uuidv4\<rparr>,
        gen_fallback = True\<rparr>"
    using generate_route_fallback [OF assms(1,2,3,5), of ai JSON_parse uuidv4] e by simp
  show ?thesis
    unfolding r
    using default_templates_length [OF assms(4)] default_templates_id [OF assms(4)]
      default_templates_text [OF assms(4)]
    by (simp add: ok_def)
qed

text \<open>The endpoint is down; the request asks for a \<open>bio\<close> from the content \<open>tea\<close>.\<close>

theorem generate_fallback_templates_witness:
  "status (gen_response (generate_route (\<lambda>p. None) (\<lambda>s. None) (\<lambda>k. [of_nat k])
       \<lparr>gen_content = Some (ascii ''tea''), gen_type = Some (ascii ''bio'')\<rparr>)) = 200
   \<and> (\<exists>d. data (gen_response (generate_route (\<lambda>p. None) (\<lambda>s. None) (\<lambda>k. [of_nat k])
               \<lparr>gen_content = Some (ascii ''tea''), gen_type = Some (ascii ''bio'')\<rparr>)) = Some d
         \<and> gd_suggestions d = default_templates (ascii ''bio'') (ascii ''tea'') (\<lambda>k. [of_nat k])
         \<and> length (gd_suggestions d) = 3)"
proof -
  let ?req = "\<lparr>gen_content = Some (ascii ''tea''), gen_type = Some (ascii ''bio'')\<rparr>"
  have h1: "gen_content ?req = Some (ascii ''tea'')" by simp
  have h2: "ascii ''tea'' \<noteq> []" by (simp add: ascii_def)
  have h3: "gen_type ?req = Some (ascii ''bio'')" by simp
  have h4: "ascii ''bio'' \<in> {ascii ''moment'', ascii ''icebreaker'', ascii ''bio''}" by simp
  have h5: "generate_prompt (ascii ''bio'') (ascii ''tea'')
              = Some (the (generate_prompt (ascii ''bio'') (ascii ''tea'')))"
    by (simp add: generate_prompt_def generate_types_distinct)
  have h6: "(\<lambda>p. None :: jsstring option) (the (generate_prompt (ascii ''bio'') (ascii ''tea''))) = None
     \<or> (\<exists>r. (\<lambda>p. None) (the (generate_prompt (ascii ''bio'') (ascii ''tea''))) = Some r \<and>
               (match_array r = None \<or> (\<exists>m. match_array r = Some m \<and> (\<lambda>s. None :: json option) m = None)))"
    by simp
  from generate_fallback_templates [OF h1 h2 h3 h4 h5 h6, of "\<lambda>k. [of_nat k]"]
  show ?thesis by blast
qed

text \<open>
  Claim C6. The text that POST /api/assistant/generate hands to \<open>JSON.parse\<close> is the part of
  the reply from its first opening bracket to its last closing bracket, the greedy match
  of the array pattern; there is no match exactly when no closing bracket follows an opening
  one. The default templates are used if and only if there is no match or \<open>JSON.parse\<close>
  throws on it. \<open>JSON.parse\<close> yields an array whenever it accepts a text that begins with
  an opening bracket.
\<close>

theorem generate_extraction_greedy:
  assumes "\<forall>s v. JSON_parse s = Some v \<and> (\<exists>rest. s = 0x5B # rest) \<longrightarrow> (\<exists>items. v = JArr items)"
    and "gen_content req = Some content" and "content \<noteq> []"
    and "gen_type req = Some type"
    and "generate_prompt type content = Some aiPrompt"
    and "ai aiPrompt = Some aiResponse"
  shows "(\<forall>m. match_array aiResponse = Some m \<longleftrightarrow>
            (\<exists>pre body post. aiResponse = pre @ m @ post \<and> m = 0x5B # body @ [0x5D]
               \<and> 0x5B \<notin> set pre \<and> 0x5D \<notin> set post))
     \<and> (match_array aiResponse = None \<longleftrightarrow>
            \<not> (\<exists>pre body post. aiResponse = pre @ 0x5B # body @ 0x5D # post))
     \<and> (gen_fallback (generate_route ai JSON_parse uuidv4 req) \<longleftrightarrow>
            match_array aiResponse = None
            \<or> (\<exists>m. match_array aiResponse = Some m \<and> JSON_parse m = None))
     \<and> (gen_fallback (generate_route ai JSON_parse uuidv4 req) \<longrightarrow>
            data (gen_response (generate_route ai JSON_parse uuidv4 req))
              = Some \<lparr>gd_original = content, gd_type = type,
                      gd_suggestions = default_templates type content uuidv4\<rparr>)
     \<and> (\<not> gen_fallback (generate_route ai JSON_parse uuidv4 req) \<longrightarrow>
            (\<exists>m items. match_array aiResponse = Some m \<and> JSON_parse m = Some (JArr items)
               \<and> data (gen_response (generate_route ai JSON_parse uuidv4 req))
                   = Some \<lparr>gd_original = content, gd_type = type,
                           gd_suggestions =
                             map (\<lambda>(i, item). JObj (spread [(ascii ''id'', JStr (uuidv4 i))] item))
                               (enumerate 0 items)\<rparr>))"
proof -
  note r = generate_route_fallback [OF assms(2,3,4,5), of ai JSON_parse uuidv4]
  have arr: "\<exists>items. v = JArr items" if "match_array aiResponse = Some m" "JSON_parse m = Some v" for m v
  proof -
    from that(1) obtain body where "m = 0x5B # body @ [0x5D]"
      unfolding match_array_def regex_match_Some_iff by blast
    with that(2) assms(1) show ?thesis by blast
  qed
  have c1: "\<forall>m. match_array aiResponse = Some m \<longleftrightarrow>
            (\<exists>pre body post. aiResponse = pre @ m @ post \<and> m = 0x5B # body @ [0x5D]
               \<and> 0x5B \<notin> set pre \<and> 0x5D \<notin> set post)"
    unfolding match_array_def regex_match_Some_iff by simp
  have c2: "match_array aiResponse = None \<longleftrightarrow>
            \<not> (\<exists>pre body post. aiResponse = pre @ 0x5B # body @ 0x5D # post)"
    unfolding match_array_def regex_match_None_iff by simp
  have c345: "(gen_fallback (generate_route ai JSON_parse uuidv4 req) \<longleftrightarrow>
            match_array aiResponse = None
            \<or> (\<exists>m. match_array aiResponse = Some m \<and> JSON_parse m = None))
     \<and> (gen_fallback (generate_route ai JSON_parse uuidv4 req) \<longrightarrow>
            data (gen_response (generate_route ai JSON_parse uuidv4 req))
              = Some \<lparr>gd_original = content, gd_type = type,
                      gd_suggestions = default_templates type content uuidv4\<rparr>)
     \<and> (\<not> gen_fallback (generate_route ai JSON_parse uuidv4 req) \<longrightarrow>
            (\<exists>m items. match_array aiResponse = Some m \<and> JSON_parse m = Some (JArr items)
               \<and> data (gen_response (generate_route ai JSON_parse uuidv4 req))
                   = Some \<lparr>gd_original = content, gd_type = type,
                           gd_suggestions =
                             map (\<lambda>(i, item). JObj (spread [(ascii ''id'', JStr (uuidv4 i))] item))
                               (enumerate 0 items)\<rparr>))"
  proof (cases "match_array aiResponse")
    case None
    then have t: "generate_try ai JSON_parse uuidv4 aiPrompt = Inl Error"
      using assms(6) by (simp add: generate_try_def callAIModel_def)
    show ?thesis using None by (simp add: r t ok_def)
  next
    case (Some m)
    note m = this
    show ?thesis
    proof (cases "JSON_parse m")
      case None
      then have t: "generate_try ai JSON_parse uuidv4 aiPrompt = Inl SyntaxError"
        using assms(6) m by (simp add: generate_try_def callAIModel_def)
      show ?thesis using m None by (simp add: r t ok_def)
    next
      case (Some v)
      with arr m obtain items where v: "v = JArr items" by blast
      have t: "generate_try ai JSON_parse uuidv4 aiPrompt =
          Inr (map (\<lambda>(i, item). JObj (spread [(ascii ''id'', JStr (uuidv4 i))] item)) (enumerate 0 items))"
        using assms(6) Some v m by (simp add: generate_try_def callAIModel_def)
      show ?thesis using Some v m by (simp add: r t ok_def)
    qed
  qed
  show ?thesis by (intro conjI c1 c2 c345 [THEN conjunct1] c345 [THEN conjunct2, THEN conjunct1]
        c345 [THEN conjunct2, THEN conjunct2])
qed

text \<open>The reply is \<open>a[]b]\<close>: the match runs to the last closing bracket and is no JSON, so
  the templates are used. The parser accepts the text \<open>[]\<close> only.\<close>

theorem generate_extraction_greedy_witness:
  "match_array (ascii ''a[]b]'') = Some (ascii ''[]b]'')
   \<and> gen_fallback (generate_route (\<lambda>p. Some (ascii ''a[]b]''))
         (\<lambda>s. if s = ascii ''[]'' then Some (JArr []) else None) (\<lambda>k. [of_nat k])
         \<lparr>gen_content = Some (ascii ''tea''), gen_type = Some (ascii ''bio'')\<rparr>)"
proof -
  let ?req = "\<lparr>gen_content = Some (ascii ''tea''), gen_type = Some (ascii ''bio'')\<rparr>"
  let ?parse = "\<lambda>s. if s = ascii ''[]'' then Some (JArr []) else None"
  let ?ai = "\<lambda>p :: jsstring. Some (ascii ''a[]b]'')"
  have h1: "\<forall>s v. ?parse s = Some v \<and> (\<exists>rest. s = 0x5B # rest) \<longrightarrow> (\<exists>items. v = JArr items)"
    by (auto split: if_splits)
  have h2: "gen_content ?req = Some (ascii ''tea'')" by simp
  have h3: "ascii ''tea'' \<noteq> []" by (simp add: ascii_def)
  have h4: "gen_type ?req = Some (ascii ''bio'')" by simp
  have h5: "generate_prompt (ascii ''bio'') (ascii ''tea'')
              = Some (the (generate_prompt (ascii ''bio'') (ascii ''tea'')))"
    by (simp add: generate_prompt_def generate_types_distinct)
  have h6: "?ai (the (generate_prompt (ascii ''bio'') (ascii ''tea''))) = Some (ascii ''a[]b]'')"
    by simp
  note T = generate_extraction_greedy [OF h1 h2 h3 h4 h5 h6, of "\<lambda>k. [of_nat k]"]
  have shape: "\<exists>pre body post. ascii ''a[]b]'' = pre @ ascii ''[]b]'' @ post
      \<and> ascii ''[]b]'' = 0x5B # body @ [0x5D] \<and> 0x5B \<notin> set pre \<and> 0x5D \<notin> set post"
  proof (intro exI conjI)
    show "ascii ''a[]b]'' = ascii ''a'' @ ascii ''[]b]'' @ []" by (simp add: ascii_def)
    show "ascii ''[]b]'' = 0x5B # ascii '']b'' @ [0x5D]" by (simp add: ascii_def)
    show "0x5B \<notin> set (ascii ''a'')" by (simp add: ascii_def)
    show "0x5D \<notin> set ([] :: jsstring)" by simp
  qed
  have m: "match_array (ascii ''a[]b]'') = Some (ascii ''[]b]'')"
    using T [THEN conjunct1, rule_format, THEN iffD2, OF shape] .
  have p: "?parse (ascii ''[]b]'') = None" by (simp add: ascii_def)
  have "match_array (ascii ''a[]b]'') = None
        \<or> (\<exists>m. match_array (ascii ''a[]b]'') = Some m \<and> ?parse m = None)"
    using m p by blast
  then have f: "gen_fallback (generate_route ?ai ?parse (\<lambda>k. [of_nat k]) ?req)"
    using T [THEN conjunct2, THEN conjunct2, THEN conjunct1] by blast
  show ?thesis using m f by (intro conjI)
qed

section \<open>Conversation suggestions\<close>


























text \<open>The conversation \<open>[null]\<close> is an array and is answered with status 500 and \<open>success\<close>
  false, because \<open>m.content\<close> throws; so is \<open>[{"content": 7}]\<close>, because a number has no
  function \<open>includes\<close>.\<close>

theorem suggest_route_null_message_counterexample:
  "status (suggest_route (\<lambda>p. None) (\<lambda>s. None) (\<lambda>n. ascii ''7'') (\<lambda>k. [of_nat k]) 0
       \<lparr>sug_conversation = Some (JArr [JNull])\<rparr>) = 500
   \<and> \<not> success (suggest_route (\<lambda>p. None) (\<lambda>s. None) (\<lambda>n. ascii ''7'') (\<lambda>k. [of_nat k]) 0
       \<lparr>sug_conversation = Some (JArr [JNull])\<rparr>)
   \<and> status (suggest_route (\<lambda>p. None) (\<lambda>s. None) (\<lambda>n. ascii ''7'') (\<lambda>k. [of_nat k]) 0
       \<lparr>sug_conversation = Some (JArr [JObj [(ascii ''content'', JNum 7)]])\<rparr>) = 500
   \<and> \<not> success (suggest_route (\<lambda>p. None) (\<lambda>s. None) (\<lambda>n. ascii ''7'') (\<lambda>k. [of_nat k]) 0
       \<lparr>sug_conversation = Some (JArr [JObj [(ascii ''content'', JNum 7)]])\<rparr>)"
proof -
  have a: "suggest_route (\<lambda>p. None) (\<lambda>s. None) (\<lambda>n. ascii ''7'') (\<lambda>k. [of_nat k]) 0
       \<lparr>sug_conversation = Some (JArr [JNull])\<rparr> = fail 500"
    by (simp add: suggest_route_def conversationText_of_def read_member_def Let_def)
  have "lastMessage_of [JObj [(ascii ''content'', JNum 7)]] = JNum 7"
    by (simp add: lastMessage_of_def js_truthy_def)
  then have b: "suggest_route (\<lambda>p. None) (\<lambda>s. None) (\<lambda>n. ascii ''7'') (\<lambda>k. [of_nat k]) 0
       \<lparr>sug_conversation = Some (JArr [JObj [(ascii ''content'', JNum 7)]])\<rparr> = fail 500"
    by (simp add: suggest_route_def conversationText_of_def read_member_def join_element_def
        Let_def suggest_try_def callAIModel_def suggest_catch_def lastMessage_includes_def)
  show ?thesis unfolding a b by (simp add: fail_def)
qed
section \<open>Personality vector and match score\<close>

lemma foldl_scores: "foldl (\<lambda>sum v. sum + score v) s vector = s + (\<Sum>v\<leftarrow>vector. score v)"
  by (induction vector arbitrary: s) auto

lemma calculateMatchScore_mean:
  "vector \<noteq> [] \<Longrightarrow>
     calculateMatchScore vector
       = Some (round ((of_int (\<Sum>v\<leftarrow>vector. score v) :: rat) / of_nat (length vector)))"
  by (simp add: calculateMatchScore_def Let_def foldl_scores round_def)

lemma generated_scores:
  "map score (generatePersonalityVector interests values style emotion) =
     [min (int (length interests) * 12) 100,
      if style = [0x4E92, 0x52A8, 0x578B] then 85 else 60,
      if [0x6210, 0x957F] \<in> set values then 88 else 70,
      if emotion = [0x4E50, 0x89C2, 0x79EF, 0x6781] then 90 else 75,
      if emotion = [0x60C5, 0x7EEA, 0x5E73, 0x8861] then 85 else 70]"
  by (simp add: generatePersonalityVector_def)

lemma generated_total:
  "275 \<le> (\<Sum>v\<leftarrow>generatePersonalityVector interests values style emotion. score v)
   \<and> (\<Sum>v\<leftarrow>generatePersonalityVector interests values style emotion. score v) \<le> 433"
proof -
  have "(\<Sum>v\<leftarrow>generatePersonalityVector interests values style emotion. score v)
      = sum_list (map score (generatePersonalityVector interests values style emotion))" by simp
  then show ?thesis unfolding generated_scores by (auto simp: min_def)
qed

lemma round_fifth_bounds:
  fixes t :: int
  assumes "275 \<le> t" "t \<le> 433"
  shows "55 \<le> round ((of_int t :: rat) / 5) \<and> round ((of_int t :: rat) / 5) \<le> 87"
proof -
  have "(55 :: rat) \<le> of_int t / 5" using assms by simp
  then have "round (55 :: rat) \<le> round ((of_int t :: rat) / 5)" by (rule round_mono)
  moreover have "round (55 :: rat) = 55" by simp
  moreover have "(of_int t :: rat) / 5 \<le> 87" using assms by simp
  then have "round ((of_int t :: rat) / 5) \<le> round (87 :: rat)" by (rule round_mono)
  moreover have "round (87 :: rat) = 87" by simp
  ultimately show ?thesis by simp
qed

text \<open>
  Claim C5. \<open>calculateMatchScore\<close> returns the arithmetic mean of the scores of the vector
  rounded to the nearest integer. In the vector of \<open>generatePersonalityVector\<close>, which has
  five entries, the openness score is the minimum of twelve times the number of interests
  and 100, and each of the other four scores is one of 60, 70, 75, 85, 88 and 90; so every
  score of it, and its match score, lies between 0 and 100.
\<close>

theorem personality_scores_bounded:
  "(vector \<noteq> [] \<longrightarrow>
      (\<exists>s. calculateMatchScore vector = Some s
         \<and> s = round ((of_int (\<Sum>v\<leftarrow>vector. score v) :: rat) / of_nat (length vector))
         \<and> \<bar>of_int s - (of_int (\<Sum>v\<leftarrow>vector. score v) :: rat) / of_nat (length vector)\<bar> \<le> 1 / 2))
   \<and> length (generatePersonalityVector interests values style emotion) = 5
   \<and> score (generatePersonalityVector interests values style emotion ! 0)
        = min (12 * int (length interests)) 100
   \<and> (\<forall>i \<in> {1, 2, 3, 4}.
         score (generatePersonalityVector interests values style emotion ! i) \<in> {60, 70, 75, 85, 88, 90})
   \<and> (\<forall>e \<in> set (generatePersonalityVector interests values style emotion).
         0 \<le> score e \<and> score e \<le> 100)
   \<and> (\<exists>s. calculateMatchScore (generatePersonalityVector interests values style emotion) = Some s
         \<and> s = round ((of_int (\<Sum>v\<leftarrow>generatePersonalityVector interests values style emotion. score v) :: rat) / 5)
         \<and> 0 \<le> s \<and> s \<le> 100)"
proof -
  let ?g = "generatePersonalityVector interests values style emotion"
  have c1: "vector \<noteq> [] \<longrightarrow>
      (\<exists>s. calculateMatchScore vector = Some s
         \<and> s = round ((of_int (\<Sum>v\<leftarrow>vector. score v) :: rat) / of_nat (length vector))
         \<and> \<bar>of_int s - (of_int (\<Sum>v\<leftarrow>vector. score v) :: rat) / of_nat (length vector)\<bar> \<le> 1 / 2)"
    using calculateMatchScore_mean [of vector] of_int_round_abs_le by blast
  have c2: "length ?g = 5" by (simp add: generatePersonalityVector_def)
  have c3: "score (?g ! 0) = min (12 * int (length interests)) 100"
    by (simp add: generatePersonalityVector_def mult.commute)
  have c4: "\<forall>i \<in> {1, 2, 3, 4}. score (?g ! i) \<in> {60, 70, 75, 85, 88, 90}"
    by (simp add: generatePersonalityVector_def)
  have c5: "\<forall>e \<in> set ?g. 0 \<le> score e \<and> score e \<le> 100"
    by (simp add: generatePersonalityVector_def)
  have ne: "?g \<noteq> []" using c2 by auto
  have "55 \<le> round ((of_int (\<Sum>v\<leftarrow>?g. score v) :: rat) / 5)
      \<and> round ((of_int (\<Sum>v\<leftarrow>?g. score v) :: rat) / 5) \<le> 87"
    using generated_total [of interests "values" style emotion] by (intro round_fifth_bounds) auto
  then have c6: "\<exists>s. calculateMatchScore ?g = Some s
         \<and> s = round ((of_int (\<Sum>v\<leftarrow>?g. score v) :: rat) / 5) \<and> 0 \<le> s \<and> s \<le> 100"
    using calculateMatchScore_mean [OF ne] c2 by simp
  show ?thesis using c1 c2 c3 c4 c5 c6 by (intro conjI)
qed

text \<open>Two interests, the value U+6210 U+957F, the interactive style and the optimistic
  tendency: the scores are 24, 85, 88, 90 and 70, their mean is 71.4.\<close>

theorem personality_scores_bounded_witness:
  "calculateMatchScore (generatePersonalityVector [ascii ''a'', ascii ''b''] [[0x6210, 0x957F]]
       [0x4E92, 0x52A8, 0x578B] [0x4E50, 0x89C2, 0x79EF, 0x6781]) = Some 71
   \<and> score (generatePersonalityVector [ascii ''a'', ascii ''b''] [[0x6210, 0x957F]]
       [0x4E92, 0x52A8, 0x578B] [0x4E50, 0x89C2, 0x79EF, 0x6781] ! 0) = 24"
proof -
  let ?g = "generatePersonalityVector [ascii ''a'', ascii ''b''] [[0x6210, 0x957F]]
       [0x4E92, 0x52A8, 0x578B] [0x4E50, 0x89C2, 0x79EF, 0x6781]"
  note T = personality_scores_bounded [of ?g "[ascii ''a'', ascii ''b'']" "[[0x6210, 0x957F]]"
      "[0x4E92, 0x52A8, 0x578B]" "[0x4E50, 0x89C2, 0x79EF, 0x6781]"]
  have ne: "?g \<noteq> []" by (simp add: generatePersonalityVector_def)
  have total: "(\<Sum>v\<leftarrow>?g. score v) = 357" by (simp add: generatePersonalityVector_def)
  have len: "length ?g = 5" by (simp add: generatePersonalityVector_def)
  have "\<lfloor>(357 :: rat) / 5 + 1 / 2\<rfloor> = 71" by (rule floor_unique) simp_all
  then have r: "round ((357 :: rat) / 5) = 71" by (simp only: round_def)
  from T [THEN conjunct1, rule_format, OF ne]
  have a: "calculateMatchScore ?g = Some 71" unfolding total len using r by auto
  from T [THEN conjunct2, THEN conjunct2, THEN conjunct1]
  have b: "score (?g ! 0) = 24" by simp
  show ?thesis using a b by (intro conjI)
qed

section \<open>Interests and values from keywords\<close>

lemma set_set_add: "set (set_add s x) = insert x (set s)"
  by (auto simp: set_add_def)

lemma distinct_set_add: "distinct s \<Longrightarrow> distinct (set_add s x)"
  by (simp add: set_add_def)

lemma foldl_set_add:
  "set (foldl set_add acc xs) = set acc \<union> set xs
   \<and> (distinct acc \<longrightarrow> distinct (foldl set_add acc xs))"
  by (induction xs arbitrary: acc) (auto simp: set_set_add distinct_set_add)

lemma new_Set_props: "set (new_Set xs) = set xs \<and> distinct (new_Set xs)"
  using foldl_set_add [of "[]" xs] by (simp add: new_Set_def)

lemma scan_dict:
  "set (foldl (\<lambda>acc (c, keywords). if list_ex (\<lambda>kw. js_includes content kw) keywords
                                  then set_add acc c else acc) acc dict)
     = set acc \<union> {c. \<exists>keywords. (c, keywords) \<in> set dict
                      \<and> (\<exists>kw \<in> set keywords. \<exists>pre post. content = pre @ kw @ post)}
   \<and> (distinct acc \<longrightarrow>
        distinct (foldl (\<lambda>acc (c, keywords). if list_ex (\<lambda>kw. js_includes content kw) keywords
                                  then set_add acc c else acc) acc dict))"
proof (induction dict arbitrary: acc)
  case Nil
  then show ?case by simp
next
  case (Cons e dict)
  obtain c kws where e: "e = (c, kws)" by (cases e)
  have hit: "list_ex (\<lambda>kw. js_includes content kw) kws
      \<longleftrightarrow> (\<exists>kw \<in> set kws. \<exists>pre post. content = pre @ kw @ post)"
    by (simp add: list_ex_iff js_includes_iff)
  show ?case
  proof (cases "list_ex (\<lambda>kw. js_includes content kw) kws")
    case True
    with hit have h: "\<exists>kw \<in> set kws. \<exists>pre post. content = pre @ kw @ post" by simp
    show ?thesis
      using Cons.IH [of "set_add acc c"] True h e
      by (auto simp: set_set_add distinct_set_add)
  next
    case False
    with hit have h: "\<not> (\<exists>kw \<in> set kws. \<exists>pre post. content = pre @ kw @ post)" by simp
    show ?thesis
      using Cons.IH [of acc] False h e by auto
  qed
qed

lemma scan_moments:
  "set (foldl (\<lambda>acc moment.
                 let content = toLowerCase (m_content moment) in
                 foldl (\<lambda>acc (c, keywords). if list_ex (\<lambda>kw. js_includes content kw) keywords
                                          then set_add acc c else acc) acc dict)
          acc moments)
     = set acc \<union> matched_categories dict toLowerCase moments
   \<and> (distinct acc \<longrightarrow>
        distinct (foldl (\<lambda>acc moment.
                 let content = toLowerCase (m_content moment) in
                 foldl (\<lambda>acc (c, keywords). if list_ex (\<lambda>kw. js_includes content kw) keywords
                                          then set_add acc c else acc) acc dict)
          acc moments))"
proof (induction moments arbitrary: acc)
  case Nil
  then show ?case by (simp add: matched_categories_def keyword_hit_def)
next
  case (Cons m moments)
  let ?step = "foldl (\<lambda>acc (c, keywords). if list_ex (\<lambda>kw. js_includes (toLowerCase (m_content m)) kw) keywords
                                          then set_add acc c else acc) acc dict"
  note s = scan_dict [of "toLowerCase (m_content m)" acc dict]
  have split: "matched_categories dict toLowerCase (m # moments)
      = {c. \<exists>keywords. (c, keywords) \<in> set dict
              \<and> (\<exists>kw \<in> set keywords. \<exists>pre post. toLowerCase (m_content m) = pre @ kw @ post)}
        \<union> matched_categories dict toLowerCase moments"
    by (auto simp: matched_categories_def keyword_hit_def)
  show ?case
    using Cons.IH [of ?step] s unfolding split by (auto simp: Let_def)
qed

lemma extractInterests_set:
  "\<exists>full. distinct full
     \<and> set full = set additionalInterests \<union> matched_categories interestKeywords toLowerCase moments
     \<and> extractInterests toLowerCase moments additionalInterests = take 8 full"
proof -
  let ?full = "foldl (\<lambda>interests moment.
                     let content = toLowerCase (m_content moment) in
                     foldl (\<lambda>interests (interest, keywords).
                              if list_ex (\<lambda>kw. js_includes content kw) keywords
                              then set_add interests interest else interests)
                       interests interestKeywords)
              (new_Set additionalInterests) moments"
  have "distinct ?full \<and> set ?full = set additionalInterests \<union> matched_categories interestKeywords toLowerCase moments"
    using scan_moments [of toLowerCase interestKeywords "new_Set additionalInterests" moments]
      new_Set_props [of additionalInterests] by simp
  moreover have "extractInterests toLowerCase moments additionalInterests = take 8 ?full"
    by (simp add: extractInterests_def Let_def)
  ultimately show ?thesis by blast
qed

lemma analyzeValues_set:
  "\<exists>full. distinct full
     \<and> set full = set additionalValues \<union> matched_categories valueKeywords toLowerCase moments
     \<and> analyzeValues toLowerCase moments additionalValues = take 6 full"
proof -
  let ?full = "foldl (\<lambda>vs moment.
                     let content = toLowerCase (m_content moment) in
                     foldl (\<lambda>vs (v, keywords).
                              if list_ex (\<lambda>kw. js_includes content kw) keywords
                              then set_add vs v else vs)
                       vs valueKeywords)
              (new_Set additionalValues) moments"
  have "distinct ?full \<and> set ?full = set additionalValues \<union> matched_categories valueKeywords toLowerCase moments"
    using scan_moments [of toLowerCase valueKeywords "new_Set additionalValues" moments]
      new_Set_props [of additionalValues] by simp
  moreover have "analyzeValues toLowerCase moments additionalValues = take 6 ?full"
    by (simp add: analyzeValues_def Let_def)
  ultimately show ?thesis by blast
qed

section \<open>The analysis handler\<close>

lemma complete_profile_fields:
  "pd_interests (fst (complete_profile toLowerCase ms userData a)) =
     (if an_interests a = [] then extractInterests toLowerCase ms (additional userData ud_interests)
      else an_interests a)"
  "pd_values (fst (complete_profile toLowerCase ms userData a)) =
     (if an_values a = [] then analyzeValues toLowerCase ms (additional userData ud_values)
      else an_values a)"
  "pd_personality_vector (fst (complete_profile toLowerCase ms userData a)) =
     (if an_personalityVector a = []
      then generatePersonalityVector (pd_interests (fst (complete_profile toLowerCase ms userData a)))
             (pd_values (fst (complete_profile toLowerCase ms userData a)))
             (an_communicationStyle a) (an_emotionTendency a)
      else an_personalityVector a)"
  "pd_match_score (fst (complete_profile toLowerCase ms userData a)) =
     calculateMatchScore (pd_personality_vector (fst (complete_profile toLowerCase ms userData a)))"
  by (simp_all add: complete_profile_def Let_def split: prod.splits)

lemma complete_profile_ran:
  "snd (complete_profile toLowerCase ms userData a) =
     (if an_interests a = [] then [ExtractInterests] else [])
     @ (if an_values a = [] then [AnalyzeValues] else [])
     @ (if an_personalityVector a = [] then [GeneratePersonalityVector] else [])"
  by (simp add: complete_profile_def Let_def split: prod.splits)

lemma complete_profile_vector_nonempty:
  "pd_personality_vector (fst (complete_profile toLowerCase ms userData a)) \<noteq> []"
  unfolding complete_profile_fields(3) by (simp add: generatePersonalityVector_def)

lemma complete_profile_score:
  "\<exists>s. pd_match_score (fst (complete_profile toLowerCase ms userData a)) = Some s"
  unfolding complete_profile_fields(4)
  using complete_profile_vector_nonempty [of toLowerCase ms userData a]
  by (simp add: calculateMatchScore_def Let_def)

lemma find_Some_set: "find P xs = Some x \<Longrightarrow> x \<in> set xs \<and> P x"
  by (induction xs) (auto split: if_splits)

lemma reaches_analysis_reads:
  assumes "reaches_analysis req db"
  shows "pg_text (the (an_userId req))"
    and "momentOperations_findByUserId_limit db (the (an_userId req)) 20
           = Inr (momentOperations_findByUserId db (the (an_userId req)))"
    and "interactionOperations_findByUserId db (the (an_userId req))
           = Inr (rows (interactionOperations_findByUserId db (the (an_userId req))))"
    and "soulProfileOperations_findByUserId db (the (an_userId req))
           = Inr (find (\<lambda>p. sp_user_id p = the (an_userId req)) (db_soul_profiles db))"
    and "the (an_userId req) \<in> set (map u_id (db_users db))"
proof -
  from assms obtain user where
    u: "userOperations_findById db (the (an_userId req)) = Inr (Some user)"
    by (auto simp: reaches_analysis_def)
  then show t: "pg_text (the (an_userId req))"
    by (auto simp: userOperations_findById_def split: if_splits)
  from t show "momentOperations_findByUserId_limit db (the (an_userId req)) 20
           = Inr (momentOperations_findByUserId db (the (an_userId req)))"
    by (simp add: momentOperations_findByUserId_def momentOperations_findByUserId_limit_def
        rows_def)
  from t show "interactionOperations_findByUserId db (the (an_userId req))
           = Inr (rows (interactionOperations_findByUserId db (the (an_userId req))))"
    by (simp add: interactionOperations_findByUserId_def rows_def)
  from t show "soulProfileOperations_findByUserId db (the (an_userId req))
           = Inr (find (\<lambda>p. sp_user_id p = the (an_userId req)) (db_soul_profiles db))"
    by (simp add: soulProfileOperations_findByUserId_def)
  from u have "user \<in> set (db_users db) \<and> u_id user = the (an_userId req)"
    by (auto simp: userOperations_findById_def split: if_splits dest!: find_Some_set)
  then show "the (an_userId req) \<in> set (map u_id (db_users db))" by force
qed

lemma analyze_route_early:
  "\<not> reaches_analysis req db \<Longrightarrow>
     an_db (analyze_route ai JSON_parse toLowerCase uuidv4 now req db) = db
     \<and> an_ran (analyze_route ai JSON_parse toLowerCase uuidv4 now req db) = []
     \<and> status (an_response (analyze_route ai JSON_parse toLowerCase uuidv4 now req db))
         \<in> {400, 404, 500}"
  by (auto simp: reaches_analysis_def analyze_route_def fail_def Let_def
      split: option.splits sum.splits)

lemma analyze_route_unfold:
  assumes "reaches_analysis req db"
  shows "analyze_route ai JSON_parse toLowerCase uuidv4 now req db =
     (let userId = the (an_userId req);
          ms = momentOperations_findByUserId db userId;
          cp = complete_profile toLowerCase ms (an_userData req) (analysis_of ai JSON_parse req db)
      in case (case soulProfileOperations_findByUserId db userId of
                 Inl e \<Rightarrow> Inl e
               | Inr (Some p) \<Rightarrow> soulProfileOperations_update now userId (fst cp) db
               | Inr None \<Rightarrow> soulProfileOperations_create now (uuidv4 0) userId (fst cp) db) of
           Inl e \<Rightarrow> \<lparr>an_response = fail 500, an_db = db, an_ran = snd cp\<rparr>
         | Inr db' \<Rightarrow>
             \<lparr>an_response = ok \<lparr>ad_userId = userId, ad_profile = fst cp,
                                  ad_momentCount = length ms,
                                  ad_interactionCount =
                                    length (rows (interactionOperations_findByUserId db userId)),
                                  ad_aiEnhanced = (ai_reply ai req db \<noteq> None)\<rparr>,
              an_db = db', an_ran = snd cp\<rparr>)"
proof -
  from assms obtain user where
    u: "\<not> falsy (an_userId req)"
       "userOperations_findById db (the (an_userId req)) = Inr (Some user)"
    by (auto simp: reaches_analysis_def)
  from reaches_analysis_reads(3) [OF assms] obtain interactions where
    i: "interactionOperations_findByUserId db (the (an_userId req)) = Inr interactions"
    by blast
  show ?thesis
    unfolding analyze_route_def analysis_of_def ai_reply_def
    by (auto simp: u i rows_def reaches_analysis_reads(2) [OF assms] Let_def
        split: prod.splits sum.splits option.splits)
qed

lemma analyze_route_ran:
  "an_ran (analyze_route ai JSON_parse toLowerCase uuidv4 now req db) =
     (if reaches_analysis req db
      then snd (complete_profile toLowerCase (momentOperations_findByUserId db (the (an_userId req)))
                  (an_userData req) (analysis_of ai JSON_parse req db))
      else [])"
proof (cases "reaches_analysis req db")
  case True
  show ?thesis unfolding analyze_route_unfold [OF True] using True
    by (simp add: Let_def split: sum.splits option.splits)
next
  case False
  then show ?thesis using analyze_route_early [OF False] by simp
qed

lemma update_rows:
  assumes "soulProfileOperations_update now userId pd db = Inr db'"
  shows "db' = db\<lparr>db_soul_profiles :=
           map (\<lambda>p. if sp_user_id p = userId
                     then p\<lparr>sp_interests := pd_interests pd, sp_values := pd_values pd,
                            sp_communication_style := pd_communication_style pd,
                            sp_emotion_tendency := pd_emotion_tendency pd,
                            sp_personality_vector := pd_personality_vector pd,
                            sp_match_score := the (pd_match_score pd),
                            sp_ai_summary := pd_ai_summary pd, sp_updated_at := now\<rparr>
                     else p) (db_soul_profiles db)\<rparr>"
    and "pg_profile pd (pd_match_score pd)"
  using assms by (auto simp: soulProfileOperations_update_def split: if_splits)

lemma update_keeps_keys:
  assumes "soulProfileOperations_update now userId pd db = Inr db'"
  shows "map sp_user_id (db_soul_profiles db') = map sp_user_id (db_soul_profiles db)"
    and "map sp_id (db_soul_profiles db') = map sp_id (db_soul_profiles db)"
  unfolding update_rows(1) [OF assms] by (simp_all add: comp_def cong: map_cong)

lemma create_rows:
  assumes "soulProfileOperations_create now ident userId pd db = Inr db'"
  shows "db' = db\<lparr>db_soul_profiles := db_soul_profiles db @
           [\<lparr>sp_id = ident, sp_user_id = userId,
             sp_interests = pd_interests pd, sp_values = pd_values pd,
             sp_communication_style = pd_communication_style pd,
             sp_emotion_tendency = pd_emotion_tendency pd,
             sp_personality_vector = pd_personality_vector pd,
             sp_match_score = (case pd_match_score pd of None \<Rightarrow> 0 | Some s \<Rightarrow> s),
             sp_ai_summary = pd_ai_summary pd,
             sp_created_at = now, sp_updated_at = now\<rparr>]\<rparr>"
    and "userId \<notin> set (map sp_user_id (db_soul_profiles db))"
    and "ident \<notin> set (map sp_id (db_soul_profiles db))"
  using assms by (auto simp: soulProfileOperations_create_def Let_def split: if_splits)

lemma findByUserId_profile_None:
  "soulProfileOperations_findByUserId db userId = Inr None
     \<longleftrightarrow> pg_text userId \<and> userId \<notin> set (map sp_user_id (db_soul_profiles db))"
  by (auto simp: soulProfileOperations_findByUserId_def find_None_iff)

lemma findByUserId_profile_Some:
  "soulProfileOperations_findByUserId db userId = Inr (Some p)
     \<Longrightarrow> p \<in> set (db_soul_profiles db) \<and> sp_user_id p = userId"
  by (auto simp: soulProfileOperations_findByUserId_def find_Some_iff split: if_splits)

lemma analyze_route_ok:
  assumes "status (an_response (analyze_route ai JSON_parse toLowerCase uuidv4 now req db)) = 200"
  shows "reaches_analysis req db"
    and "an_response (analyze_route ai JSON_parse toLowerCase uuidv4 now req db) =
           ok \<lparr>ad_userId = the (an_userId req),
               ad_profile = fst (complete_profile toLowerCase
                   (momentOperations_findByUserId db (the (an_userId req)))
                   (an_userData req) (analysis_of ai JSON_parse req db)),
               ad_momentCount = length (momentOperations_findByUserId db (the (an_userId req))),
               ad_interactionCount =
                 length (rows (interactionOperations_findByUserId db (the (an_userId req)))),
               ad_aiEnhanced = (ai_reply ai req db \<noteq> None)\<rparr>"
    and "(case soulProfileOperations_findByUserId db (the (an_userId req)) of
            Inl e \<Rightarrow> Inl e
          | Inr (Some p) \<Rightarrow> soulProfileOperations_update now (the (an_userId req))
                        (fst (complete_profile toLowerCase
                           (momentOperations_findByUserId db (the (an_userId req)))
                           (an_userData req) (analysis_of ai JSON_parse req db))) db
          | Inr None \<Rightarrow> soulProfileOperations_create now (uuidv4 0) (the (an_userId req))
                        (fst (complete_profile toLowerCase
                           (momentOperations_findByUserId db (the (an_userId req)))
                           (an_userData req) (analysis_of ai JSON_parse req db))) db)
         = Inr (an_db (analyze_route ai JSON_parse toLowerCase uuidv4 now req db))"
proof -
  show r: "reaches_analysis req db"
  proof (rule ccontr)
    assume "\<not> reaches_analysis req db"
    from analyze_route_early [OF this, of ai JSON_parse toLowerCase uuidv4 now] assms
    show False by auto
  qed
  show "an_response (analyze_route ai JSON_parse toLowerCase uuidv4 now req db) =
           ok \<lparr>ad_userId = the (an_userId req),
               ad_profile = fst (complete_profile toLowerCase
                   (momentOperations_findByUserId db (the (an_userId req)))
                   (an_userData req) (analysis_of ai JSON_parse req db)),
               ad_momentCount = length (momentOperations_findByUserId db (the (an_userId req))),
               ad_interactionCount =
                 length (rows (interactionOperations_findByUserId db (the (an_userId req)))),
               ad_aiEnhanced = (ai_reply ai req db \<noteq> None)\<rparr>"
    using assms unfolding analyze_route_unfold [OF r]
    by (simp add: Let_def fail_def split: sum.splits)
  show "(case soulProfileOperations_findByUserId db (the (an_userId req)) of
            Inl e \<Rightarrow> Inl e
          | Inr (Some p) \<Rightarrow> soulProfileOperations_update now (the (an_userId req))
                        (fst (complete_profile toLowerCase
                           (momentOperations_findByUserId db (the (an_userId req)))
                           (an_userData req) (analysis_of ai JSON_parse req db))) db
          | Inr None \<Rightarrow> soulProfileOperations_create now (uuidv4 0) (the (an_userId req))
                        (fst (complete_profile toLowerCase
                           (momentOperations_findByUserId db (the (an_userId req)))
                           (an_userData req) (analysis_of ai JSON_parse req db))) db)
         = Inr (an_db (analyze_route ai JSON_parse toLowerCase uuidv4 now req db))"
    using assms unfolding analyze_route_unfold [OF r]
    by (simp add: Let_def fail_def reaches_analysis_reads(4) [OF r] split: sum.splits)
qed

lemma analyze_route_failure:
  "status (an_response (analyze_route ai JSON_parse toLowerCase uuidv4 now req db)) \<noteq> 200
     \<Longrightarrow> an_db (analyze_route ai JSON_parse toLowerCase uuidv4 now req db) = db"
proof (cases "reaches_analysis req db")
  case True
  assume "status (an_response (analyze_route ai JSON_parse toLowerCase uuidv4 now req db)) \<noteq> 200"
  then show ?thesis unfolding analyze_route_unfold [OF True]
    by (simp add: Let_def ok_def split: sum.splits)
next
  case False
  then show ?thesis using analyze_route_early [OF False] by simp
qed

lemma analyze_route_stored:
  assumes "status (an_response (analyze_route ai JSON_parse toLowerCase uuidv4 now req db)) = 200"
  shows "\<exists>row. row \<in> set (db_soul_profiles (an_db (analyze_route ai JSON_parse toLowerCase uuidv4 now req db)))
     \<and> sp_user_id row = the (an_userId req)
     \<and> sp_interests row = pd_interests (fst (complete_profile toLowerCase
                   (momentOperations_findByUserId db (the (an_userId req)))
                   (an_userData req) (analysis_of ai JSON_parse req db)))
     \<and> sp_values row = pd_values (fst (complete_profile toLowerCase
                   (momentOperations_findByUserId db (the (an_userId req)))
                   (an_userData req) (analysis_of ai JSON_parse req db)))"
proof -
  let ?uid = "the (an_userId req)"
  let ?pd = "fst (complete_profile toLowerCase
                   (momentOperations_findByUserId db ?uid)
                   (an_userData req) (analysis_of ai JSON_parse req db))"
  let ?db' = "an_db (analyze_route ai JSON_parse toLowerCase uuidv4 now req db)"
  note found = reaches_analysis_reads(4) [OF analyze_route_ok(1) [OF assms]]
  show ?thesis
  proof (cases "find (\<lambda>p. sp_user_id p = ?uid) (db_soul_profiles db)")
    case None
    with found analyze_route_ok(3) [OF assms]
    have "soulProfileOperations_create now (uuidv4 0) ?uid ?pd db = Inr ?db'" by simp
    from create_rows(1) [OF this] show ?thesis
      by (intro exI [of _ "last (db_soul_profiles ?db')"]) simp
  next
    case (Some p)
    with found analyze_route_ok(3) [OF assms]
    have u: "soulProfileOperations_update now ?uid ?pd db = Inr ?db'" by simp
    from find_Some_set [OF Some] have p: "p \<in> set (db_soul_profiles db)" "sp_user_id p = ?uid"
      by simp_all
    let ?row = "p\<lparr>sp_interests := pd_interests ?pd, sp_values := pd_values ?pd,
                  sp_communication_style := pd_communication_style ?pd,
                  sp_emotion_tendency := pd_emotion_tendency ?pd,
                  sp_personality_vector := pd_personality_vector ?pd,
                  sp_match_score := the (pd_match_score ?pd),
                  sp_ai_summary := pd_ai_summary ?pd, sp_updated_at := now\<rparr>"
    have "?row \<in> set (db_soul_profiles ?db')"
      using arg_cong [OF update_rows(1) [OF u], of db_soul_profiles] p
      by (auto simp: image_iff intro!: bexI [of _ p])
    moreover have "sp_user_id ?row = ?uid" using p by simp
    ultimately show ?thesis by (intro exI [of _ ?row]) simp
  qed
qed

text \<open>The values that the keyword fallback binds are accepted by the database whenever the
  additional interests and values of the request are.\<close>

lemma matched_categories_subset: "matched_categories dict toLowerCase ms \<subseteq> fst ` set dict"
  by (force simp: matched_categories_def)

lemma dictionary_categories_pg_text:
  "\<forall>c \<in> fst ` set interestKeywords. pg_text c"
  "\<forall>c \<in> fst ` set valueKeywords. pg_text c"
  by (simp_all add: interestKeywords_def valueKeywords_def pg_text_def)

lemma extractInterests_pg_jsonb:
  assumes "pg_jsonb additionalInterests"
  shows "pg_jsonb (extractInterests toLowerCase ms additionalInterests)"
proof -
  from extractInterests_set [of additionalInterests toLowerCase ms] obtain full where
    f: "set full = set additionalInterests \<union> matched_categories interestKeywords toLowerCase ms"
       "extractInterests toLowerCase ms additionalInterests = take 8 full"
    by blast
  have "\<forall>s \<in> set full. pg_text s"
    using assms matched_categories_subset [of interestKeywords toLowerCase ms]
      dictionary_categories_pg_text(1)
    unfolding f(1) by (auto simp: pg_jsonb_def list_all_iff)
  then show ?thesis
    unfolding f(2) using set_take_subset [of 8 full] by (auto simp: pg_jsonb_def list_all_iff)
qed

lemma analyzeValues_pg_jsonb:
  assumes "pg_jsonb additionalValues"
  shows "pg_jsonb (analyzeValues toLowerCase ms additionalValues)"
proof -
  from analyzeValues_set [of additionalValues toLowerCase ms] obtain full where
    f: "set full = set additionalValues \<union> matched_categories valueKeywords toLowerCase ms"
       "analyzeValues toLowerCase ms additionalValues = take 6 full"
    by blast
  have "\<forall>s \<in> set full. pg_text s"
    using assms matched_categories_subset [of valueKeywords toLowerCase ms]
      dictionary_categories_pg_text(2)
    unfolding f(1) by (auto simp: pg_jsonb_def list_all_iff)
  then show ?thesis
    unfolding f(2) using set_take_subset [of 6 full] by (auto simp: pg_jsonb_def list_all_iff)
qed

lemma generated_vector_accepted:
  "pg_jsonb (map dimension (generatePersonalityVector interests values style emotion))"
  "\<exists>m. calculateMatchScore (generatePersonalityVector interests values style emotion) = Some m
       \<and> pg_integer m"
proof -
  show "pg_jsonb (map dimension (generatePersonalityVector interests values style emotion))"
    by (simp add: generatePersonalityVector_def pg_jsonb_def pg_text_def)
  let ?v = "generatePersonalityVector interests values style emotion"
  have n: "?v \<noteq> []" and l: "length ?v = 5" by (simp_all add: generatePersonalityVector_def)
  from round_fifth_bounds [OF generated_total [of interests "values" style emotion, THEN conjunct1]
      generated_total [of interests "values" style emotion, THEN conjunct2]]
  have "pg_integer (round ((of_int (\<Sum>v\<leftarrow>?v. score v) :: rat) / 5))"
    by (simp add: pg_integer_def)
  then show "\<exists>m. calculateMatchScore ?v = Some m \<and> pg_integer m"
    unfolding calculateMatchScore_mean [OF n] l by simp
qed

lemma keyword_profile_accepted:
  assumes "pg_jsonb (additional userData ud_interests)"
    and "pg_jsonb (additional userData ud_values)"
  shows "pg_profile (fst (complete_profile toLowerCase ms userData initial_analysis))
           (pd_match_score (fst (complete_profile toLowerCase ms userData initial_analysis)))"
proof -
  let ?pd = "fst (complete_profile toLowerCase ms userData initial_analysis)"
  have i: "pd_interests ?pd = extractInterests toLowerCase ms (additional userData ud_interests)"
    and v: "pd_values ?pd = analyzeValues toLowerCase ms (additional userData ud_values)"
    and p: "pd_personality_vector ?pd
              = generatePersonalityVector (pd_interests ?pd) (pd_values ?pd)
                  (an_communicationStyle initial_analysis) (an_emotionTendency initial_analysis)"
    and m: "pd_match_score ?pd = calculateMatchScore (pd_personality_vector ?pd)"
    by (simp_all add: complete_profile_fields initial_analysis_def)
  have t: "pd_communication_style ?pd = an_communicationStyle initial_analysis"
    "pd_emotion_tendency ?pd = an_emotionTendency initial_analysis"
    "pd_ai_summary ?pd = an_aiSummary initial_analysis"
    by (simp_all add: complete_profile_def Let_def split: prod.splits)
  from generated_vector_accepted(2) [of "pd_interests ?pd" "pd_values ?pd"
      "an_communicationStyle initial_analysis" "an_emotionTendency initial_analysis"]
  obtain s where s: "pd_match_score ?pd = Some s" "pg_integer s" unfolding m p by blast
  have ti: "pg_text (an_communicationStyle initial_analysis)"
    "pg_text (an_emotionTendency initial_analysis)" "pg_text (an_aiSummary initial_analysis)"
    by (simp_all add: initial_analysis_def pg_text_def)
  show ?thesis
    unfolding pg_profile_def s(1)
    using s(2) extractInterests_pg_jsonb [OF assms(1), of toLowerCase ms]
      analyzeValues_pg_jsonb [OF assms(2), of toLowerCase ms]
      generated_vector_accepted(1) [of "pd_interests ?pd" "pd_values ?pd"
        "an_communicationStyle initial_analysis" "an_emotionTendency initial_analysis"]
    by (simp add: i v p t ti)
qed

text \<open>So the analysis of an existing user succeeds when the AI call fails, the request
  brings no string with U+0000, and the identifier for a new profile is fresh.\<close>

lemma analyze_route_fallback_succeeds:
  assumes "reaches_analysis req db" and "ai_reply ai req db = None"
    and "pg_jsonb (additional (an_userData req) ud_interests)"
    and "pg_jsonb (additional (an_userData req) ud_values)"
    and "the (an_userId req) \<in> set (map sp_user_id (db_soul_profiles db))
         \<or> pg_text (uuidv4 0) \<and> uuidv4 0 \<notin> set (map sp_id (db_soul_profiles db))"
  shows "status (an_response (analyze_route ai JSON_parse toLowerCase uuidv4 now req db)) = 200"
proof -
  let ?uid = "the (an_userId req)"
  let ?ms = "momentOperations_findByUserId db ?uid"
  have a: "analysis_of ai JSON_parse req db = initial_analysis"
    by (simp add: analysis_of_def assms(2) read_ai_reply_def)
  let ?pd = "fst (complete_profile toLowerCase ?ms (an_userData req) initial_analysis)"
  note acc = keyword_profile_accepted [OF assms(3,4), of toLowerCase ?ms]
  note reads = reaches_analysis_reads [OF assms(1)]
  show ?thesis
  proof (cases "find (\<lambda>p. sp_user_id p = ?uid) (db_soul_profiles db)")
    case None
    then have new: "?uid \<notin> set (map sp_user_id (db_soul_profiles db))"
      by (auto simp: find_None_iff)
    with assms(5) have fresh: "pg_text (uuidv4 0)"
      "uuidv4 0 \<notin> set (map sp_id (db_soul_profiles db))" by simp_all
    from acc obtain s where s: "pd_match_score ?pd = Some s"
      by (cases "pd_match_score ?pd") (simp_all add: pg_profile_def)
    have "\<exists>db'. soulProfileOperations_create now (uuidv4 0) ?uid ?pd db = Inr db'"
      using acc new fresh reads(1,5) s
      by (simp add: soulProfileOperations_create_def Let_def)
    then show ?thesis
      by (auto simp: analyze_route_unfold [OF assms(1)] a reads(4) None Let_def ok_def)
  next
    case (Some p)
    have "\<exists>db'. soulProfileOperations_update now ?uid ?pd db = Inr db'"
      using acc reads(1) by (simp add: soulProfileOperations_update_def)
    then show ?thesis
      by (auto simp: analyze_route_unfold [OF assms(1)] a reads(4) Some Let_def ok_def)
  qed
qed

lemma complete_profile_texts:
  "pd_communication_style (fst (complete_profile toLowerCase ms userData a)) = an_communicationStyle a"
  "pd_emotion_tendency (fst (complete_profile toLowerCase ms userData a)) = an_emotionTendency a"
  "pd_ai_summary (fst (complete_profile toLowerCase ms userData a)) = an_aiSummary a"
  by (simp_all add: complete_profile_def Let_def split: prod.splits)

section \<open>The keyword fallback of the profile\<close>

text \<open>
  Claim C4. \<open>extractInterests\<close> returns the first eight elements of a duplicate-free list
  whose elements are the additional interests of the caller together with every category
  of the interest dictionary one of whose keywords occurs as a substring of the lower-cased
  content of some moment; the dictionary has the eight categories named in the claim.
  \<open>analyzeValues\<close> does the same with the six categories of the value dictionary and
  returns the first six elements. When POST /api/profile/analyze succeeds and the AI
  analysis has left the interests, respectively the values, empty, the profile it returns
  and stores has the interests, respectively the values, that these functions compute from
  the moments read and from \<open>userData\<close>.
\<close>

theorem profile_fallback_interests_values:
  "(\<exists>full. distinct full
       \<and> set full = set additionalInterests \<union> matched_categories interestKeywords toLowerCase ms
       \<and> extractInterests toLowerCase ms additionalInterests = take 8 full)
   \<and> map fst interestKeywords =
        [[0x54F2, 0x5B66], [0x79D1, 0x6280], [0x827A, 0x672F], [0x65C5, 0x884C],
         [0x9605, 0x8BFB], [0x8FD0, 0x52A8], [0x7F8E, 0x98DF], [0x6444, 0x5F71]]
   \<and> (\<exists>full. distinct full
       \<and> set full = set additionalValues \<union> matched_categories valueKeywords toLowerCase ms
       \<and> analyzeValues toLowerCase ms additionalValues = take 6 full)
   \<and> length valueKeywords = 6
   \<and> (status (an_response (analyze_route ai JSON_parse toLowerCase uuidv4 now req db)) = 200 \<longrightarrow>
        (\<exists>d row. data (an_response (analyze_route ai JSON_parse toLowerCase uuidv4 now req db)) = Some d
           \<and> row \<in> set (db_soul_profiles (an_db (analyze_route ai JSON_parse toLowerCase uuidv4 now req db)))
           \<and> sp_user_id row = the (an_userId req)
           \<and> sp_interests row = pd_interests (ad_profile d)
           \<and> sp_values row = pd_values (ad_profile d)
           \<and> (an_interests (analysis_of ai JSON_parse req db) = [] \<longrightarrow>
                pd_interests (ad_profile d)
                  = extractInterests toLowerCase (momentOperations_findByUserId db (the (an_userId req)))
                      (additional (an_userData req) ud_interests))
           \<and> (an_values (analysis_of ai JSON_parse req db) = [] \<longrightarrow>
                pd_values (ad_profile d)
                  = analyzeValues toLowerCase (momentOperations_findByUserId db (the (an_userId req)))
                      (additional (an_userData req) ud_values))))"
proof -
  have c2: "map fst interestKeywords =
        [[0x54F2, 0x5B66], [0x79D1, 0x6280], [0x827A, 0x672F], [0x65C5, 0x884C],
         [0x9605, 0x8BFB], [0x8FD0, 0x52A8], [0x7F8E, 0x98DF], [0x6444, 0x5F71]]"
    by (simp add: interestKeywords_def)
  have c4: "length valueKeywords = 6" by (simp add: valueKeywords_def)
  have c5: "\<exists>d row. data (an_response (analyze_route ai JSON_parse toLowerCase uuidv4 now req db)) = Some d
           \<and> row \<in> set (db_soul_profiles (an_db (analyze_route ai JSON_parse toLowerCase uuidv4 now req db)))
           \<and> sp_user_id row = the (an_userId req)
           \<and> sp_interests row = pd_interests (ad_profile d)
           \<and> sp_values row = pd_values (ad_profile d)
           \<and> (an_interests (analysis_of ai JSON_parse req db) = [] \<longrightarrow>
                pd_interests (ad_profile d)
                  = extractInterests toLowerCase (momentOperations_findByUserId db (the (an_userId req)))
                      (additional (an_userData req) ud_interests))
           \<and> (an_values (analysis_of ai JSON_parse req db) = [] \<longrightarrow>
                pd_values (ad_profile d)
                  = analyzeValues toLowerCase (momentOperations_findByUserId db (the (an_userId req)))
                      (additional (an_userData req) ud_values))"
    if ok: "status (an_response (analyze_route ai JSON_parse toLowerCase uuidv4 now req db)) = 200"
  proof -
    from analyze_route_stored [OF ok] obtain row where
      row: "row \<in> set (db_soul_profiles (an_db (analyze_route ai JSON_parse toLowerCase uuidv4 now req db)))"
        "sp_user_id row = the (an_userId req)"
        "sp_interests row = pd_interests (fst (complete_profile toLowerCase
                   (momentOperations_findByUserId db (the (an_userId req)))
                   (an_userData req) (analysis_of ai JSON_parse req db)))"
        "sp_values row = pd_values (fst (complete_profile toLowerCase
                   (momentOperations_findByUserId db (the (an_userId req)))
                   (an_userData req) (analysis_of ai JSON_parse req db)))"
      by blast
    let ?pd = "fst (complete_profile toLowerCase
                   (momentOperations_findByUserId db (the (an_userId req)))
                   (an_userData req) (analysis_of ai JSON_parse req db))"
    let ?d = "\<lparr>ad_userId = the (an_userId req), ad_profile = ?pd,
               ad_momentCount = length (momentOperations_findByUserId db (the (an_userId req))),
               ad_interactionCount =
                 length (rows (interactionOperations_findByUserId db (the (an_userId req)))),
               ad_aiEnhanced = (ai_reply ai req db \<noteq> None)\<rparr>"
    have d: "data (an_response (analyze_route ai JSON_parse toLowerCase uuidv4 now req db)) = Some ?d"
      unfolding analyze_route_ok(2) [OF ok] by (simp add: ok_def)
    have i: "an_interests (analysis_of ai JSON_parse req db) = [] \<longrightarrow>
                pd_interests ?pd
                  = extractInterests toLowerCase (momentOperations_findByUserId db (the (an_userId req)))
                      (additional (an_userData req) ud_interests)"
      by (simp add: complete_profile_fields(1))
    have v: "an_values (analysis_of ai JSON_parse req db) = [] \<longrightarrow>
                pd_values ?pd
                  = analyzeValues toLowerCase (momentOperations_findByUserId db (the (an_userId req)))
                      (additional (an_userData req) ud_values)"
      by (simp add: complete_profile_fields(2))
    show ?thesis
      apply (rule exI [of _ ?d])
      apply (rule exI [of _ row])
      using d row i v by simp
  qed
  show ?thesis
    using extractInterests_set [of additionalInterests toLowerCase ms] c2
      analyzeValues_set [of additionalValues toLowerCase ms] c4 c5
    by (intro conjI impI) blast+
qed

text \<open>The user has one moment, about travel (U+65C5 U+884C), and names chess as an interest;
  the endpoint is down. \<open>toLowerCase\<close> leaves the text as it is.\<close>

theorem profile_fallback_interests_values_witness:
  "(\<exists>d. data (an_response (analyze_route (\<lambda>p. None) (\<lambda>s. None) (\<lambda>s. s) (\<lambda>k. ascii ''p1'') 9
       \<lparr>an_userId = Some (ascii ''u1''),
        an_userData = Some \<lparr>ud_interests = Some [ascii ''chess''], ud_values = None\<rparr>\<rparr>
       \<lparr>db_users = [\<lparr>u_id = ascii ''u1'', u_username = ascii ''ann'', u_password = ascii ''h'',
                    u_avatar = [], u_bio = [], u_created_at = 1, u_updated_at = 1\<rparr>],
        db_soul_profiles = [],
        db_moments = [\<lparr>m_id = ascii ''m1'', m_user_id = ascii ''u1'', m_content = [0x65C5, 0x884C],
                      m_content_type = ascii ''text'', m_sentiment = ascii ''neutral'',
                      m_keywords = [[0x65C5, 0x884C]], m_created_at = 2\<rparr>],
        db_interactions = [],
        db_moment_tie = (\<lambda>m. 0), db_interaction_tie = (\<lambda>i. 0)\<rparr>)) = Some d
      \<and> pd_interests (ad_profile d) = [ascii ''chess'', [0x65C5, 0x884C]])"
proof -
  let ?req = "\<lparr>an_userId = Some (ascii ''u1''),
        an_userData = Some \<lparr>ud_interests = Some [ascii ''chess''], ud_values = None\<rparr>\<rparr>"
  let ?db = "\<lparr>db_users = [\<lparr>u_id = ascii ''u1'', u_username = ascii ''ann'', u_password = ascii ''h'',
                    u_avatar = [], u_bio = [], u_created_at = 1, u_updated_at = 1\<rparr>],
        db_soul_profiles = [],
        db_moments = [\<lparr>m_id = ascii ''m1'', m_user_id = ascii ''u1'', m_content = [0x65C5, 0x884C],
                      m_content_type = ascii ''text'', m_sentiment = ascii ''neutral'',
                      m_keywords = [[0x65C5, 0x884C]], m_created_at = 2\<rparr>],
        db_interactions = [],
        db_moment_tie = (\<lambda>m. 0), db_interaction_tie = (\<lambda>i. 0)\<rparr>"
  let ?R = "analyze_route (\<lambda>p. None) (\<lambda>s. None) (\<lambda>s. s) (\<lambda>k. ascii ''p1'') 9 ?req ?db"
  have reach: "reaches_analysis ?req ?db"
    by (simp add: reaches_analysis_def falsy_def userOperations_findById_def pg_text_def ascii_def)
  have down: "ai_reply (\<lambda>p. None) ?req ?db = None"
    by (simp add: ai_reply_def callAIModel_profile_def)
  have st: "status (an_response ?R) = 200"
    by (rule analyze_route_fallback_succeeds [OF reach down])
      (simp_all add: additional_def or_empty_def pg_jsonb_def pg_text_def ascii_def)
  have e: "an_interests (analysis_of (\<lambda>p. None) (\<lambda>s. None) ?req ?db) = []"
    by (simp add: analysis_of_def ai_reply_def callAIModel_profile_def read_ai_reply_def
        initial_analysis_def)
  have ms: "momentOperations_findByUserId ?db (the (an_userId ?req)) = db_moments ?db"
    by (simp add: momentOperations_findByUserId_def momentOperations_findByUserId_limit_def
        rows_def pg_text_def ascii_def)
  have x: "extractInterests (\<lambda>s. s) (db_moments ?db) (additional (an_userData ?req) ud_interests)
      = [ascii ''chess'', [0x65C5, 0x884C]]"
    by (simp add: extractInterests_def additional_def or_empty_def new_Set_def set_add_def
        interestKeywords_def Let_def ascii_def)
  from profile_fallback_interests_values [of _ "\<lambda>s. s" _ _ "\<lambda>p. None" "\<lambda>s. None"
      "\<lambda>k. ascii ''p1''" 9 ?req ?db, THEN conjunct2, THEN conjunct2, THEN conjunct2, THEN conjunct2,
      rule_format, OF st]
  obtain d where d: "data (an_response ?R) = Some d"
    and i: "an_interests (analysis_of (\<lambda>p. None) (\<lambda>s. None) ?req ?db) = [] \<longrightarrow>
                pd_interests (ad_profile d)
                  = extractInterests (\<lambda>s. s) (momentOperations_findByUserId ?db (the (an_userId ?req)))
                      (additional (an_userData ?req) ud_interests)"
    by blast
  from i e have "pd_interests (ad_profile d)
      = extractInterests (\<lambda>s. s) (momentOperations_findByUserId ?db (the (an_userId ?req)))
          (additional (an_userData ?req) ud_interests)" by blast
  then have "pd_interests (ad_profile d) = [ascii ''chess'', [0x65C5, 0x884C]]"
    unfolding ms x .
  with d show ?thesis by blast
qed

section \<open>One soul profile per user\<close>

lemma in_place_map:
  assumes "distinct (map sp_user_id profiles)"
    and "find (\<lambda>q. sp_user_id q = uid) profiles = Some p"
  shows "\<exists>before after. profiles = before @ p # after
           \<and> map (\<lambda>q. if sp_user_id q = uid then f q else q) profiles = before @ f p # after"
proof -
  from find_Some_set [OF assms(2)] have p: "p \<in> set profiles" "sp_user_id p = uid" by simp_all
  from split_list [OF p(1)] obtain before after where s: "profiles = before @ p # after" by blast
  from assms(1) have "uid \<notin> set (map sp_user_id before)" "uid \<notin> set (map sp_user_id after)"
    unfolding s using p(2) by auto
  then have "map (\<lambda>q. if sp_user_id q = uid then f q else q) before = before"
    "map (\<lambda>q. if sp_user_id q = uid then f q else q) after = after"
    by (auto intro!: map_idI)
  then have "map (\<lambda>q. if sp_user_id q = uid then f q else q) profiles = before @ f p # after"
    unfolding s using p(2) by simp
  with s show ?thesis by blast
qed

lemma analyze_route_updates_in_place:
  assumes inv: "distinct (map sp_user_id (db_soul_profiles db))"
    and ok: "status (an_response (analyze_route ai JSON_parse toLowerCase uuidv4 now req db)) = 200"
    and f: "soulProfileOperations_findByUserId db (the (an_userId req)) = Inr (Some p)"
  shows "\<exists>d s before after.
           data (an_response (analyze_route ai JSON_parse toLowerCase uuidv4 now req db)) = Some d
           \<and> pd_match_score (ad_profile d) = Some s \<and> pg_integer s
           \<and> db_soul_profiles db = before @ p # after
           \<and> an_db (analyze_route ai JSON_parse toLowerCase uuidv4 now req db)
               = db\<lparr>db_soul_profiles := before @
                      p\<lparr>sp_interests := pd_interests (ad_profile d),
                        sp_values := pd_values (ad_profile d),
                        sp_communication_style := pd_communication_style (ad_profile d),
                        sp_emotion_tendency := pd_emotion_tendency (ad_profile d),
                        sp_personality_vector := pd_personality_vector (ad_profile d),
                        sp_match_score := s,
                        sp_ai_summary := pd_ai_summary (ad_profile d),
                        sp_updated_at := now\<rparr> # after\<rparr>"
proof -
  let ?uid = "the (an_userId req)"
  let ?pd = "fst (complete_profile toLowerCase (momentOperations_findByUserId db ?uid)
                   (an_userData req) (analysis_of ai JSON_parse req db))"
  let ?R = "analyze_route ai JSON_parse toLowerCase uuidv4 now req db"
  let ?d = "\<lparr>ad_userId = ?uid, ad_profile = ?pd,
             ad_momentCount = length (momentOperations_findByUserId db ?uid),
             ad_interactionCount = length (rows (interactionOperations_findByUserId db ?uid)),
             ad_aiEnhanced = (ai_reply ai req db \<noteq> None)\<rparr>"
  have d: "data (an_response ?R) = Some ?d"
    unfolding analyze_route_ok(2) [OF ok] by (simp add: ok_def)
  from f analyze_route_ok(3) [OF ok]
  have u: "soulProfileOperations_update now ?uid ?pd db = Inr (an_db ?R)" by simp
  from update_rows(2) [OF u] obtain s where s: "pd_match_score ?pd = Some s" "pg_integer s"
    by (cases "pd_match_score ?pd") (simp_all add: pg_profile_def)
  from f have found: "find (\<lambda>q. sp_user_id q = ?uid) (db_soul_profiles db) = Some p"
    by (simp add: soulProfileOperations_findByUserId_def split: if_splits)
  let ?f = "\<lambda>q. q\<lparr>sp_interests := pd_interests ?pd, sp_values := pd_values ?pd,
                    sp_communication_style := pd_communication_style ?pd,
                    sp_emotion_tendency := pd_emotion_tendency ?pd,
                    sp_personality_vector := pd_personality_vector ?pd,
                    sp_match_score := s,
                    sp_ai_summary := pd_ai_summary ?pd, sp_updated_at := now\<rparr>"
  from in_place_map [OF inv found, of ?f] obtain before after where
    b: "db_soul_profiles db = before @ p # after"
       "map (\<lambda>q. if sp_user_id q = ?uid then ?f q else q) (db_soul_profiles db)
          = before @ ?f p # after"
    by blast
  have "an_db ?R = db\<lparr>db_soul_profiles := before @ ?f p # after\<rparr>"
    using update_rows(1) [OF u] unfolding s(1) b(2) [symmetric] by simp
  with d s b(1) show ?thesis
    by (intro exI [of _ ?d] exI [of _ s] exI [of _ before] exI [of _ after]) simp
qed

lemma analyze_route_inserts:
  assumes ok: "status (an_response (analyze_route ai JSON_parse toLowerCase uuidv4 now req db)) = 200"
    and f: "soulProfileOperations_findByUserId db (the (an_userId req)) = Inr None"
  shows "the (an_userId req) \<notin> set (map sp_user_id (db_soul_profiles db))"
    and "uuidv4 0 \<notin> set (map sp_id (db_soul_profiles db))"
    and "\<exists>d s.
           data (an_response (analyze_route ai JSON_parse toLowerCase uuidv4 now req db)) = Some d
           \<and> pd_match_score (ad_profile d) = Some s \<and> pg_integer s
           \<and> an_db (analyze_route ai JSON_parse toLowerCase uuidv4 now req db)
               = db\<lparr>db_soul_profiles := db_soul_profiles db @
                      [\<lparr>sp_id = uuidv4 0, sp_user_id = the (an_userId req),
                        sp_interests = pd_interests (ad_profile d),
                        sp_values = pd_values (ad_profile d),
                        sp_communication_style = pd_communication_style (ad_profile d),
                        sp_emotion_tendency = pd_emotion_tendency (ad_profile d),
                        sp_personality_vector = pd_personality_vector (ad_profile d),
                        sp_match_score = s,
                        sp_ai_summary = pd_ai_summary (ad_profile d),
                        sp_created_at = now, sp_updated_at = now\<rparr>]\<rparr>"
proof -
  let ?uid = "the (an_userId req)"
  let ?pd = "fst (complete_profile toLowerCase (momentOperations_findByUserId db ?uid)
                   (an_userData req) (analysis_of ai JSON_parse req db))"
  let ?R = "analyze_route ai JSON_parse toLowerCase uuidv4 now req db"
  let ?d = "\<lparr>ad_userId = ?uid, ad_profile = ?pd,
             ad_momentCount = length (momentOperations_findByUserId db ?uid),
             ad_interactionCount = length (rows (interactionOperations_findByUserId db ?uid)),
             ad_aiEnhanced = (ai_reply ai req db \<noteq> None)\<rparr>"
  have d: "data (an_response ?R) = Some ?d"
    unfolding analyze_route_ok(2) [OF ok] by (simp add: ok_def)
  from f analyze_route_ok(3) [OF ok]
  have c: "soulProfileOperations_create now (uuidv4 0) ?uid ?pd db = Inr (an_db ?R)" by simp
  from complete_profile_score [of toLowerCase "momentOperations_findByUserId db ?uid"
      "an_userData req" "analysis_of ai JSON_parse req db"]
  obtain s where s: "pd_match_score ?pd = Some s" by blast
  from c have acc: "pg_integer s"
    by (auto simp: soulProfileOperations_create_def Let_def pg_profile_def s split: if_splits)
  show "?uid \<notin> set (map sp_user_id (db_soul_profiles db))" by (rule create_rows(2) [OF c])
  show "uuidv4 0 \<notin> set (map sp_id (db_soul_profiles db))" by (rule create_rows(3) [OF c])
  from create_rows(1) [OF c] d s acc
  show "\<exists>d s. data (an_response ?R) = Some d
           \<and> pd_match_score (ad_profile d) = Some s \<and> pg_integer s
           \<and> an_db ?R
               = db\<lparr>db_soul_profiles := db_soul_profiles db @
                      [\<lparr>sp_id = uuidv4 0, sp_user_id = ?uid,
                        sp_interests = pd_interests (ad_profile d),
                        sp_values = pd_values (ad_profile d),
                        sp_communication_style = pd_communication_style (ad_profile d),
                        sp_emotion_tendency = pd_emotion_tendency (ad_profile d),
                        sp_personality_vector = pd_personality_vector (ad_profile d),
                        sp_match_score = s,
                        sp_ai_summary = pd_ai_summary (ad_profile d),
                        sp_created_at = now, sp_updated_at = now\<rparr>]\<rparr>"
    by (intro exI [of _ ?d] exI [of _ s]) simp
qed

lemma analyze_route_invariant:
  assumes "distinct (map sp_user_id (db_soul_profiles db))"
  shows "distinct (map sp_user_id
           (db_soul_profiles (an_db (analyze_route ai JSON_parse toLowerCase uuidv4 now req db))))"
proof (cases "status (an_response (analyze_route ai JSON_parse toLowerCase uuidv4 now req db)) = 200")
  case False
  then show ?thesis using analyze_route_failure assms by simp
next
  case True
  let ?uid = "the (an_userId req)"
  let ?pd = "fst (complete_profile toLowerCase (momentOperations_findByUserId db ?uid)
                   (an_userData req) (analysis_of ai JSON_parse req db))"
  let ?R = "analyze_route ai JSON_parse toLowerCase uuidv4 now req db"
  note found = reaches_analysis_reads(4) [OF analyze_route_ok(1) [OF True]]
  show ?thesis
  proof (cases "find (\<lambda>p. sp_user_id p = ?uid) (db_soul_profiles db)")
    case None
    with found have f: "soulProfileOperations_findByUserId db ?uid = Inr None" by simp
    from analyze_route_inserts(1,3) [OF True f] assms show ?thesis by auto
  next
    case (Some p)
    with found analyze_route_ok(3) [OF True]
    have u: "soulProfileOperations_update now ?uid ?pd db = Inr (an_db ?R)" by simp
    from update_keeps_keys(1) [OF u] assms show ?thesis by simp
  qed
qed

lemma analyze_route_out_of_range:
  assumes "reaches_analysis req db"
    and "pd_match_score (fst (complete_profile toLowerCase
            (momentOperations_findByUserId db (the (an_userId req)))
            (an_userData req) (analysis_of ai JSON_parse req db))) = Some s"
    and "\<not> pg_integer s"
  shows "status (an_response (analyze_route ai JSON_parse toLowerCase uuidv4 now req db)) = 500"
proof -
  let ?uid = "the (an_userId req)"
  let ?pd = "fst (complete_profile toLowerCase (momentOperations_findByUserId db ?uid)
                   (an_userData req) (analysis_of ai JSON_parse req db))"
  have u: "soulProfileOperations_update now ?uid ?pd db = Inl InvalidInput"
    using assms(2,3) by (simp add: soulProfileOperations_update_def pg_profile_def)
  have c: "soulProfileOperations_create now (uuidv4 0) ?uid ?pd db = Inl InvalidInput"
    using assms(2,3) by (simp add: soulProfileOperations_create_def Let_def pg_profile_def)
  show ?thesis
    by (cases "find (\<lambda>p. sp_user_id p = ?uid) (db_soul_profiles db)")
      (simp_all add: analyze_route_unfold [OF assms(1)] reaches_analysis_reads(4) [OF assms(1)]
        Let_def u c fail_def)
qed

lemma create_no_violation:
  assumes "soulProfileOperations_findByUserId db userId = Inr None"
    and "userId \<in> set (map u_id (db_users db))"
    and "ident \<notin> set (map sp_id (db_soul_profiles db))"
  shows "soulProfileOperations_create now ident userId profile db \<noteq> Inl UniqueViolation
         \<and> soulProfileOperations_create now ident userId profile db \<noteq> Inl ForeignKeyViolation"
  using assms findByUserId_profile_None [of db userId]
  by (simp add: soulProfileOperations_create_def Let_def)

text \<open>
  Claim C8. POST /api/profile/analyze keeps the soul profiles at one row per user at most,
  and a request that does not succeed leaves the database as it was. When
  \<open>soulProfileOperations.findByUserId\<close> finds a row and the request succeeds, that row is
  updated in place: the table is the old one with the row found replaced, at its position,
  by the same row with the seven members of the profile returned and \<open>updated_at\<close> set to
  the time of the request, and nothing else in the database changes. When it finds no row
  and the request succeeds, no row of the table had the user id or the identifier of the
  \<open>uuidv4()\<close> call, and the table is the old one with one row appended, which carries that
  identifier, the user id and the profile returned. The match score stored is an integer of
  32 bits; a match score outside that range makes the request fail with 500. The insert is
  made only when no row of the user exists, so that neither \<open>UNIQUE(user_id)\<close> nor the
  foreign key can reject it.
\<close>

theorem analyze_route_upsert:
  assumes "distinct (map sp_user_id (db_soul_profiles db))"
  shows "distinct (map sp_user_id
           (db_soul_profiles (an_db (analyze_route ai JSON_parse toLowerCase uuidv4 now req db))))
   \<and> (status (an_response (analyze_route ai JSON_parse toLowerCase uuidv4 now req db)) \<noteq> 200 \<longrightarrow>
        an_db (analyze_route ai JSON_parse toLowerCase uuidv4 now req db) = db)
   \<and> (\<forall>p. status (an_response (analyze_route ai JSON_parse toLowerCase uuidv4 now req db)) = 200
          \<and> soulProfileOperations_findByUserId db (the (an_userId req)) = Inr (Some p) \<longrightarrow>
        (\<exists>d s before after.
           data (an_response (analyze_route ai JSON_parse toLowerCase uuidv4 now req db)) = Some d
           \<and> pd_match_score (ad_profile d) = Some s \<and> pg_integer s
           \<and> db_soul_profiles db = before @ p # after
           \<and> an_db (analyze_route ai JSON_parse toLowerCase uuidv4 now req db)
               = db\<lparr>db_soul_profiles := before @
                      p\<lparr>sp_interests := pd_interests (ad_profile d),
                        sp_values := pd_values (ad_profile d),
                        sp_communication_style := pd_communication_style (ad_profile d),
                        sp_emotion_tendency := pd_emotion_tendency (ad_profile d),
                        sp_personality_vector := pd_personality_vector (ad_profile d),
                        sp_match_score := s,
                        sp_ai_summary := pd_ai_summary (ad_profile d),
                        sp_updated_at := now\<rparr> # after\<rparr>))
   \<and> (status (an_response (analyze_route ai JSON_parse toLowerCase uuidv4 now req db)) = 200
        \<and> soulProfileOperations_findByUserId db (the (an_userId req)) = Inr None \<longrightarrow>
        the (an_userId req) \<notin> set (map sp_user_id (db_soul_profiles db))
        \<and> uuidv4 0 \<notin> set (map sp_id (db_soul_profiles db))
        \<and> (\<exists>d s.
             data (an_response (analyze_route ai JSON_parse toLowerCase uuidv4 now req db)) = Some d
             \<and> pd_match_score (ad_profile d) = Some s \<and> pg_integer s
             \<and> an_db (analyze_route ai JSON_parse toLowerCase uuidv4 now req db)
                 = db\<lparr>db_soul_profiles := db_soul_profiles db @
                        [\<lparr>sp_id = uuidv4 0, sp_user_id = the (an_userId req),
                          sp_interests = pd_interests (ad_profile d),
                          sp_values = pd_values (ad_profile d),
                          sp_communication_style = pd_communication_style (ad_profile d),
                          sp_emotion_tendency = pd_emotion_tendency (ad_profile d),
                          sp_personality_vector = pd_personality_vector (ad_profile d),
                          sp_match_score = s,
                          sp_ai_summary = pd_ai_summary (ad_profile d),
                          sp_created_at = now, sp_updated_at = now\<rparr>]\<rparr>))
   \<and> (\<forall>s. reaches_analysis req db
          \<and> pd_match_score (fst (complete_profile toLowerCase
                (momentOperations_findByUserId db (the (an_userId req)))
                (an_userData req) (analysis_of ai JSON_parse req db))) = Some s
          \<and> \<not> pg_integer s \<longrightarrow>
        status (an_response (analyze_route ai JSON_parse toLowerCase uuidv4 now req db)) = 500)
   \<and> (\<forall>profile. reaches_analysis req db
          \<and> soulProfileOperations_findByUserId db (the (an_userId req)) = Inr None
          \<and> uuidv4 0 \<notin> set (map sp_id (db_soul_profiles db)) \<longrightarrow>
        soulProfileOperations_create now (uuidv4 0) (the (an_userId req)) profile db
          \<noteq> Inl UniqueViolation
        \<and> soulProfileOperations_create now (uuidv4 0) (the (an_userId req)) profile db
          \<noteq> Inl ForeignKeyViolation)"
proof -
  let ?R = "analyze_route ai JSON_parse toLowerCase uuidv4 now req db"
  let ?uid = "the (an_userId req)"
  have c1: "distinct (map sp_user_id (db_soul_profiles (an_db ?R)))"
    by (rule analyze_route_invariant [OF assms])
  have c2: "status (an_response ?R) \<noteq> 200 \<longrightarrow> an_db ?R = db"
    using analyze_route_failure by blast
  have c3: "\<forall>p. status (an_response ?R) = 200
          \<and> soulProfileOperations_findByUserId db ?uid = Inr (Some p) \<longrightarrow>
        (\<exists>d s before after.
           data (an_response ?R) = Some d
           \<and> pd_match_score (ad_profile d) = Some s \<and> pg_integer s
           \<and> db_soul_profiles db = before @ p # after
           \<and> an_db ?R
               = db\<lparr>db_soul_profiles := before @
                      p\<lparr>sp_interests := pd_interests (ad_profile d),
                        sp_values := pd_values (ad_profile d),
                        sp_communication_style := pd_communication_style (ad_profile d),
                        sp_emotion_tendency := pd_emotion_tendency (ad_profile d),
                        sp_personality_vector := pd_personality_vector (ad_profile d),
                        sp_match_score := s,
                        sp_ai_summary := pd_ai_summary (ad_profile d),
                        sp_updated_at := now\<rparr> # after\<rparr>)"
    using analyze_route_updates_in_place [OF assms, of ai JSON_parse toLowerCase uuidv4 now req]
    by (intro allI impI) (elim conjE)
  have c4: "status (an_response ?R) = 200
        \<and> soulProfileOperations_findByUserId db ?uid = Inr None \<longrightarrow>
        ?uid \<notin> set (map sp_user_id (db_soul_profiles db))
        \<and> uuidv4 0 \<notin> set (map sp_id (db_soul_profiles db))
        \<and> (\<exists>d s.
             data (an_response ?R) = Some d
             \<and> pd_match_score (ad_profile d) = Some s \<and> pg_integer s
             \<and> an_db ?R
                 = db\<lparr>db_soul_profiles := db_soul_profiles db @
                        [\<lparr>sp_id = uuidv4 0, sp_user_id = ?uid,
                          sp_interests = pd_interests (ad_profile d),
                          sp_values = pd_values (ad_profile d),
                          sp_communication_style = pd_communication_style (ad_profile d),
                          sp_emotion_tendency = pd_emotion_tendency (ad_profile d),
                          sp_personality_vector = pd_personality_vector (ad_profile d),
                          sp_match_score = s,
                          sp_ai_summary = pd_ai_summary (ad_profile d),
                          sp_created_at = now, sp_updated_at = now\<rparr>]\<rparr>)"
    using analyze_route_inserts [of ai JSON_parse toLowerCase uuidv4 now req db]
    by (intro impI conjI) (elim conjE, blast)+
  have c5: "\<forall>s. reaches_analysis req db
          \<and> pd_match_score (fst (complete_profile toLowerCase
                (momentOperations_findByUserId db ?uid)
                (an_userData req) (analysis_of ai JSON_parse req db))) = Some s
          \<and> \<not> pg_integer s \<longrightarrow>
        status (an_response ?R) = 500"
    using analyze_route_out_of_range by blast
  have c6: "\<forall>profile. reaches_analysis req db
          \<and> soulProfileOperations_findByUserId db ?uid = Inr None
          \<and> uuidv4 0 \<notin> set (map sp_id (db_soul_profiles db)) \<longrightarrow>
        soulProfileOperations_create now (uuidv4 0) ?uid profile db \<noteq> Inl UniqueViolation
        \<and> soulProfileOperations_create now (uuidv4 0) ?uid profile db \<noteq> Inl ForeignKeyViolation"
    using create_no_violation reaches_analysis_reads(5) by blast
  show ?thesis using c1 c2 c3 c4 c5 c6 by (intro conjI)
qed

text \<open>Two users, \<open>u1\<close> with a profile \<open>p1\<close> and \<open>u2\<close> without one. With the endpoint down,
  the analysis of \<open>u1\<close> at time 9 keeps the one row and writes the default communication
  style and the time into it, and the analysis of \<open>u2\<close> appends the row \<open>p2\<close>. When the
  model replies with a personality vector whose one score is 3000000000, the analysis of
  \<open>u1\<close> fails with 500.\<close>

theorem analyze_route_upsert_witness:
  "map sp_id (db_soul_profiles (an_db (analyze_route (\<lambda>p. None) (\<lambda>s. None) (\<lambda>s. s) (\<lambda>k. ascii ''p2'') 9
          \<lparr>an_userId = Some (ascii ''u1''), an_userData = None\<rparr>
          \<lparr>db_users = [\<lparr>u_id = ascii ''u1'', u_username = ascii ''ann'', u_password = ascii ''h'',
                    u_avatar = [], u_bio = [], u_created_at = 1, u_updated_at = 1\<rparr>,
                   \<lparr>u_id = ascii ''u2'', u_username = ascii ''bob'', u_password = ascii ''h'',
                    u_avatar = [], u_bio = [], u_created_at = 2, u_updated_at = 2\<rparr>],
        db_soul_profiles = [\<lparr>sp_id = ascii ''p1'', sp_user_id = ascii ''u1'', sp_interests = [],
                    sp_values = [], sp_communication_style = [], sp_emotion_tendency = [],
                    sp_personality_vector = [], sp_match_score = 0, sp_ai_summary = [],
                    sp_created_at = 3, sp_updated_at = 3\<rparr>],
        db_moments = [], db_interactions = [],
        db_moment_tie = (\<lambda>m. 0), db_interaction_tie = (\<lambda>i. 0)\<rparr>))) = [ascii ''p1'']
   \<and> map (\<lambda>p. (sp_communication_style p, sp_created_at p, sp_updated_at p))
        (db_soul_profiles (an_db (analyze_route (\<lambda>p. None) (\<lambda>s. None) (\<lambda>s. s) (\<lambda>k. ascii ''p2'') 9
          \<lparr>an_userId = Some (ascii ''u1''), an_userData = None\<rparr>
          \<lparr>db_users = [\<lparr>u_id = ascii ''u1'', u_username = ascii ''ann'', u_password = ascii ''h'',
                    u_avatar = [], u_bio = [], u_created_at = 1, u_updated_at = 1\<rparr>,
                   \<lparr>u_id = ascii ''u2'', u_username = ascii ''bob'', u_password = ascii ''h'',
                    u_avatar = [], u_bio = [], u_created_at = 2, u_updated_at = 2\<rparr>],
        db_soul_profiles = [\<lparr>sp_id = ascii ''p1'', sp_user_id = ascii ''u1'', sp_interests = [],
                    sp_values = [], sp_communication_style = [], sp_emotion_tendency = [],
                    sp_personality_vector = [], sp_match_score = 0, sp_ai_summary = [],
                    sp_created_at = 3, sp_updated_at = 3\<rparr>],
        db_moments = [], db_interactions = [],
        db_moment_tie = (\<lambda>m. 0), db_interaction_tie = (\<lambda>i. 0)\<rparr>)))
       = [([0x63A2, 0x7D22, 0x578B], 3, 9)]
   \<and> map sp_id (db_soul_profiles (an_db (analyze_route (\<lambda>p. None) (\<lambda>s. None) (\<lambda>s. s) (\<lambda>k. ascii ''p2'') 9
          \<lparr>an_userId = Some (ascii ''u2''), an_userData = None\<rparr>
          \<lparr>db_users = [\<lparr>u_id = ascii ''u1'', u_username = ascii ''ann'', u_password = ascii ''h'',
                    u_avatar = [], u_bio = [], u_created_at = 1, u_updated_at = 1\<rparr>,
                   \<lparr>u_id = ascii ''u2'', u_username = ascii ''bob'', u_password = ascii ''h'',
                    u_avatar = [], u_bio = [], u_created_at = 2, u_updated_at = 2\<rparr>],
        db_soul_profiles = [\<lparr>sp_id = ascii ''p1'', sp_user_id = ascii ''u1'', sp_interests = [],
                    sp_values = [], sp_communication_style = [], sp_emotion_tendency = [],
                    sp_personality_vector = [], sp_match_score = 0, sp_ai_summary = [],
                    sp_created_at = 3, sp_updated_at = 3\<rparr>],
        db_moments = [], db_interactions = [],
        db_moment_tie = (\<lambda>m. 0), db_interaction_tie = (\<lambda>i. 0)\<rparr>))) = [ascii ''p1'', ascii ''p2'']
   \<and> distinct (map sp_user_id (db_soul_profiles (an_db (analyze_route (\<lambda>p. None) (\<lambda>s. None) (\<lambda>s. s) (\<lambda>k. ascii ''p2'') 9
          \<lparr>an_userId = Some (ascii ''u2''), an_userData = None\<rparr>
          \<lparr>db_users = [\<lparr>u_id = ascii ''u1'', u_username = ascii ''ann'', u_password = ascii ''h'',
                    u_avatar = [], u_bio = [], u_created_at = 1, u_updated_at = 1\<rparr>,
                   \<lparr>u_id = ascii ''u2'', u_username = ascii ''bob'', u_password = ascii ''h'',
                    u_avatar = [], u_bio = [], u_created_at = 2, u_updated_at = 2\<rparr>],
        db_soul_profiles = [\<lparr>sp_id = ascii ''p1'', sp_user_id = ascii ''u1'', sp_interests = [],
                    sp_values = [], sp_communication_style = [], sp_emotion_tendency = [],
                    sp_personality_vector = [], sp_match_score = 0, sp_ai_summary = [],
                    sp_created_at = 3, sp_updated_at = 3\<rparr>],
        db_moments = [], db_interactions = [],
        db_moment_tie = (\<lambda>m. 0), db_interaction_tie = (\<lambda>i. 0)\<rparr>))))
   \<and> status (an_response (analyze_route (\<lambda>p. Some (ascii ''{}''))
          (\<lambda>s. Some \<lparr>ai_interests = None, ai_values = None, ai_communicationStyle = None,
                     ai_emotionTendency = None,
                     ai_personalityVector = Some [\<lparr>dimension = ascii ''x'', score = 3000000000\<rparr>],
                     ai_summary = None\<rparr>)
          (\<lambda>s. s) (\<lambda>k. ascii ''p2'') 9
          \<lparr>an_userId = Some (ascii ''u1''), an_userData = None\<rparr>
          \<lparr>db_users = [\<lparr>u_id = ascii ''u1'', u_username = ascii ''ann'', u_password = ascii ''h'',
                    u_avatar = [], u_bio = [], u_created_at = 1, u_updated_at = 1\<rparr>,
                   \<lparr>u_id = ascii ''u2'', u_username = ascii ''bob'', u_password = ascii ''h'',
                    u_avatar = [], u_bio = [], u_created_at = 2, u_updated_at = 2\<rparr>],
        db_soul_profiles = [\<lparr>sp_id = ascii ''p1'', sp_user_id = ascii ''u1'', sp_interests = [],
                    sp_values = [], sp_communication_style = [], sp_emotion_tendency = [],
                    sp_personality_vector = [], sp_match_score = 0, sp_ai_summary = [],
                    sp_created_at = 3, sp_updated_at = 3\<rparr>],
        db_moments = [], db_interactions = [],
        db_moment_tie = (\<lambda>m. 0), db_interaction_tie = (\<lambda>i. 0)\<rparr>)) = 500"
proof -
  let ?p1 = "\<lparr>sp_id = ascii ''p1'', sp_user_id = ascii ''u1'', sp_interests = [],
                    sp_values = [], sp_communication_style = [], sp_emotion_tendency = [],
                    sp_personality_vector = [], sp_match_score = 0, sp_ai_summary = [],
                    sp_created_at = 3, sp_updated_at = 3\<rparr>"
  let ?db = "\<lparr>db_users = [\<lparr>u_id = ascii ''u1'', u_username = ascii ''ann'', u_password = ascii ''h'',
                    u_avatar = [], u_bio = [], u_created_at = 1, u_updated_at = 1\<rparr>,
                   \<lparr>u_id = ascii ''u2'', u_username = ascii ''bob'', u_password = ascii ''h'',
                    u_avatar = [], u_bio = [], u_created_at = 2, u_updated_at = 2\<rparr>],
        db_soul_profiles = [?p1],
        db_moments = [], db_interactions = [],
        db_moment_tie = (\<lambda>m. 0), db_interaction_tie = (\<lambda>i. 0)\<rparr>"
  let ?r1 = "\<lparr>an_userId = Some (ascii ''u1''), an_userData = None\<rparr>"
  let ?r2 = "\<lparr>an_userId = Some (ascii ''u2''), an_userData = None\<rparr>"
  let ?uu = "\<lambda>k :: nat. ascii ''p2''"
  let ?down = "(\<lambda>p. None) :: jsstring \<Rightarrow> jsstring option"
  let ?none = "(\<lambda>s. None) :: jsstring \<Rightarrow> ai_analysis option"
  let ?id = "(\<lambda>s. s) :: jsstring \<Rightarrow> jsstring"
  let ?ai = "(\<lambda>p. Some (ascii ''{}'')) :: jsstring \<Rightarrow> jsstring option"
  let ?big = "\<lparr>ai_interests = None, ai_values = None, ai_communicationStyle = None,
                     ai_emotionTendency = None,
                     ai_personalityVector = Some [\<lparr>dimension = ascii ''x'', score = 3000000000\<rparr>],
                     ai_summary = None\<rparr>"
  let ?parse = "(\<lambda>s. Some ?big) :: jsstring \<Rightarrow> ai_analysis option"
  let ?R1 = "analyze_route ?down ?none ?id ?uu 9 ?r1 ?db"
  let ?R2 = "analyze_route ?down ?none ?id ?uu 9 ?r2 ?db"
  have inv: "distinct (map sp_user_id (db_soul_profiles ?db))" by simp
  have reach1: "reaches_analysis ?r1 ?db"
    by (simp add: reaches_analysis_def falsy_def userOperations_findById_def pg_text_def ascii_def)
  have reach2: "reaches_analysis ?r2 ?db"
    by (simp add: reaches_analysis_def falsy_def userOperations_findById_def pg_text_def ascii_def)
  have down1: "ai_reply ?down ?r1 ?db = None" and down2: "ai_reply ?down ?r2 ?db = None"
    by (simp_all add: ai_reply_def callAIModel_profile_def)
  have f1: "soulProfileOperations_findByUserId ?db (the (an_userId ?r1)) = Inr (Some ?p1)"
    by (simp add: soulProfileOperations_findByUserId_def pg_text_def ascii_def)
  have f2: "soulProfileOperations_findByUserId ?db (the (an_userId ?r2)) = Inr None"
    by (simp add: soulProfileOperations_findByUserId_def pg_text_def ascii_def)
  have ok1: "status (an_response ?R1) = 200"
    by (rule analyze_route_fallback_succeeds [OF reach1 down1])
      (simp_all add: additional_def pg_jsonb_def)
  have ok2: "status (an_response ?R2) = 200"
    by (rule analyze_route_fallback_succeeds [OF reach2 down2])
      (simp_all add: additional_def pg_jsonb_def pg_text_def ascii_def)
  note T1 = analyze_route_upsert [OF inv, of ?down ?none ?id ?uu 9 ?r1]
  note T2 = analyze_route_upsert [OF inv, of ?down ?none ?id ?uu 9 ?r2]
  note T3 = analyze_route_upsert [OF inv, of ?ai ?parse ?id ?uu 9 ?r1]
  from T1 [THEN conjunct2, THEN conjunct2, THEN conjunct1, rule_format, OF conjI, OF ok1 f1]
  obtain d s before after where
    u: "data (an_response ?R1) = Some d" "db_soul_profiles ?db = before @ ?p1 # after"
       "an_db ?R1 = ?db\<lparr>db_soul_profiles := before @
                      ?p1\<lparr>sp_interests := pd_interests (ad_profile d),
                        sp_values := pd_values (ad_profile d),
                        sp_communication_style := pd_communication_style (ad_profile d),
                        sp_emotion_tendency := pd_emotion_tendency (ad_profile d),
                        sp_personality_vector := pd_personality_vector (ad_profile d),
                        sp_match_score := s,
                        sp_ai_summary := pd_ai_summary (ad_profile d),
                        sp_updated_at := 9\<rparr> # after\<rparr>"
    by blast
  from u(2) have ba: "before = []" "after = []" by (cases before; simp)+
  have a1: "analysis_of ?down ?none ?r1 ?db = initial_analysis"
    by (simp add: analysis_of_def down1 read_ai_reply_def)
  from u(1) have "pd_communication_style (ad_profile d) = [0x63A2, 0x7D22, 0x578B]"
    unfolding analyze_route_ok(2) [OF ok1] a1
    by (auto simp: ok_def complete_profile_texts initial_analysis_def)
  with u(3) ba have
    a: "map sp_id (db_soul_profiles (an_db ?R1)) = [ascii ''p1'']"
    and a': "map (\<lambda>p. (sp_communication_style p, sp_created_at p, sp_updated_at p))
               (db_soul_profiles (an_db ?R1)) = [([0x63A2, 0x7D22, 0x578B], 3, 9)]"
    by simp_all
  from T2 [THEN conjunct2, THEN conjunct2, THEN conjunct2, THEN conjunct1, rule_format,
      OF conjI, OF ok2 f2, THEN conjunct2, THEN conjunct2]
  have b: "map sp_id (db_soul_profiles (an_db ?R2)) = [ascii ''p1'', ascii ''p2'']"
    by (elim exE conjE) simp
  have c: "distinct (map sp_user_id (db_soul_profiles (an_db ?R2)))"
    by (rule T2 [THEN conjunct1])
  have m: "match_object [0x7B, 0x7D] = Some [0x7B, 0x7D]"
    by (simp add: match_object_def match_at_def)
  have r3: "ai_reply ?ai ?r1 ?db = Some (ascii ''{}'')"
    by (simp add: ai_reply_def callAIModel_profile_def)
  have a3: "an_personalityVector (analysis_of ?ai ?parse ?r1 ?db)
              = [\<lparr>dimension = ascii ''x'', score = 3000000000\<rparr>]"
    unfolding analysis_of_def r3 by (simp add: read_ai_reply_def m or_empty_def ascii_def)
  have score: "pd_match_score (fst (complete_profile ?id
                (momentOperations_findByUserId ?db (the (an_userId ?r1)))
                (an_userData ?r1) (analysis_of ?ai ?parse ?r1 ?db))) = Some 3000000000"
    unfolding complete_profile_fields(4) complete_profile_fields(3) a3
    by (simp add: calculateMatchScore_mean)
  have big: "\<not> pg_integer 3000000000" by (simp add: pg_integer_def)
  have e: "status (an_response (analyze_route ?ai ?parse ?id ?uu 9 ?r1 ?db)) = 500"
    by (rule T3 [THEN conjunct2, THEN conjunct2, THEN conjunct2, THEN conjunct2, THEN conjunct1,
          rule_format, OF conjI, OF reach1 conjI, OF score big])
  show ?thesis using a a' b c e by (intro conjI)
qed

section \<open>The moments that the analysis reads\<close>

lemma sorted_key_split:
  fixes f :: "'a \<Rightarrow> int"
  shows "sorted (map f ys) \<Longrightarrow> ys = filter (\<lambda>x. f x < c) ys @ filter (\<lambda>x. \<not> f x < c) ys"
proof (induction ys)
  case Nil
  then show ?case by simp
next
  case (Cons y ys)
  then have s: "sorted (map f ys)" and le: "\<forall>x \<in> set ys. f y \<le> f x" by auto
  show ?case
  proof (cases "f y < c")
    case True
    with Cons.IH [OF s] show ?thesis by simp
  next
    case False
    with le have "\<forall>x \<in> set ys. \<not> f x < c" by fastforce
    then have "filter (\<lambda>x. f x < c) ys = []" "filter (\<lambda>x. \<not> f x < c) ys = ys"
      by (simp_all add: filter_empty_conv)
    with False show ?thesis by simp
  qed
qed

lemma sort_key_split:
  fixes f :: "'a \<Rightarrow> int"
  shows "sort_key f zs = sort_key f (filter (\<lambda>x. f x < c) zs) @ sort_key f (filter (\<lambda>x. \<not> f x < c) zs)"
proof -
  have "sort_key f zs = filter (\<lambda>x. f x < c) (sort_key f zs) @ filter (\<lambda>x. \<not> f x < c) (sort_key f zs)"
    by (rule sorted_key_split) simp
  then show ?thesis by (simp only: filter_sort)
qed

lemma take_sort_key_older:
  fixes f :: "'a \<Rightarrow> int"
  assumes "n \<le> length (filter (\<lambda>x. f x < f m) xs)"
  shows "take n (sort_key f (xs @ [m])) = take n (sort_key f xs)"
proof -
  let ?A = "sort_key f (filter (\<lambda>x. f x < f m) xs)"
  have a: "n \<le> length ?A" using assms by simp
  have "sort_key f (xs @ [m]) = ?A @ sort_key f (filter (\<lambda>x. \<not> f x < f m) (xs @ [m]))"
    using sort_key_split [of f "xs @ [m]" "f m"] by simp
  moreover have "sort_key f xs = ?A @ sort_key f (filter (\<lambda>x. \<not> f x < f m) xs)"
    by (rule sort_key_split)
  ultimately show ?thesis using a by simp
qed

text \<open>When the sort keys are distinct, the sorted list does not depend on the order of the
  input.\<close>

lemma sort_key_distinct:
  fixes f :: "'a \<Rightarrow> int"
  assumes "set ys = set zs" "distinct ys" "distinct (map f zs)"
  shows "sort_key f ys = sort_key f zs"
proof -
  from assms(3) have inj: "inj_on f (set zs)" and dz: "distinct zs"
    by (simp_all add: distinct_map)
  have "distinct (map f (sort_key f ys))" "distinct (map f (sort_key f zs))"
    using inj dz assms(1,2) by (simp_all add: distinct_map)
  moreover have "sorted (map f (sort_key f ys))" "sorted (map f (sort_key f zs))" by simp_all
  moreover have "set (map f (sort_key f ys)) = set (map f (sort_key f zs))"
    using assms(1) by simp
  ultimately have "map f (sort_key f ys) = map f (sort_key f zs)"
    by (intro sorted_distinct_set_unique)
  moreover have "inj_on f (set (sort_key f ys) \<union> set (sort_key f zs))"
    using inj assms(1) by simp
  ultimately show ?thesis by (simp only: inj_on_map_eq_map)
qed

lemma distinct_created_at:
  "distinct (map (\<lambda>m. - m_created_at m) ms) = distinct (map m_created_at ms)"
proof -
  have "map (\<lambda>m. - m_created_at m) ms = map uminus (map m_created_at ms)" by simp
  then show ?thesis by (simp only: distinct_map) (auto simp: inj_on_def)
qed

text \<open>The rows read, as a list.\<close>

lemma findByUserId_rows:
  "momentOperations_findByUserId db userId =
     (if pg_text userId
      then take 20 (sort_key (\<lambda>m. - m_created_at m)
                      (sort_key (db_moment_tie db)
                         (filter (\<lambda>m. m_user_id m = userId) (db_moments db))))
      else [])"
  by (simp add: momentOperations_findByUserId_def momentOperations_findByUserId_limit_def rows_def)

lemma findByUserId_call:
  "pg_text userId \<Longrightarrow>
     momentOperations_findByUserId_limit db userId 20 = Inr (momentOperations_findByUserId db userId)"
  by (simp add: momentOperations_findByUserId_def momentOperations_findByUserId_limit_def rows_def)

lemma findByUserId_distinct:
  assumes "distinct (map m_created_at (filter (\<lambda>m. m_user_id m = userId) (db_moments db)))"
  shows "momentOperations_findByUserId db userId =
     (if pg_text userId
      then take 20 (sort_key (\<lambda>m. - m_created_at m)
                      (filter (\<lambda>m. m_user_id m = userId) (db_moments db)))
      else [])"
proof -
  let ?xs = "filter (\<lambda>m. m_user_id m = userId) (db_moments db)"
  have "sort_key (\<lambda>m. - m_created_at m) (sort_key (db_moment_tie db) ?xs)
      = sort_key (\<lambda>m. - m_created_at m) ?xs"
  proof (rule sort_key_distinct)
    show "set (sort_key (db_moment_tie db) ?xs) = set ?xs" by simp
    from assms have "distinct ?xs" by (simp add: distinct_map)
    then show "distinct (sort_key (db_moment_tie db) ?xs)" by simp
    show "distinct (map (\<lambda>m. - m_created_at m) ?xs)"
      by (simp only: distinct_created_at assms)
  qed
  then show ?thesis by (simp add: findByUserId_rows)
qed

text \<open>A moment that is not of the user, or that is older than 20 moments of the user, does
  not change the rows read, whatever the ranks are.\<close>

lemma findByUserId_older:
  assumes h: "m_user_id m = userId \<longrightarrow>
      20 \<le> length (filter (\<lambda>x. m_user_id x = userId \<and> m_created_at m < m_created_at x) (db_moments db))"
  shows "momentOperations_findByUserId (db\<lparr>db_moments := db_moments db @ [m], db_moment_tie := tie\<rparr>)
           userId
           = momentOperations_findByUserId (db\<lparr>db_moment_tie := tie\<rparr>) userId"
proof (cases "m_user_id m = userId")
  case False
  then show ?thesis by (simp add: findByUserId_rows)
next
  case True
  let ?k = "\<lambda>x. - m_created_at x"
  let ?xs = "filter (\<lambda>x. m_user_id x = userId) (db_moments db)"
  let ?ys = "sort_key tie (?xs @ [m])"
  let ?zs = "sort_key tie ?xs"
  let ?A = "sort_key ?k (sort_key tie (filter (\<lambda>x. ?k x < ?k m) ?xs))"
  have "filter (\<lambda>x. ?k x < ?k m) ?xs
      = filter (\<lambda>x. m_user_id x = userId \<and> m_created_at m < m_created_at x) (db_moments db)"
    by (simp add: conj_commute cong: conj_cong)
  with h True have a: "20 \<le> length ?A" by simp
  have "sort_key ?k ?ys = sort_key ?k (filter (\<lambda>x. ?k x < ?k m) ?ys)
                           @ sort_key ?k (filter (\<lambda>x. \<not> ?k x < ?k m) ?ys)"
    by (rule sort_key_split)
  moreover have "filter (\<lambda>x. ?k x < ?k m) ?ys = sort_key tie (filter (\<lambda>x. ?k x < ?k m) ?xs)"
    by (simp only: filter_sort) simp
  ultimately have y: "take 20 (sort_key ?k ?ys) = take 20 ?A" using a by simp
  have "sort_key ?k ?zs = sort_key ?k (filter (\<lambda>x. ?k x < ?k m) ?zs)
                           @ sort_key ?k (filter (\<lambda>x. \<not> ?k x < ?k m) ?zs)"
    by (rule sort_key_split)
  moreover have "filter (\<lambda>x. ?k x < ?k m) ?zs = sort_key tie (filter (\<lambda>x. ?k x < ?k m) ?xs)"
    by (simp only: filter_sort)
  ultimately have z: "take 20 (sort_key ?k ?zs) = take 20 ?A" using a by simp
  from y z True show ?thesis by (simp add: findByUserId_rows)
qed

lemma findByUserId_tie:
  assumes "distinct (map m_created_at (filter (\<lambda>x. m_user_id x = userId) (db_moments db)))"
  shows "momentOperations_findByUserId (db\<lparr>db_moment_tie := tie\<rparr>) userId
           = momentOperations_findByUserId db userId"
proof -
  from assms have
    "distinct (map m_created_at
       (filter (\<lambda>x. m_user_id x = userId) (db_moments (db\<lparr>db_moment_tie := tie\<rparr>))))"
    by simp
  from findByUserId_distinct [OF this] findByUserId_distinct [OF assms]
  show ?thesis by simp
qed

text \<open>Whatever the ranks are, a moment that is older than 20 moments of the user is not among
  the rows read.\<close>

lemma findByUserId_never_older:
  assumes "20 \<le> length (filter (\<lambda>x. m_user_id x = userId \<and> m_created_at m < m_created_at x)
                          (db_moments db))"
  shows "m \<notin> set (momentOperations_findByUserId
                     (db\<lparr>db_moments := db_moments db @ [m], db_moment_tie := tie\<rparr>) userId)"
proof (cases "pg_text userId")
  case False
  then show ?thesis by (simp add: findByUserId_rows)
next
  case True
  let ?k = "\<lambda>x. - m_created_at x"
  let ?ys = "sort_key tie (filter (\<lambda>x. m_user_id x = userId) (db_moments db @ [m]))"
  let ?A = "sort_key ?k (filter (\<lambda>x. ?k x < ?k m) ?ys)"
  have "length (filter (\<lambda>x. ?k x < ?k m) ?ys)
      = length (filter (\<lambda>x. ?k x < ?k m) (filter (\<lambda>x. m_user_id x = userId) (db_moments db @ [m])))"
    by (simp only: filter_sort length_sort)
  also have "\<dots> = length (filter (\<lambda>x. m_user_id x = userId \<and> m_created_at m < m_created_at x)
                          (db_moments db))"
    by (simp add: conj_commute cong: conj_cong)
  finally have a: "20 \<le> length ?A" using assms by simp
  have "sort_key ?k ?ys = ?A @ sort_key ?k (filter (\<lambda>x. \<not> ?k x < ?k m) ?ys)"
    by (rule sort_key_split)
  with a have "take 20 (sort_key ?k ?ys) = take 20 ?A" by simp
  moreover have "set (take 20 ?A) \<subseteq> set ?A" by (rule set_take_subset)
  moreover have "m \<notin> set ?A" by simp
  ultimately show ?thesis using True by (auto simp: findByUserId_rows)
qed

lemma findByUserId_props:
  "length (momentOperations_findByUserId db userId) \<le> 20"
  "set (momentOperations_findByUserId db userId) \<subseteq> {m \<in> set (db_moments db). m_user_id m = userId}"
  "sorted_wrt (\<lambda>a b. m_created_at b \<le> m_created_at a) (momentOperations_findByUserId db userId)"
proof -
  let ?s = "sort_key (\<lambda>m. - m_created_at m)
              (sort_key (db_moment_tie db) (filter (\<lambda>m. m_user_id m = userId) (db_moments db)))"
  show "length (momentOperations_findByUserId db userId) \<le> 20"
    by (simp add: findByUserId_rows)
  have "set (take 20 ?s) \<subseteq> set ?s" by (rule set_take_subset)
  then show "set (momentOperations_findByUserId db userId)
      \<subseteq> {m \<in> set (db_moments db). m_user_id m = userId}"
    by (auto simp: findByUserId_rows)
  have "sorted (map (\<lambda>m. - m_created_at m) ?s)" by simp
  then have "sorted_wrt (\<lambda>a b. m_created_at b \<le> m_created_at a) ?s"
    by (simp add: sorted_map)
  then have "sorted_wrt (\<lambda>a b. m_created_at b \<le> m_created_at a) (take 20 ?s)"
    by (rule sorted_wrt_take)
  then show "sorted_wrt (\<lambda>a b. m_created_at b \<le> m_created_at a) (momentOperations_findByUserId db userId)"
    by (simp add: findByUserId_rows)
qed

lemma findByUserId_most_recent:
  assumes "m \<in> set (db_moments db)" "m_user_id m = userId" "pg_text userId"
    and "m \<notin> set (momentOperations_findByUserId db userId)"
  shows "length (momentOperations_findByUserId db userId) = 20"
    and "\<forall>r \<in> set (momentOperations_findByUserId db userId). m_created_at m \<le> m_created_at r"
proof -
  let ?s = "sort_key (\<lambda>m. - m_created_at m)
              (sort_key (db_moment_tie db) (filter (\<lambda>m. m_user_id m = userId) (db_moments db)))"
  have r: "momentOperations_findByUserId db userId = take 20 ?s"
    using assms(3) by (simp add: findByUserId_rows)
  have ms: "m \<in> set ?s" using assms(1,2) by simp
  have app: "?s = take 20 ?s @ drop 20 ?s" by simp
  from ms assms(4) have d: "m \<in> set (drop 20 ?s)"
    unfolding r by (metis Un_iff app set_append)
  then have "drop 20 ?s \<noteq> []" by auto
  then show "length (momentOperations_findByUserId db userId) = 20"
    unfolding r by simp
  have "sorted_wrt (\<lambda>a b. m_created_at b \<le> m_created_at a) ?s"
    using sorted_sort_key [of "\<lambda>m. - m_created_at m"] by (simp add: sorted_map)
  then have "sorted_wrt (\<lambda>a b. m_created_at b \<le> m_created_at a) (take 20 ?s @ drop 20 ?s)"
    by simp
  then have "\<forall>a \<in> set (take 20 ?s). \<forall>b \<in> set (drop 20 ?s). m_created_at b \<le> m_created_at a"
    unfolding sorted_wrt_append by blast
  with d show "\<forall>r \<in> set (momentOperations_findByUserId db userId). m_created_at m \<le> m_created_at r"
    unfolding r by blast
qed

lemma analyze_route_depends:
  assumes "db_users db' = db_users db" "db_soul_profiles db' = db_soul_profiles db"
    and "interactionOperations_findByUserId db' (the (an_userId req))
           = interactionOperations_findByUserId db (the (an_userId req))"
    and "momentOperations_findByUserId db' (the (an_userId req))
           = momentOperations_findByUserId db (the (an_userId req))"
  shows "an_response (analyze_route ai JSON_parse toLowerCase uuidv4 now req db')
           = an_response (analyze_route ai JSON_parse toLowerCase uuidv4 now req db)"
    and "db_soul_profiles (an_db (analyze_route ai JSON_parse toLowerCase uuidv4 now req db'))
           = db_soul_profiles (an_db (analyze_route ai JSON_parse toLowerCase uuidv4 now req db))"
    and "an_ran (analyze_route ai JSON_parse toLowerCase uuidv4 now req db')
           = an_ran (analyze_route ai JSON_parse toLowerCase uuidv4 now req db)"
proof -
  let ?u = "the (an_userId req)"
  note e_fi = assms(3)
  have e_fu: "userOperations_findById db' ?u = userOperations_findById db ?u"
    using assms(1) by (simp add: userOperations_findById_def)
  have e_fp: "soulProfileOperations_findByUserId db' ?u = soulProfileOperations_findByUserId db ?u"
    using assms(2) by (simp add: soulProfileOperations_findByUserId_def)
  have up: "map_sum id db_soul_profiles (soulProfileOperations_update now ?u pd db')
          = map_sum id db_soul_profiles (soulProfileOperations_update now ?u pd db)" for pd
    using assms(2) by (simp add: soulProfileOperations_update_def)
  have cr: "map_sum id db_soul_profiles (soulProfileOperations_create now i ?u pd db')
          = map_sum id db_soul_profiles (soulProfileOperations_create now i ?u pd db)" for pd i
    using assms(1,2) by (simp add: soulProfileOperations_create_def Let_def)
  have reach: "reaches_analysis req db' = reaches_analysis req db"
    using e_fu by (simp add: reaches_analysis_def)
  have e_an: "analysis_of ai JSON_parse req db' = analysis_of ai JSON_parse req db"
    using assms(4) e_fi by (simp add: analysis_of_def ai_reply_def)
  have e_ar: "ai_reply ai req db' = ai_reply ai req db"
    using assms(4) e_fi by (simp add: ai_reply_def)
  let ?pd = "fst (complete_profile toLowerCase (momentOperations_findByUserId db ?u)
                 (an_userData req) (analysis_of ai JSON_parse req db))"
  let ?cp = "complete_profile toLowerCase (momentOperations_findByUserId db ?u)
                 (an_userData req) (analysis_of ai JSON_parse req db)"
  let ?ok = "ok \<lparr>ad_userId = ?u, ad_profile = ?pd,
                  ad_momentCount = length (momentOperations_findByUserId db ?u),
                  ad_interactionCount = length (rows (interactionOperations_findByUserId db ?u)),
                  ad_aiEnhanced = (ai_reply ai req db \<noteq> None)\<rparr>"
  have all: "(an_response (analyze_route ai JSON_parse toLowerCase uuidv4 now req db')
           = an_response (analyze_route ai JSON_parse toLowerCase uuidv4 now req db))
      \<and> (db_soul_profiles (an_db (analyze_route ai JSON_parse toLowerCase uuidv4 now req db'))
           = db_soul_profiles (an_db (analyze_route ai JSON_parse toLowerCase uuidv4 now req db)))
      \<and> (an_ran (analyze_route ai JSON_parse toLowerCase uuidv4 now req db')
           = an_ran (analyze_route ai JSON_parse toLowerCase uuidv4 now req db))"
  proof (cases "reaches_analysis req db")
    case False
    then have f': "\<not> reaches_analysis req db'" using reach by simp
    from False f' e_fu assms(2) show ?thesis
      by (auto simp: reaches_analysis_def analyze_route_def Let_def fail_def
          split: option.splits sum.splits)
  next
    case True
    then have t': "reaches_analysis req db'" using reach by simp
    let ?found = "find (\<lambda>p. sp_user_id p = ?u) (db_soul_profiles db)"
    have R: "analyze_route ai JSON_parse toLowerCase uuidv4 now req db =
        (case (case ?found of
                 Some p \<Rightarrow> soulProfileOperations_update now ?u ?pd db
               | None \<Rightarrow> soulProfileOperations_create now (uuidv4 0) ?u ?pd db) of
           Inl e \<Rightarrow> \<lparr>an_response = fail 500, an_db = db, an_ran = snd ?cp\<rparr>
         | Inr d \<Rightarrow> \<lparr>an_response = ?ok, an_db = d, an_ran = snd ?cp\<rparr>)"
      using analyze_route_unfold [OF True]
      by (simp add: Let_def reaches_analysis_reads(4) [OF True]
          cong: sum.case_cong option.case_cong)
    have R': "analyze_route ai JSON_parse toLowerCase uuidv4 now req db' =
        (case (case ?found of
                 Some p \<Rightarrow> soulProfileOperations_update now ?u ?pd db'
               | None \<Rightarrow> soulProfileOperations_create now (uuidv4 0) ?u ?pd db') of
           Inl e \<Rightarrow> \<lparr>an_response = fail 500, an_db = db', an_ran = snd ?cp\<rparr>
         | Inr d \<Rightarrow> \<lparr>an_response = ?ok, an_db = d, an_ran = snd ?cp\<rparr>)"
      using analyze_route_unfold [OF t', of ai JSON_parse toLowerCase uuidv4 now]
      by (simp add: Let_def e_an e_ar e_fi e_fp assms(4) reaches_analysis_reads(4) [OF True]
          cong: sum.case_cong option.case_cong)
    show ?thesis
    proof (cases ?found)
      case None
      from cr [of "uuidv4 0" ?pd] show ?thesis
        unfolding R R' None
        by (cases "soulProfileOperations_create now (uuidv4 0) ?u ?pd db";
            cases "soulProfileOperations_create now (uuidv4 0) ?u ?pd db'")
           (simp_all add: assms(2))
    next
      case (Some p)
      from up [of ?pd] show ?thesis
        unfolding R R' Some
        by (cases "soulProfileOperations_update now ?u ?pd db";
            cases "soulProfileOperations_update now ?u ?pd db'")
           (simp_all add: assms(2))
    qed
  qed
  show "an_response (analyze_route ai JSON_parse toLowerCase uuidv4 now req db')
           = an_response (analyze_route ai JSON_parse toLowerCase uuidv4 now req db)"
    and "db_soul_profiles (an_db (analyze_route ai JSON_parse toLowerCase uuidv4 now req db'))
           = db_soul_profiles (an_db (analyze_route ai JSON_parse toLowerCase uuidv4 now req db))"
    and "an_ran (analyze_route ai JSON_parse toLowerCase uuidv4 now req db')
           = an_ran (analyze_route ai JSON_parse toLowerCase uuidv4 now req db)"
    using all by blast+
qed

text \<open>
  Claim C9. \<open>momentOperations.findByUserId\<close>, called without a limit, runs the query with the
  limit 20: it returns at most 20 rows, all of the user, ordered by \<open>created_at\<close> descending,
  and no moment of the user that it leaves out is newer than one that it returns. POST
  /api/profile/analyze reads the moments with this call only: two databases that agree on
  the users, the soul profiles, the interactions read and the moments read give the same
  prompt, the same answer and the same soul profiles. The query does not say which of the
  moments with the same \<open>created_at\<close> come first; in that the rows read depend on the ranks of
  the database. A further moment that is older than 20 moments of the user is never among
  the rows read, and whatever the ranks are after it has been added, the rows read, the
  answer and the profile stored are those without it under the same ranks. When the moments
  of the user have distinct \<open>created_at\<close>, the ranks have no effect either.
\<close>

theorem analyze_reads_latest_moments:
  "(pg_text userId \<longrightarrow>
      momentOperations_findByUserId_limit db userId 20 = Inr (momentOperations_findByUserId db userId))
   \<and> length (momentOperations_findByUserId db userId) \<le> 20
   \<and> set (momentOperations_findByUserId db userId) \<subseteq> {m \<in> set (db_moments db). m_user_id m = userId}
   \<and> sorted_wrt (\<lambda>a b. m_created_at b \<le> m_created_at a) (momentOperations_findByUserId db userId)
   \<and> (\<forall>x \<in> set (db_moments db).
         m_user_id x = userId \<and> pg_text userId
         \<and> x \<notin> set (momentOperations_findByUserId db userId) \<longrightarrow>
         length (momentOperations_findByUserId db userId) = 20
         \<and> (\<forall>r \<in> set (momentOperations_findByUserId db userId). m_created_at x \<le> m_created_at r))
   \<and> (db_users db' = db_users db \<and> db_soul_profiles db' = db_soul_profiles db
        \<and> interactionOperations_findByUserId db' (the (an_userId req))
             = interactionOperations_findByUserId db (the (an_userId req))
        \<and> momentOperations_findByUserId db' (the (an_userId req))
             = momentOperations_findByUserId db (the (an_userId req)) \<longrightarrow>
        analyze_prompt (momentOperations_findByUserId db' (the (an_userId req)))
            (rows (interactionOperations_findByUserId db' (the (an_userId req))))
          = analyze_prompt (momentOperations_findByUserId db (the (an_userId req)))
              (rows (interactionOperations_findByUserId db (the (an_userId req))))
        \<and> an_response (analyze_route ai JSON_parse toLowerCase uuidv4 now req db')
             = an_response (analyze_route ai JSON_parse toLowerCase uuidv4 now req db)
        \<and> db_soul_profiles (an_db (analyze_route ai JSON_parse toLowerCase uuidv4 now req db'))
             = db_soul_profiles (an_db (analyze_route ai JSON_parse toLowerCase uuidv4 now req db)))
   \<and> (20 \<le> length (filter (\<lambda>x. m_user_id x = userId \<and> m_created_at m < m_created_at x)
                       (db_moments db)) \<longrightarrow>
        m \<notin> set (momentOperations_findByUserId
                    (db\<lparr>db_moments := db_moments db @ [m], db_moment_tie := tie\<rparr>) userId))
   \<and> ((m_user_id m = the (an_userId req) \<longrightarrow>
          20 \<le> length (filter (\<lambda>x. m_user_id x = the (an_userId req) \<and> m_created_at m < m_created_at x)
                         (db_moments db))) \<longrightarrow>
        momentOperations_findByUserId (db\<lparr>db_moments := db_moments db @ [m], db_moment_tie := tie\<rparr>)
            (the (an_userId req))
          = momentOperations_findByUserId (db\<lparr>db_moment_tie := tie\<rparr>) (the (an_userId req))
        \<and> an_response (analyze_route ai JSON_parse toLowerCase uuidv4 now req
                         (db\<lparr>db_moments := db_moments db @ [m], db_moment_tie := tie\<rparr>))
             = an_response (analyze_route ai JSON_parse toLowerCase uuidv4 now req
                              (db\<lparr>db_moment_tie := tie\<rparr>))
        \<and> db_soul_profiles (an_db (analyze_route ai JSON_parse toLowerCase uuidv4 now req
                                      (db\<lparr>db_moments := db_moments db @ [m], db_moment_tie := tie\<rparr>)))
             = db_soul_profiles (an_db (analyze_route ai JSON_parse toLowerCase uuidv4 now req
                                          (db\<lparr>db_moment_tie := tie\<rparr>))))
   \<and> (distinct (map m_created_at
                  (filter (\<lambda>x. m_user_id x = the (an_userId req)) (db_moments db))) \<longrightarrow>
        momentOperations_findByUserId (db\<lparr>db_moment_tie := tie\<rparr>) (the (an_userId req))
          = momentOperations_findByUserId db (the (an_userId req))
        \<and> an_response (analyze_route ai JSON_parse toLowerCase uuidv4 now req
                         (db\<lparr>db_moment_tie := tie\<rparr>))
             = an_response (analyze_route ai JSON_parse toLowerCase uuidv4 now req db)
        \<and> db_soul_profiles (an_db (analyze_route ai JSON_parse toLowerCase uuidv4 now req
                                      (db\<lparr>db_moment_tie := tie\<rparr>)))
             = db_soul_profiles (an_db (analyze_route ai JSON_parse toLowerCase uuidv4 now req db)))"
proof -
  let ?u = "the (an_userId req)"
  have c1: "pg_text userId \<longrightarrow>
      momentOperations_findByUserId_limit db userId 20 = Inr (momentOperations_findByUserId db userId)"
    by (simp add: findByUserId_call)
  have c5: "\<forall>x \<in> set (db_moments db).
         m_user_id x = userId \<and> pg_text userId
         \<and> x \<notin> set (momentOperations_findByUserId db userId) \<longrightarrow>
         length (momentOperations_findByUserId db userId) = 20
         \<and> (\<forall>r \<in> set (momentOperations_findByUserId db userId). m_created_at x \<le> m_created_at r)"
    using findByUserId_most_recent by blast
  have c6: "db_users db' = db_users db \<and> db_soul_profiles db' = db_soul_profiles db
        \<and> interactionOperations_findByUserId db' ?u = interactionOperations_findByUserId db ?u
        \<and> momentOperations_findByUserId db' ?u = momentOperations_findByUserId db ?u \<longrightarrow>
        analyze_prompt (momentOperations_findByUserId db' ?u)
            (rows (interactionOperations_findByUserId db' ?u))
          = analyze_prompt (momentOperations_findByUserId db ?u)
              (rows (interactionOperations_findByUserId db ?u))
        \<and> an_response (analyze_route ai JSON_parse toLowerCase uuidv4 now req db')
             = an_response (analyze_route ai JSON_parse toLowerCase uuidv4 now req db)
        \<and> db_soul_profiles (an_db (analyze_route ai JSON_parse toLowerCase uuidv4 now req db'))
             = db_soul_profiles (an_db (analyze_route ai JSON_parse toLowerCase uuidv4 now req db))"
  proof (intro impI, elim conjE)
    assume a: "db_users db' = db_users db" "db_soul_profiles db' = db_soul_profiles db"
      "interactionOperations_findByUserId db' ?u = interactionOperations_findByUserId db ?u"
      "momentOperations_findByUserId db' ?u = momentOperations_findByUserId db ?u"
    from a(3,4) have p: "analyze_prompt (momentOperations_findByUserId db' ?u)
            (rows (interactionOperations_findByUserId db' ?u))
          = analyze_prompt (momentOperations_findByUserId db ?u)
              (rows (interactionOperations_findByUserId db ?u))" by simp
    from p analyze_route_depends(1,2) [OF a, of ai JSON_parse toLowerCase uuidv4 now]
    show "analyze_prompt (momentOperations_findByUserId db' ?u)
            (rows (interactionOperations_findByUserId db' ?u))
          = analyze_prompt (momentOperations_findByUserId db ?u)
              (rows (interactionOperations_findByUserId db ?u))
        \<and> an_response (analyze_route ai JSON_parse toLowerCase uuidv4 now req db')
             = an_response (analyze_route ai JSON_parse toLowerCase uuidv4 now req db)
        \<and> db_soul_profiles (an_db (analyze_route ai JSON_parse toLowerCase uuidv4 now req db'))
             = db_soul_profiles (an_db (analyze_route ai JSON_parse toLowerCase uuidv4 now req db))"
      by (intro conjI)
  qed
  have c7: "20 \<le> length (filter (\<lambda>x. m_user_id x = userId \<and> m_created_at m < m_created_at x)
                       (db_moments db)) \<longrightarrow>
        m \<notin> set (momentOperations_findByUserId
                    (db\<lparr>db_moments := db_moments db @ [m], db_moment_tie := tie\<rparr>) userId)"
    using findByUserId_never_older by blast
  have c8: "(m_user_id m = ?u \<longrightarrow>
          20 \<le> length (filter (\<lambda>x. m_user_id x = ?u \<and> m_created_at m < m_created_at x)
                         (db_moments db))) \<longrightarrow>
        momentOperations_findByUserId (db\<lparr>db_moments := db_moments db @ [m], db_moment_tie := tie\<rparr>) ?u
          = momentOperations_findByUserId (db\<lparr>db_moment_tie := tie\<rparr>) ?u
        \<and> an_response (analyze_route ai JSON_parse toLowerCase uuidv4 now req
                         (db\<lparr>db_moments := db_moments db @ [m], db_moment_tie := tie\<rparr>))
             = an_response (analyze_route ai JSON_parse toLowerCase uuidv4 now req
                              (db\<lparr>db_moment_tie := tie\<rparr>))
        \<and> db_soul_profiles (an_db (analyze_route ai JSON_parse toLowerCase uuidv4 now req
                                      (db\<lparr>db_moments := db_moments db @ [m], db_moment_tie := tie\<rparr>)))
             = db_soul_profiles (an_db (analyze_route ai JSON_parse toLowerCase uuidv4 now req
                                          (db\<lparr>db_moment_tie := tie\<rparr>)))"
  proof
    assume h: "m_user_id m = ?u \<longrightarrow>
          20 \<le> length (filter (\<lambda>x. m_user_id x = ?u \<and> m_created_at m < m_created_at x)
                         (db_moments db))"
    let ?db' = "db\<lparr>db_moments := db_moments db @ [m], db_moment_tie := tie\<rparr>"
    let ?db = "db\<lparr>db_moment_tie := tie\<rparr>"
    have e: "momentOperations_findByUserId ?db' ?u = momentOperations_findByUserId ?db ?u"
      by (rule findByUserId_older [OF h])
    have u: "db_users ?db' = db_users ?db" "db_soul_profiles ?db' = db_soul_profiles ?db"
      "interactionOperations_findByUserId ?db' ?u = interactionOperations_findByUserId ?db ?u"
      by (simp_all add: interactionOperations_findByUserId_def)
    from e analyze_route_depends(1,2) [OF u e, of ai JSON_parse toLowerCase uuidv4 now]
    show "momentOperations_findByUserId ?db' ?u = momentOperations_findByUserId ?db ?u
        \<and> an_response (analyze_route ai JSON_parse toLowerCase uuidv4 now req ?db')
             = an_response (analyze_route ai JSON_parse toLowerCase uuidv4 now req ?db)
        \<and> db_soul_profiles (an_db (analyze_route ai JSON_parse toLowerCase uuidv4 now req ?db'))
             = db_soul_profiles (an_db (analyze_route ai JSON_parse toLowerCase uuidv4 now req ?db))"
      by (intro conjI)
  qed
  have c9: "distinct (map m_created_at (filter (\<lambda>x. m_user_id x = ?u) (db_moments db))) \<longrightarrow>
        momentOperations_findByUserId (db\<lparr>db_moment_tie := tie\<rparr>) ?u
          = momentOperations_findByUserId db ?u
        \<and> an_response (analyze_route ai JSON_parse toLowerCase uuidv4 now req
                         (db\<lparr>db_moment_tie := tie\<rparr>))
             = an_response (analyze_route ai JSON_parse toLowerCase uuidv4 now req db)
        \<and> db_soul_profiles (an_db (analyze_route ai JSON_parse toLowerCase uuidv4 now req
                                      (db\<lparr>db_moment_tie := tie\<rparr>)))
             = db_soul_profiles (an_db (analyze_route ai JSON_parse toLowerCase uuidv4 now req db))"
  proof
    assume d: "distinct (map m_created_at (filter (\<lambda>x. m_user_id x = ?u) (db_moments db)))"
    let ?db' = "db\<lparr>db_moment_tie := tie\<rparr>"
    have e: "momentOperations_findByUserId ?db' ?u = momentOperations_findByUserId db ?u"
      by (rule findByUserId_tie [OF d])
    have u: "db_users ?db' = db_users db" "db_soul_profiles ?db' = db_soul_profiles db"
      "interactionOperations_findByUserId ?db' ?u = interactionOperations_findByUserId db ?u"
      by (simp_all add: interactionOperations_findByUserId_def)
    from e analyze_route_depends(1,2) [OF u e, of ai JSON_parse toLowerCase uuidv4 now]
    show "momentOperations_findByUserId ?db' ?u = momentOperations_findByUserId db ?u
        \<and> an_response (analyze_route ai JSON_parse toLowerCase uuidv4 now req ?db')
             = an_response (analyze_route ai JSON_parse toLowerCase uuidv4 now req db)
        \<and> db_soul_profiles (an_db (analyze_route ai JSON_parse toLowerCase uuidv4 now req ?db'))
             = db_soul_profiles (an_db (analyze_route ai JSON_parse toLowerCase uuidv4 now req db))"
      by (intro conjI)
  qed
  show ?thesis
    using c1 findByUserId_props [of db userId] c5 c6 c7 c8 c9 by (intro conjI)
qed

text \<open>The travel moment of time 0 is added to the 20 moments of \<open>tea_db\<close>, and the ranks
  change to the creation times. The endpoint is down, so the profile comes from the
  keywords: the travel moment is not read, and the answer is the one without it.\<close>

theorem analyze_reads_latest_moments_witness:
  "momentOperations_findByUserId_limit tea_db (ascii ''u1'') 20
     = Inr (momentOperations_findByUserId tea_db (ascii ''u1''))
   \<and> old_moment \<notin> set (momentOperations_findByUserId
        (tea_db\<lparr>db_moments := db_moments tea_db @ [old_moment], db_moment_tie := m_created_at\<rparr>)
        (ascii ''u1''))
   \<and> momentOperations_findByUserId
        (tea_db\<lparr>db_moments := db_moments tea_db @ [old_moment], db_moment_tie := m_created_at\<rparr>)
        (ascii ''u1'')
      = momentOperations_findByUserId tea_db (ascii ''u1'')
   \<and> an_response (analyze_route (\<lambda>p. None) (\<lambda>s. None) (\<lambda>s. s) (\<lambda>k. ascii ''p1'') 30
        \<lparr>an_userId = Some (ascii ''u1''), an_userData = None\<rparr>
        (tea_db\<lparr>db_moments := db_moments tea_db @ [old_moment], db_moment_tie := m_created_at\<rparr>))
      = an_response (analyze_route (\<lambda>p. None) (\<lambda>s. None) (\<lambda>s. s) (\<lambda>k. ascii ''p1'') 30
          \<lparr>an_userId = Some (ascii ''u1''), an_userData = None\<rparr> tea_db)"
proof -
  let ?req = "\<lparr>an_userId = Some (ascii ''u1''), an_userData = None\<rparr>"
  let ?u = "ascii ''u1''"
  note T = analyze_reads_latest_moments [of ?u tea_db _ ?req "\<lambda>p. None" "\<lambda>s. None" "\<lambda>s. s"
      "\<lambda>k. ascii ''p1''" 30 old_moment m_created_at]
  have u: "the (an_userId ?req) = ?u" by simp
  have p: "pg_text ?u" by (simp add: pg_text_def ascii_def)
  have f: "filter (\<lambda>x. m_user_id x = ?u \<and> m_created_at old_moment < m_created_at x) (db_moments tea_db)
      = db_moments tea_db"
    by (simp add: tea_db_def old_moment_def filter_map o_def)
  have "length (db_moments tea_db) = 20" by (simp add: tea_db_def)
  with f have h: "20 \<le> length (filter (\<lambda>x. m_user_id x = ?u \<and> m_created_at old_moment < m_created_at x)
                         (db_moments tea_db))"
    by simp
  have "map m_created_at (filter (\<lambda>x. m_user_id x = ?u) (db_moments tea_db))
      = map (\<lambda>i. int i + 1) [0..<20]"
    by (simp add: tea_db_def filter_map o_def)
  moreover have "distinct (map (\<lambda>i. int i + 1) [0..<20])"
    by (simp only: distinct_map) (simp add: inj_on_def)
  ultimately have d: "distinct (map m_created_at (filter (\<lambda>x. m_user_id x = ?u) (db_moments tea_db)))"
    by simp
  from T [THEN conjunct1] p have c1: "momentOperations_findByUserId_limit tea_db ?u 20
     = Inr (momentOperations_findByUserId tea_db ?u)" by simp
  from T [THEN conjunct2, THEN conjunct2, THEN conjunct2, THEN conjunct2, THEN conjunct2,
      THEN conjunct2, THEN conjunct1] h
  have c7: "old_moment \<notin> set (momentOperations_findByUserId
        (tea_db\<lparr>db_moments := db_moments tea_db @ [old_moment], db_moment_tie := m_created_at\<rparr>) ?u)"
    by simp
  from T [THEN conjunct2, THEN conjunct2, THEN conjunct2, THEN conjunct2, THEN conjunct2,
      THEN conjunct2, THEN conjunct2, THEN conjunct1] h
  have c8: "momentOperations_findByUserId
        (tea_db\<lparr>db_moments := db_moments tea_db @ [old_moment], db_moment_tie := m_created_at\<rparr>) ?u
      = momentOperations_findByUserId (tea_db\<lparr>db_moment_tie := m_created_at\<rparr>) ?u
    \<and> an_response (analyze_route (\<lambda>p. None) (\<lambda>s. None) (\<lambda>s. s) (\<lambda>k. ascii ''p1'') 30 ?req
        (tea_db\<lparr>db_moments := db_moments tea_db @ [old_moment], db_moment_tie := m_created_at\<rparr>))
      = an_response (analyze_route (\<lambda>p. None) (\<lambda>s. None) (\<lambda>s. s) (\<lambda>k. ascii ''p1'') 30 ?req
          (tea_db\<lparr>db_moment_tie := m_created_at\<rparr>))"
    by simp
  from T [THEN conjunct2, THEN conjunct2, THEN conjunct2, THEN conjunct2, THEN conjunct2,
      THEN conjunct2, THEN conjunct2, THEN conjunct2] d
  have c9: "momentOperations_findByUserId (tea_db\<lparr>db_moment_tie := m_created_at\<rparr>) ?u
      = momentOperations_findByUserId tea_db ?u
    \<and> an_response (analyze_route (\<lambda>p. None) (\<lambda>s. None) (\<lambda>s. s) (\<lambda>k. ascii ''p1'') 30 ?req
          (tea_db\<lparr>db_moment_tie := m_created_at\<rparr>))
      = an_response (analyze_route (\<lambda>p. None) (\<lambda>s. None) (\<lambda>s. s) (\<lambda>k. ascii ''p1'') 30 ?req tea_db)"
    by simp
  from c1 c7 c8 c9 show ?thesis by simp
qed
section \<open>When the keyword functions run\<close>

lemma read_ai_reply_unparsed:
  "\<not> ai_parsed ai JSON_parse req db \<Longrightarrow> analysis_of ai JSON_parse req db = initial_analysis"
  by (auto simp: ai_parsed_def analysis_of_def read_ai_reply_def match_object_def
      split: option.splits)

lemma read_ai_reply_parsed:
  assumes "ai_reply ai req db = Some r" "match_object r = Some m" "JSON_parse m = Some a"
  shows "an_interests (analysis_of ai JSON_parse req db) = or_empty (ai_interests a)"
    and "an_values (analysis_of ai JSON_parse req db) = or_empty (ai_values a)"
    and "an_personalityVector (analysis_of ai JSON_parse req db) = or_empty (ai_personalityVector a)"
proof -
  have "r \<noteq> []" using assms(2) by (auto simp: match_object_def)
  then show "an_interests (analysis_of ai JSON_parse req db) = or_empty (ai_interests a)"
    and "an_values (analysis_of ai JSON_parse req db) = or_empty (ai_values a)"
    and "an_personalityVector (analysis_of ai JSON_parse req db) = or_empty (ai_personalityVector a)"
    using assms by (simp_all add: analysis_of_def read_ai_reply_def)
qed

lemma ran_members:
  "ExtractInterests \<in> set (snd (complete_profile toLowerCase ms userData a)) \<longleftrightarrow> an_interests a = []"
  "AnalyzeValues \<in> set (snd (complete_profile toLowerCase ms userData a)) \<longleftrightarrow> an_values a = []"
  "GeneratePersonalityVector \<in> set (snd (complete_profile toLowerCase ms userData a))
     \<longleftrightarrow> an_personalityVector a = []"
  "set (snd (complete_profile toLowerCase ms userData a))
     \<subseteq> {ExtractInterests, AnalyzeValues, GeneratePersonalityVector}"
  by (auto simp: complete_profile_ran)

text \<open>
  Claim C1, as amended. In POST /api/profile/analyze each keyword function stands behind the
  test of its own variable: \<open>extractInterests\<close>, \<open>analyzeValues\<close> and
  \<open>generatePersonalityVector\<close> run exactly when the handler reaches the analysis and the
  interests, the values, respectively the personality vector are empty after the reply of
  the model has been read. That is so whenever the AI call failed or its reply held no
  object that \<open>JSON.parse\<close> accepts, when all three run; it is also so for a parsed reply
  in which the member is absent or empty. The handler runs no other keyword function.
  POST /api/moments/create runs \<open>analyzeSentiment\<close> and \<open>extractKeywords\<close> on every request
  that carries \<open>userId\<close> and \<open>content\<close>.
\<close>

theorem keyword_functions_per_field:
  "(ExtractInterests \<in> set (an_ran (analyze_route ai JSON_parse toLowerCase uuidv4 now req db))
      \<longleftrightarrow> reaches_analysis req db \<and> an_interests (analysis_of ai JSON_parse req db) = [])
   \<and> (AnalyzeValues \<in> set (an_ran (analyze_route ai JSON_parse toLowerCase uuidv4 now req db))
      \<longleftrightarrow> reaches_analysis req db \<and> an_values (analysis_of ai JSON_parse req db) = [])
   \<and> (GeneratePersonalityVector \<in> set (an_ran (analyze_route ai JSON_parse toLowerCase uuidv4 now req db))
      \<longleftrightarrow> reaches_analysis req db \<and> an_personalityVector (analysis_of ai JSON_parse req db) = [])
   \<and> set (an_ran (analyze_route ai JSON_parse toLowerCase uuidv4 now req db))
        \<subseteq> {ExtractInterests, AnalyzeValues, GeneratePersonalityVector}
   \<and> (reaches_analysis req db \<and> \<not> ai_parsed ai JSON_parse req db \<longrightarrow>
        an_ran (analyze_route ai JSON_parse toLowerCase uuidv4 now req db)
          = [ExtractInterests, AnalyzeValues, GeneratePersonalityVector])
   \<and> (\<forall>r m a. ai_reply ai req db = Some r \<and> match_object r = Some m \<and> JSON_parse m = Some a \<longrightarrow>
        an_interests (analysis_of ai JSON_parse req db) = or_empty (ai_interests a)
        \<and> an_values (analysis_of ai JSON_parse req db) = or_empty (ai_values a)
        \<and> an_personalityVector (analysis_of ai JSON_parse req db) = or_empty (ai_personalityVector a))
   \<and> cm_ran (create_moment_route uuidv4 now creq db)
        = (if falsy (cm_userId creq) \<or> falsy (cm_content creq) then []
           else [AnalyzeSentiment, ExtractKeywords])"
proof -
  let ?R = "analyze_route ai JSON_parse toLowerCase uuidv4 now req db"
  note ran = analyze_route_ran [of ai JSON_parse toLowerCase uuidv4 now req db]
  have c1: "ExtractInterests \<in> set (an_ran ?R)
      \<longleftrightarrow> reaches_analysis req db \<and> an_interests (analysis_of ai JSON_parse req db) = []"
    unfolding ran by (simp add: ran_members(1))
  have c2: "AnalyzeValues \<in> set (an_ran ?R)
      \<longleftrightarrow> reaches_analysis req db \<and> an_values (analysis_of ai JSON_parse req db) = []"
    unfolding ran by (simp add: ran_members(2))
  have c3: "GeneratePersonalityVector \<in> set (an_ran ?R)
      \<longleftrightarrow> reaches_analysis req db \<and> an_personalityVector (analysis_of ai JSON_parse req db) = []"
    unfolding ran by (simp add: ran_members(3))
  have c4: "set (an_ran ?R) \<subseteq> {ExtractInterests, AnalyzeValues, GeneratePersonalityVector}"
    unfolding ran using ran_members(4) [of toLowerCase "momentOperations_findByUserId db (the (an_userId req))"
        "an_userData req" "analysis_of ai JSON_parse req db"] by auto
  have c5: "reaches_analysis req db \<and> \<not> ai_parsed ai JSON_parse req db \<longrightarrow>
        an_ran ?R = [ExtractInterests, AnalyzeValues, GeneratePersonalityVector]"
    unfolding ran using read_ai_reply_unparsed [of ai JSON_parse req db]
    by (auto simp: complete_profile_ran initial_analysis_def)
  have c6: "\<forall>r m a. ai_reply ai req db = Some r \<and> match_object r = Some m \<and> JSON_parse m = Some a \<longrightarrow>
        an_interests (analysis_of ai JSON_parse req db) = or_empty (ai_interests a)
        \<and> an_values (analysis_of ai JSON_parse req db) = or_empty (ai_values a)
        \<and> an_personalityVector (analysis_of ai JSON_parse req db) = or_empty (ai_personalityVector a)"
  proof (intro allI impI, elim conjE)
    fix r m a
    assume h: "ai_reply ai req db = Some r" "match_object r = Some m" "JSON_parse m = Some a"
    show "an_interests (analysis_of ai JSON_parse req db) = or_empty (ai_interests a)
        \<and> an_values (analysis_of ai JSON_parse req db) = or_empty (ai_values a)
        \<and> an_personalityVector (analysis_of ai JSON_parse req db) = or_empty (ai_personalityVector a)"
      using read_ai_reply_parsed [of ai req db r m JSON_parse a, OF h] by (intro conjI)
  qed
  have c7: "cm_ran (create_moment_route uuidv4 now creq db)
        = (if falsy (cm_userId creq) \<or> falsy (cm_content creq) then []
           else [AnalyzeSentiment, ExtractKeywords])"
    by (simp add: create_moment_route_def Let_def split: sum.splits)
  show ?thesis using c1 c2 c3 c4 c5 c6 c7 by (intro conjI)
qed

text \<open>
  Claim C1, as stated, fails. The reply of the model is \<open>{}\<close>, which \<open>JSON.parse\<close> accepts:
  the AI call succeeded with parsable output, and all three keyword functions of the
  analysis run. And the creation of a moment runs \<open>analyzeSentiment\<close> and
  \<open>extractKeywords\<close> though no AI call has failed: the handler makes none.
\<close>

theorem keyword_functions_fallback_only_counterexample:
  "ai_parsed (\<lambda>p. Some (ascii ''{}''))
      (\<lambda>s. if s = ascii ''{}'' then Some \<lparr>ai_interests = None, ai_values = None, ai_communicationStyle = None,
          ai_emotionTendency = None, ai_personalityVector = None, ai_summary = None\<rparr> else None)
      \<lparr>an_userId = Some (ascii ''u1''), an_userData = None\<rparr>
      \<lparr>db_users = [\<lparr>u_id = ascii ''u1'', u_username = ascii ''ann'', u_password = ascii ''h'',
                    u_avatar = [], u_bio = [], u_created_at = 1, u_updated_at = 1\<rparr>],
        db_soul_profiles = [], db_moments = [], db_interactions = [],
        db_moment_tie = (\<lambda>m. 0), db_interaction_tie = (\<lambda>i. 0)\<rparr>
   \<and> an_ran (analyze_route (\<lambda>p. Some (ascii ''{}''))
        (\<lambda>s. if s = ascii ''{}'' then Some \<lparr>ai_interests = None, ai_values = None, ai_communicationStyle = None,
          ai_emotionTendency = None, ai_personalityVector = None, ai_summary = None\<rparr> else None)
        (\<lambda>s. s) (\<lambda>k. ascii ''p1'') 9
        \<lparr>an_userId = Some (ascii ''u1''), an_userData = None\<rparr>
        \<lparr>db_users = [\<lparr>u_id = ascii ''u1'', u_username = ascii ''ann'', u_password = ascii ''h'',
                    u_avatar = [], u_bio = [], u_created_at = 1, u_updated_at = 1\<rparr>],
        db_soul_profiles = [], db_moments = [], db_interactions = [],
        db_moment_tie = (\<lambda>m. 0), db_interaction_tie = (\<lambda>i. 0)\<rparr>)
      = [ExtractInterests, AnalyzeValues, GeneratePersonalityVector]
   \<and> cm_ran (create_moment_route (\<lambda>k. ascii ''m1'') 9
        \<lparr>cm_userId = Some (ascii ''u1''), cm_content = Some (ascii ''tea''), cm_contentType = None\<rparr>
        \<lparr>db_users = [\<lparr>u_id = ascii ''u1'', u_username = ascii ''ann'', u_password = ascii ''h'',
                    u_avatar = [], u_bio = [], u_created_at = 1, u_updated_at = 1\<rparr>],
        db_soul_profiles = [], db_moments = [], db_interactions = [],
        db_moment_tie = (\<lambda>m. 0), db_interaction_tie = (\<lambda>i. 0)\<rparr>)
      = [AnalyzeSentiment, ExtractKeywords]"
proof -
  let ?ai = "(\<lambda>p. Some (ascii ''{}'')) :: jsstring \<Rightarrow> jsstring option"
  let ?parse = "(\<lambda>s. if s = ascii ''{}'' then Some \<lparr>ai_interests = None, ai_values = None, ai_communicationStyle = None,
          ai_emotionTendency = None, ai_personalityVector = None, ai_summary = None\<rparr> else None)"
  let ?req = "\<lparr>an_userId = Some (ascii ''u1''), an_userData = None\<rparr>"
  let ?db = "\<lparr>db_users = [\<lparr>u_id = ascii ''u1'', u_username = ascii ''ann'', u_password = ascii ''h'',
                    u_avatar = [], u_bio = [], u_created_at = 1, u_updated_at = 1\<rparr>],
        db_soul_profiles = [], db_moments = [], db_interactions = [],
        db_moment_tie = (\<lambda>m. 0), db_interaction_tie = (\<lambda>i. 0)\<rparr>"
  have m: "match_object (ascii ''{}'') = Some (ascii ''{}'')"
    by (simp add: match_object_def match_at_def ascii_def)
  have r: "ai_reply ?ai ?req ?db = Some (ascii ''{}'')"
    by (simp add: ai_reply_def callAIModel_profile_def)
  have p: "ai_parsed ?ai ?parse ?req ?db"
    unfolding ai_parsed_def using r m by simp
  have reach: "reaches_analysis ?req ?db"
    by (simp add: reaches_analysis_def falsy_def userOperations_findById_def pg_text_def ascii_def)
  have a: "analysis_of ?ai ?parse ?req ?db = initial_analysis"
    unfolding analysis_of_def r
    by (simp add: read_ai_reply_def m or_empty_def or_default_def initial_analysis_def)
  have ran: "an_ran (analyze_route ?ai ?parse (\<lambda>s. s) (\<lambda>k. ascii ''p1'') 9 ?req ?db)
      = [ExtractInterests, AnalyzeValues, GeneratePersonalityVector]"
    unfolding analyze_route_ran a using reach
    by (simp add: complete_profile_ran initial_analysis_def)
  have c: "cm_ran (create_moment_route (\<lambda>k. ascii ''m1'') 9
        \<lparr>cm_userId = Some (ascii ''u1''), cm_content = Some (ascii ''tea''), cm_contentType = None\<rparr> ?db)
      = [AnalyzeSentiment, ExtractKeywords]"
    by (simp add: create_moment_route_def falsy_def Let_def ascii_def split: sum.splits)
  show ?thesis using p ran c by (intro conjI)
qed

text \<open>The same reply \<open>{}\<close>, and another request whose model call fails.\<close>

theorem keyword_functions_per_field_witness:
  "ExtractInterests \<in> set (an_ran (analyze_route (\<lambda>p. Some (ascii ''{}''))
        (\<lambda>s. if s = ascii ''{}'' then Some \<lparr>ai_interests = None, ai_values = None, ai_communicationStyle = None,
          ai_emotionTendency = None, ai_personalityVector = None, ai_summary = None\<rparr> else None)
        (\<lambda>s. s) (\<lambda>k. ascii ''p1'') 9
        \<lparr>an_userId = Some (ascii ''u1''), an_userData = None\<rparr>
        \<lparr>db_users = [\<lparr>u_id = ascii ''u1'', u_username = ascii ''ann'', u_password = ascii ''h'',
                    u_avatar = [], u_bio = [], u_created_at = 1, u_updated_at = 1\<rparr>],
        db_soul_profiles = [], db_moments = [], db_interactions = [],
        db_moment_tie = (\<lambda>m. 0), db_interaction_tie = (\<lambda>i. 0)\<rparr>))
   \<and> an_ran (analyze_route (\<lambda>p. None)
        (\<lambda>s. if s = ascii ''{}'' then Some \<lparr>ai_interests = None, ai_values = None, ai_communicationStyle = None,
          ai_emotionTendency = None, ai_personalityVector = None, ai_summary = None\<rparr> else None)
        (\<lambda>s. s) (\<lambda>k. ascii ''p1'') 9
        \<lparr>an_userId = Some (ascii ''u1''), an_userData = None\<rparr>
        \<lparr>db_users = [\<lparr>u_id = ascii ''u1'', u_username = ascii ''ann'', u_password = ascii ''h'',
                    u_avatar = [], u_bio = [], u_created_at = 1, u_updated_at = 1\<rparr>],
        db_soul_profiles = [], db_moments = [], db_interactions = [],
        db_moment_tie = (\<lambda>m. 0), db_interaction_tie = (\<lambda>i. 0)\<rparr>)
      = [ExtractInterests, AnalyzeValues, GeneratePersonalityVector]"
proof -
  let ?ai = "(\<lambda>p. Some (ascii ''{}'')) :: jsstring \<Rightarrow> jsstring option"
  let ?down = "(\<lambda>p. None) :: jsstring \<Rightarrow> jsstring option"
  let ?parse = "(\<lambda>s. if s = ascii ''{}'' then Some \<lparr>ai_interests = None, ai_values = None, ai_communicationStyle = None,
          ai_emotionTendency = None, ai_personalityVector = None, ai_summary = None\<rparr> else None)"
  let ?req = "\<lparr>an_userId = Some (ascii ''u1''), an_userData = None\<rparr>"
  let ?db = "\<lparr>db_users = [\<lparr>u_id = ascii ''u1'', u_username = ascii ''ann'', u_password = ascii ''h'',
                    u_avatar = [], u_bio = [], u_created_at = 1, u_updated_at = 1\<rparr>],
        db_soul_profiles = [], db_moments = [], db_interactions = [],
        db_moment_tie = (\<lambda>m. 0), db_interaction_tie = (\<lambda>i. 0)\<rparr>"
  have m: "match_object (ascii ''{}'') = Some (ascii ''{}'')"
    by (simp add: match_object_def match_at_def ascii_def)
  have r: "ai_reply ?ai ?req ?db = Some (ascii ''{}'')"
    by (simp add: ai_reply_def callAIModel_profile_def)
  have pa: "?parse (ascii ''{}'') = Some \<lparr>ai_interests = None, ai_values = None, ai_communicationStyle = None,
          ai_emotionTendency = None, ai_personalityVector = None, ai_summary = None\<rparr>"
    by simp
  have reach: "reaches_analysis ?req ?db"
    by (simp add: reaches_analysis_def falsy_def userOperations_findById_def pg_text_def ascii_def)
  note T = keyword_functions_per_field [of ?ai ?parse "\<lambda>s. s" "\<lambda>k. ascii ''p1''" 9 ?req ?db]
  from T [THEN conjunct2, THEN conjunct2, THEN conjunct2, THEN conjunct2, THEN conjunct2,
      THEN conjunct1, rule_format, OF conjI, OF r conjI, OF m pa]
  have "an_interests (analysis_of ?ai ?parse ?req ?db) = []" by (simp add: or_empty_def)
  with reach T [THEN conjunct1]
  have a: "ExtractInterests \<in> set (an_ran (analyze_route ?ai ?parse (\<lambda>s. s) (\<lambda>k. ascii ''p1'') 9 ?req ?db))"
    by blast
  have np: "\<not> ai_parsed ?down ?parse ?req ?db"
    by (simp add: ai_parsed_def ai_reply_def callAIModel_profile_def)
  from keyword_functions_per_field [of ?down ?parse "\<lambda>s. s" "\<lambda>k. ascii ''p1''" 9 ?req ?db,
      THEN conjunct2, THEN conjunct2, THEN conjunct2, THEN conjunct2, THEN conjunct1,
      rule_format, OF conjI, OF reach np]
  have b: "an_ran (analyze_route ?down ?parse (\<lambda>s. s) (\<lambda>k. ascii ''p1'') 9 ?req ?db)
      = [ExtractInterests, AnalyzeValues, GeneratePersonalityVector]" .
  show ?thesis using a b by (intro conjI)
qed

end
